theory Spec2Isabelle
  imports Complex_Main "HOL-Library.Word"
begin

section \<open>Values shared by the pipeline\<close>

text \<open>
  A parsed JSON document. A JavaScript property that is absent reads as \<open>undefined\<close>,
  which is \<open>None\<close> of \<open>json option\<close> below. Numbers are kept as integers: no
  operation modelled here computes with a number taken from a document.
\<close>

datatype json =
    JNull
  | JBool bool
  | JNum int
  | JStr string
  | JArr "json list"
  | JObj "(string \<times> json) list"

text \<open>A thrown \<open>Error\<close> object, with its message.\<close>

datatype error = Error string

fun message :: "error \<Rightarrow> string" where
  "message (Error m) = m"

text \<open>Decimal rendering of a number inside a template literal.\<close>

definition digit_char :: "nat \<Rightarrow> char" where
  "digit_char d = ''0123456789'' ! d"

fun show_nat :: "nat \<Rightarrow> string" where
  "show_nat n = (if n < 10 then [digit_char n] else show_nat (n div 10) @ [digit_char (n mod 10)])"

declare show_nat.simps [simp del]

section \<open>The document store (convex/schema.ts)\<close>

datatype status = pending | generating_outline | generating_content | completed | failed

datatype sourceType = pdf | topic

text \<open>
  The \<open>capsules\<close> table. The PDF source fields and the visibility flags are left out:
  no operation of the generation pipeline reads or writes them.
\<close>

record capsule =
  c_title :: string
  c_description :: "string option"
  userPrompt :: "string option"
  sourceType :: sourceType
  sourceTopic :: "string option"
  status :: status
  errorMessage :: "string option"
  moduleCount :: "nat option"
  lessonCount :: "nat option"
  estimatedDuration :: "int option"
  c_createdAt :: nat
  c_updatedAt :: nat
  c_completedAt :: "nat option"

text \<open>The outline as the interface \<open>CapsuleOutlineResponse\<close> declares it, with the
  \<open>title\<close> the module stage reads from it. The parsed response is cast to the interface
  unchecked; a response outside it is not modelled.\<close>

record lessonOutline =
  lo_title :: string
  lo_description :: "string option"

record moduleOutline =
  mo_title :: string
  mo_description :: "string option"
  mo_lessons :: "lessonOutline list option"

record outlineResponse =
  o_error :: "bool option"
  o_message :: "string option"
  o_title :: "string option"
  o_description :: "string option"
  o_estimatedDuration :: "int option"
  o_modules :: "moduleOutline list option"

text \<open>
  The \<open>capsuleGenerationJobs\<close> table. \<open>outlineJson\<close> holds \<open>JSON.stringify(outline)\<close>
  and the module stage reads \<open>JSON.parse\<close> of the same string: the field carries the
  outline value that the string serialises.
\<close>

record job =
  j_capsuleId :: nat
  generationId :: string
  currentStage :: string
  outlineGenerated :: bool
  modulesGenerated :: nat
  totalModules :: nat
  currentModuleIndex :: nat
  outlineJson :: "outlineResponse option"
  lastError :: "string option"
  retryCount :: nat
  startedAt :: nat
  j_updatedAt :: nat
  j_completedAt :: "nat option"

record capsuleModule =
  m_capsuleId :: nat
  m_title :: string
  m_description :: "string option"
  introduction :: "string option"
  learningObjectives :: "string list option"
  moduleSummary :: "string option"
  m_order :: nat
  m_createdAt :: nat

record capsuleLesson =
  l_moduleId :: nat
  l_capsuleId :: nat
  l_title :: string
  l_description :: "string option"
  l_order :: nat
  l_type :: string
  l_content :: json
  l_createdAt :: nat

text \<open>A handler invocation handed to \<open>ctx.scheduler.runAfter\<close>.\<close>

datatype call =
    GenerateOutline nat nat string
  | GenerateModuleContent nat nat string nat outlineResponse
  | FinalizeGeneration nat nat string

text \<open>The arguments of \<open>saveGeneratedModule\<close>, as the caller passes them: a field holds
  any value or is absent, the order is the index the caller computes.\<close>

record moduleData =
  md_title :: "json option"
  md_description :: "json option"
  md_introduction :: "json option"
  md_learningObjectives :: "json option"
  md_moduleSummary :: "json option"
  md_order :: nat

record lessonArg =
  la_title :: "json option"
  la_description :: "json option"
  la_order :: nat
  la_type :: string
  la_content :: json

text \<open>
  The store, the scheduler's queue (delay in milliseconds, call) and the clock that
  \<open>Date.now()\<close> reads. A table is the list of its documents in insertion order and a
  document's id is its position; no operation modelled here deletes a document.
  \<open>store_refuses\<close> stands for the Convex runtime under \<open>saveGeneratedModule\<close>: the error,
  if any, with which it refuses the call whatever the declared validators say (a value it
  does not store, such as an object with a reserved field name, or one beyond its limits
  of size and nesting). It is the same in every store of a run.
\<close>

record world =
  capsules :: "capsule list"
  capsuleGenerationJobs :: "job list"
  capsuleModules :: "capsuleModule list"
  capsuleLessons :: "capsuleLesson list"
  scheduled :: "(nat \<times> call) list"
  now :: nat
  store_refuses :: "moduleData \<Rightarrow> lessonArg list \<Rightarrow> error option"

section \<open>Actions: state passing with exceptions\<close>

type_synonym 'a action = "world \<Rightarrow> (error + 'a) \<times> world"

definition returnA :: "'a \<Rightarrow> 'a action" where
  "returnA x w = (Inr x, w)"

definition throwA :: "error \<Rightarrow> 'a action" where
  "throwA e w = (Inl e, w)"

definition bindA :: "'a action \<Rightarrow> ('a \<Rightarrow> 'b action) \<Rightarrow> 'b action" where
  "bindA m f w = (case m w of (Inl e, w') \<Rightarrow> (Inl e, w') | (Inr x, w') \<Rightarrow> f x w')"

definition thenA :: "'a action \<Rightarrow> 'b action \<Rightarrow> 'b action" where
  "thenA m k = bindA m (\<lambda>_. k)"

text \<open>\<open>try { m } catch (error) { h error }\<close>: the handler runs on the store as the failed
  body left it, every mutation being its own transaction.\<close>

definition try_catch :: "'a action \<Rightarrow> (error \<Rightarrow> 'a action) \<Rightarrow> 'a action" where
  "try_catch m h w = (case m w of (Inl e, w') \<Rightarrow> h e w' | (Inr x, w') \<Rightarrow> (Inr x, w'))"

section \<open>Queries and mutations (convex/capsules.ts)\<close>

definition getCapsule :: "nat \<Rightarrow> world \<Rightarrow> capsule option" where
  "getCapsule capsuleId w =
     (if capsuleId < length (capsules w) then Some (capsules w ! capsuleId) else None)"

definition getCapsuleForGeneration :: "nat \<Rightarrow> world \<Rightarrow> capsule option" where
  "getCapsuleForGeneration capsuleId w =
     (if capsuleId < length (capsules w) then Some (capsules w ! capsuleId) else None)"

definition getGenerationJobById :: "nat \<Rightarrow> world \<Rightarrow> job option" where
  "getGenerationJobById jobId w =
     (if jobId < length (capsuleGenerationJobs w)
      then Some (capsuleGenerationJobs w ! jobId) else None)"

definition createCapsule ::
  "string \<Rightarrow> sourceType \<Rightarrow> string option \<Rightarrow> string option \<Rightarrow> nat action" where
  "createCapsule title srcType srcTopic prompt w =
     (if length title < 2 \<or> length title > 200
      then (Inl (Error ''Title must be between 2 and 200 characters''), w)
      else if srcType = topic \<and> (srcTopic = None \<or> srcTopic = Some [])
      then (Inl (Error ''Topic is required for topic-based capsules''), w)
      else if (case srcTopic of None \<Rightarrow> False | Some t \<Rightarrow> length t > 500)
      then (Inl (Error ''Topic must be under 500 characters''), w)
      else (Inr (length (capsules w)),
            w\<lparr>capsules := capsules w @
               [\<lparr>c_title = title, c_description = None, userPrompt = prompt,
                 sourceType = srcType, sourceTopic = srcTopic, status = pending, errorMessage = None,
                 moduleCount = None, lessonCount = None, estimatedDuration = None,
                 c_createdAt = now w, c_updatedAt = now w, c_completedAt = None\<rparr>]\<rparr>))"

record statusArgs =
  a_status :: status
  a_errorMessage :: "string option"
  a_moduleCount :: "nat option"
  a_lessonCount :: "nat option"
  a_estimatedDuration :: "int option"
  a_description :: "string option"

definition status_args :: "status \<Rightarrow> statusArgs" where
  "status_args s =
     \<lparr>a_status = s, a_errorMessage = None, a_moduleCount = None, a_lessonCount = None,
      a_estimatedDuration = None, a_description = None\<rparr>"

text \<open>An optional argument overwrites the stored field only when it is given.\<close>

definition given :: "'a option \<Rightarrow> 'a option \<Rightarrow> 'a option" where
  "given arg old = (case arg of None \<Rightarrow> old | Some v \<Rightarrow> Some v)"

definition patch_capsule :: "nat \<Rightarrow> statusArgs \<Rightarrow> capsule \<Rightarrow> capsule" where
  "patch_capsule t a c =
     c\<lparr>status := a_status a,
       c_updatedAt := t,
       errorMessage := given (a_errorMessage a) (errorMessage c),
       moduleCount := given (a_moduleCount a) (moduleCount c),
       lessonCount := given (a_lessonCount a) (lessonCount c),
       estimatedDuration := given (a_estimatedDuration a) (estimatedDuration c),
       c_description := given (a_description a) (c_description c),
       c_completedAt := (if a_status a = completed then Some t else c_completedAt c)\<rparr>"

definition updateCapsuleStatus :: "nat \<Rightarrow> statusArgs \<Rightarrow> unit action" where
  "updateCapsuleStatus capsuleId a w =
     (if capsuleId < length (capsules w)
      then (Inr (), w\<lparr>capsules :=
              (capsules w)[capsuleId := patch_capsule (now w) a (capsules w ! capsuleId)]\<rparr>)
      else (Inl (Error ''Update on nonexistent document''), w))"

definition createGenerationJob :: "nat \<Rightarrow> string \<Rightarrow> nat action" where
  "createGenerationJob capsuleId gid w =
     (Inr (length (capsuleGenerationJobs w)),
      w\<lparr>capsuleGenerationJobs := capsuleGenerationJobs w @
         [\<lparr>j_capsuleId = capsuleId, generationId = gid, currentStage = ''outline'',
           outlineGenerated = False, modulesGenerated = 0, totalModules = 0,
           currentModuleIndex = 0, outlineJson = None, lastError = None, retryCount = 0,
           startedAt = now w, j_updatedAt = now w, j_completedAt = None\<rparr>]\<rparr>)"

record jobUpdates =
  u_currentStage :: "string option"
  u_outlineGenerated :: "bool option"
  u_outlineJson :: "outlineResponse option"
  u_modulesGenerated :: "nat option"
  u_totalModules :: "nat option"
  u_currentModuleIndex :: "nat option"
  u_lastError :: "string option"
  u_retryCount :: "nat option"
  u_completedAt :: "nat option"

definition no_updates :: jobUpdates where
  "no_updates =
     \<lparr>u_currentStage = None, u_outlineGenerated = None, u_outlineJson = None,
      u_modulesGenerated = None, u_totalModules = None, u_currentModuleIndex = None,
      u_lastError = None, u_retryCount = None, u_completedAt = None\<rparr>"

definition patch_job :: "nat \<Rightarrow> jobUpdates \<Rightarrow> job \<Rightarrow> job" where
  "patch_job t u j =
     j\<lparr>currentStage := (case u_currentStage u of None \<Rightarrow> currentStage j | Some v \<Rightarrow> v),
       outlineGenerated :=
         (case u_outlineGenerated u of None \<Rightarrow> outlineGenerated j | Some v \<Rightarrow> v),
       outlineJson := given (u_outlineJson u) (outlineJson j),
       modulesGenerated :=
         (case u_modulesGenerated u of None \<Rightarrow> modulesGenerated j | Some v \<Rightarrow> v),
       totalModules := (case u_totalModules u of None \<Rightarrow> totalModules j | Some v \<Rightarrow> v),
       currentModuleIndex :=
         (case u_currentModuleIndex u of None \<Rightarrow> currentModuleIndex j | Some v \<Rightarrow> v),
       lastError := given (u_lastError u) (lastError j),
       retryCount := (case u_retryCount u of None \<Rightarrow> retryCount j | Some v \<Rightarrow> v),
       j_completedAt := given (u_completedAt u) (j_completedAt j),
       j_updatedAt := t\<rparr>"

definition updateGenerationJob :: "nat \<Rightarrow> jobUpdates \<Rightarrow> unit action" where
  "updateGenerationJob jobId u w =
     (if jobId < length (capsuleGenerationJobs w)
      then (Inr (), w\<lparr>capsuleGenerationJobs :=
              (capsuleGenerationJobs w)
                [jobId := patch_job (now w) u (capsuleGenerationJobs w ! jobId)]\<rparr>)
      else (Inl (Error ''Update on nonexistent document''), w))"

definition runAfter :: "nat \<Rightarrow> call \<Rightarrow> unit action" where
  "runAfter delay c w = (Inr (), w\<lparr>scheduled := scheduled w @ [(delay, c)]\<rparr>)"

section \<open>JavaScript reads of a parsed document\<close>

fun truthy :: "json \<Rightarrow> bool" where
  "truthy JNull = False"
| "truthy (JBool b) = b"
| "truthy (JNum n) = (n \<noteq> 0)"
| "truthy (JStr s) = (s \<noteq> [])"
| "truthy (JArr xs) = True"
| "truthy (JObj kvs) = True"

text \<open>\<open>a || b\<close> on values that may be \<open>undefined\<close>.\<close>

definition js_or :: "json option \<Rightarrow> json option \<Rightarrow> json option" where
  "js_or a b = (case a of None \<Rightarrow> b | Some v \<Rightarrow> if truthy v then Some v else b)"

text \<open>\<open>x.k\<close>: a \<open>TypeError\<close> on \<open>null\<close>, the own property of an object, \<open>undefined\<close> on
  any other value (none of the keys read below is a property of a string, a number or an
  array).\<close>

fun js_prop :: "json \<Rightarrow> string \<Rightarrow> error + json option" where
  "js_prop JNull k = Inl (Error (''Cannot read properties of null (reading '' @ k @ '')''))"
| "js_prop (JObj kvs) k = Inr (map_of kvs k)"
| "js_prop v k = Inr None"

text \<open>\<open>a || b\<close> on an optional string with a string default.\<close>

definition str_or :: "string option \<Rightarrow> string \<Rightarrow> string" where
  "str_or a b = (case a of None \<Rightarrow> b | Some s \<Rightarrow> if s = [] then b else s)"

section \<open>Argument validators of \<open>saveGeneratedModule\<close>\<close>

fun v_string :: "json option \<Rightarrow> bool" where
  "v_string (Some (JStr s)) = True"
| "v_string x = False"

definition v_optional_string :: "json option \<Rightarrow> bool" where
  "v_optional_string x = (x = None \<or> v_string x)"

fun v_optional_array_string :: "json option \<Rightarrow> bool" where
  "v_optional_array_string None = True"
| "v_optional_array_string (Some (JArr xs)) = list_all (\<lambda>x. v_string (Some x)) xs"
| "v_optional_array_string x = False"

fun as_string :: "json option \<Rightarrow> string option" where
  "as_string (Some (JStr s)) = Some s"
| "as_string x = None"

fun as_string_list :: "json option \<Rightarrow> string list option" where
  "as_string_list (Some (JArr xs)) = Some (map (\<lambda>x. case x of JStr s \<Rightarrow> s | _ \<Rightarrow> []) xs)"
| "as_string_list x = None"

definition valid_moduleData :: "moduleData \<Rightarrow> bool" where
  "valid_moduleData d =
     (v_string (md_title d) \<and> v_optional_string (md_description d) \<and>
      v_optional_string (md_introduction d) \<and>
      v_optional_array_string (md_learningObjectives d) \<and>
      v_optional_string (md_moduleSummary d))"

text \<open>\<open>content\<close> is declared \<open>v.any()\<close>: the validator looks at a lesson's title and
  description only. What the runtime itself refuses (a value it does not store, its limits
  of size and nesting) is the \<open>store_refuses\<close> of the store; the mutation is a transaction,
  so a refused call writes nothing.\<close>

definition valid_lessonArg :: "lessonArg \<Rightarrow> bool" where
  "valid_lessonArg l = (v_string (la_title l) \<and> v_optional_string (la_description l))"

definition lesson_row :: "nat \<Rightarrow> nat \<Rightarrow> nat \<Rightarrow> lessonArg \<Rightarrow> capsuleLesson" where
  "lesson_row t moduleId capsuleId l =
     \<lparr>l_moduleId = moduleId, l_capsuleId = capsuleId,
      l_title = (case as_string (la_title l) of Some s \<Rightarrow> s | None \<Rightarrow> []),
      l_description = as_string (la_description l), l_order = la_order l,
      l_type = la_type l, l_content = la_content l, l_createdAt = t\<rparr>"

definition saveGeneratedModule :: "nat \<Rightarrow> moduleData \<Rightarrow> lessonArg list \<Rightarrow> nat action" where
  "saveGeneratedModule capsuleId d ls w =
     (if store_refuses w d ls \<noteq> None
      then (Inl (the (store_refuses w d ls)), w)
      else if \<not> (valid_moduleData d \<and> list_all valid_lessonArg ls)
      then (Inl (Error ''ArgumentValidationError''), w)
      else
        (let moduleId = length (capsuleModules w) in
         (Inr moduleId,
          w\<lparr>capsuleModules := capsuleModules w @
               [\<lparr>m_capsuleId = capsuleId,
                 m_title = (case as_string (md_title d) of Some s \<Rightarrow> s | None \<Rightarrow> []),
                 m_description = as_string (md_description d),
                 introduction = as_string (md_introduction d),
                 learningObjectives = as_string_list (md_learningObjectives d),
                 moduleSummary = as_string (md_moduleSummary d),
                 m_order = md_order d, m_createdAt = now w\<rparr>],
            capsuleLessons := capsuleLessons w @
               map (lesson_row (now w) moduleId capsuleId) ls\<rparr>)))"

section \<open>The orchestrator (convex/capsuleGeneration.ts)\<close>

record startResult =
  success :: bool
  r_generationId :: "string option"
  r_jobId :: "nat option"
  r_error :: "string option"

text \<open>\<open>rnd\<close> is the suffix \<open>Math.random().toString(36).slice(2, 9)\<close> of the generation id.\<close>

definition generateCapsuleContent :: "string \<Rightarrow> nat \<Rightarrow> startResult action" where
  "generateCapsuleContent rnd capsuleId w =
     (case getCapsule capsuleId w of
        None \<Rightarrow> throwA (Error ''Capsule not found'') w
      | Some capsule \<Rightarrow>
          if status capsule \<noteq> pending \<and> status capsule \<noteq> failed
          then returnA \<lparr>success = False, r_generationId = None, r_jobId = None,
                 r_error = Some ''Capsule is already being generated or completed''\<rparr> w
          else
            (let gid = ''gen_'' @ show_nat (now w) @ ''_'' @ rnd in
             bindA (createGenerationJob capsuleId gid) (\<lambda>jobId.
             thenA (updateCapsuleStatus capsuleId (status_args generating_outline))
            (thenA (runAfter 0 (GenerateOutline capsuleId jobId gid))
                   (returnA \<lparr>success = True, r_generationId = Some gid,
                      r_jobId = Some jobId, r_error = None\<rparr>)))) w)"

definition totalLessons_of :: "moduleOutline list option \<Rightarrow> nat" where
  "totalLessons_of ms =
     (case ms of None \<Rightarrow> 0
      | Some l \<Rightarrow> sum_list (map (\<lambda>m. case mo_lessons m of None \<Rightarrow> 0 | Some ls \<Rightarrow> length ls) l))"

definition totalModules_of :: "moduleOutline list option \<Rightarrow> nat" where
  "totalModules_of ms = (case ms of None \<Rightarrow> 0 | Some l \<Rightarrow> length l)"

text \<open>
  The outline stage. \<open>generateCapsuleOutlineAI\<close> stands for the model call with its
  response parsed: it answers the topic and the guidance with an outline, or throws.
\<close>

definition generateOutline ::
  "(string \<Rightarrow> string \<Rightarrow> error + outlineResponse) \<Rightarrow> nat \<Rightarrow> nat \<Rightarrow> string \<Rightarrow> unit action" where
  "generateOutline generateCapsuleOutlineAI capsuleId jobId gid =
     try_catch
       (\<lambda>w. case getCapsuleForGeneration capsuleId w of
          None \<Rightarrow> throwA (Error ''Capsule not found'') w
        | Some capsule \<Rightarrow>
           (case generateCapsuleOutlineAI
                   (str_or (sourceTopic capsule) (c_title capsule))
                   (str_or (userPrompt capsule) []) of
              Inl e \<Rightarrow> throwA e w
            | Inr outline \<Rightarrow>
                if o_error outline = Some True
                then updateCapsuleStatus capsuleId
                       ((status_args failed)
                          \<lparr>a_errorMessage :=
                             Some (str_or (o_message outline) ''Content generation failed'')\<rparr>) w
                else
                  thenA (updateCapsuleStatus capsuleId
                           ((status_args generating_content)
                              \<lparr>a_description := o_description outline,
                               a_moduleCount := Some (totalModules_of (o_modules outline)),
                               a_lessonCount := Some (totalLessons_of (o_modules outline)),
                               a_estimatedDuration :=
                                 Some (case o_estimatedDuration outline of
                                         None \<Rightarrow> 30 | Some n \<Rightarrow> if n = 0 then 30 else n)\<rparr>))
                 (thenA (updateGenerationJob jobId
                           (no_updates
                              \<lparr>u_outlineGenerated := Some True,
                               u_outlineJson := Some outline,
                               u_totalModules := Some (totalModules_of (o_modules outline)),
                               u_currentStage := Some ''module_0''\<rparr>))
                   (if totalModules_of (o_modules outline) > 0
                    then runAfter 0 (GenerateModuleContent capsuleId jobId gid 0 outline)
                    else thenA (updateCapsuleStatus capsuleId (status_args completed))
                               (updateGenerationJob jobId
                                  (no_updates
                                     \<lparr>u_currentStage := Some ''completed'',
                                      u_completedAt := Some (now w)\<rparr>)))) w))
       (\<lambda>error.
          thenA (updateCapsuleStatus capsuleId
                   ((status_args failed)\<lparr>a_errorMessage := Some (message error)\<rparr>))
                (updateGenerationJob jobId
                   (no_updates\<lparr>u_lastError := Some (message error)\<rparr>)))"

record moduleInput =
  i_topic :: string
  i_capsuleTitle :: "string option"
  i_capsuleDescription :: "string option"
  i_moduleTitle :: string
  i_moduleDescription :: string
  i_moduleIndex :: nat
  i_lessons :: "lessonOutline list"

text \<open>One element of \<open>(moduleContent.lessons || []).map((lesson, idx) => ...)\<close>.\<close>

definition lesson_arg :: "nat \<Rightarrow> json \<Rightarrow> error + lessonArg" where
  "lesson_arg idx lesson =
     (case js_prop lesson ''title'' of
        Inl e \<Rightarrow> Inl e
      | Inr t \<Rightarrow>
         (case js_prop lesson ''description'' of
            Inl e \<Rightarrow> Inl e
          | Inr d \<Rightarrow>
             (case js_prop lesson ''content'' of
                Inl e \<Rightarrow> Inl e
              | Inr c \<Rightarrow>
                  Inr \<lparr>la_title = js_or t (Some (JStr (''Lesson '' @ show_nat (idx + 1)))),
                       la_description = d, la_order = idx, la_type = ''mixed'',
                       la_content = (case js_or c (Some lesson) of
                                       Some v \<Rightarrow> v | None \<Rightarrow> lesson)\<rparr>)))"

fun lesson_args :: "nat \<Rightarrow> json list \<Rightarrow> error + lessonArg list" where
  "lesson_args idx [] = Inr []"
| "lesson_args idx (lesson # rest) =
     (case lesson_arg idx lesson of
        Inl e \<Rightarrow> Inl e
      | Inr a \<Rightarrow> (case lesson_args (idx + 1) rest of Inl e \<Rightarrow> Inl e | Inr as \<Rightarrow> Inr (a # as)))"

text \<open>The arguments of the \<open>saveGeneratedModule\<close> call, as the module stage builds them
  from the generator's parsed response.\<close>

definition module_args ::
  "moduleOutline \<Rightarrow> nat \<Rightarrow> json \<Rightarrow> error + (moduleData \<times> lessonArg list)" where
  "module_args mo moduleIndex moduleContent =
     (case js_prop moduleContent ''title'' of
        Inl e \<Rightarrow> Inl e
      | Inr t \<Rightarrow>
         (let d = \<lparr>md_title = js_or t (Some (JStr (mo_title mo))),
                   md_description =
                     js_or (case js_prop moduleContent ''description'' of
                              Inr x \<Rightarrow> x | Inl e \<Rightarrow> None)
                           (map_option JStr (mo_description mo)),
                   md_introduction =
                     (case js_prop moduleContent ''introduction'' of
                        Inr x \<Rightarrow> x | Inl e \<Rightarrow> None),
                   md_learningObjectives =
                     (case js_prop moduleContent ''learningObjectives'' of
                        Inr x \<Rightarrow> x | Inl e \<Rightarrow> None),
                   md_moduleSummary =
                     (case js_prop moduleContent ''moduleSummary'' of
                        Inr x \<Rightarrow> x | Inl e \<Rightarrow> None),
                   md_order = moduleIndex\<rparr>
          in case js_or (case js_prop moduleContent ''lessons'' of
                           Inr x \<Rightarrow> x | Inl e \<Rightarrow> None) (Some (JArr [])) of
               Some (JArr ls) \<Rightarrow>
                 (case lesson_args 0 ls of Inl e \<Rightarrow> Inl e | Inr as \<Rightarrow> Inr (d, as))
             | other \<Rightarrow> Inl (Error ''(moduleContent.lessons || []).map is not a function'')))"

text \<open>
  The module-content stage. \<open>generateModuleContentAI\<close> stands for the model call followed
  by \<open>extractJsonFromResponse\<close>: it answers with the parsed document, or throws. The stage
  is a \<open>try\<close> block and its \<open>catch\<close> block, given here one after the other.
\<close>

text \<open>The argument of the \<open>generateModuleContentAI\<close> call.\<close>

definition module_input ::
  "capsule \<Rightarrow> outlineResponse \<Rightarrow> moduleOutline \<Rightarrow> nat \<Rightarrow> moduleInput" where
  "module_input capsule outline moduleOutline moduleIndex =
     \<lparr>i_topic = str_or (sourceTopic capsule) (c_title capsule),
      i_capsuleTitle = o_title outline,
      i_capsuleDescription = o_description outline,
      i_moduleTitle = mo_title moduleOutline,
      i_moduleDescription = str_or (mo_description moduleOutline) [],
      i_moduleIndex = moduleIndex,
      i_lessons = (case mo_lessons moduleOutline of None \<Rightarrow> [] | Some ls \<Rightarrow> ls)\<rparr>"

definition generateModuleContent_try ::
  "(moduleInput \<Rightarrow> error + json) \<Rightarrow> nat \<Rightarrow> nat \<Rightarrow> string \<Rightarrow> nat \<Rightarrow> outlineResponse \<Rightarrow>
   unit action" where
  "generateModuleContent_try generateModuleContentAI capsuleId jobId gid moduleIndex outline w =
     (case o_modules outline of
        None \<Rightarrow> throwA (Error ''Cannot read properties of undefined'') w
      | Some modules \<Rightarrow>
         if \<not> moduleIndex < length modules
         then throwA (Error (''Module '' @ show_nat moduleIndex @ '' not found in outline'')) w
         else
          (let moduleOutline = modules ! moduleIndex in
           case getCapsuleForGeneration capsuleId w of
             None \<Rightarrow> throwA (Error ''Capsule not found'') w
           | Some capsule \<Rightarrow>
              (case generateModuleContentAI
                      (module_input capsule outline moduleOutline moduleIndex) of
                 Inl e \<Rightarrow> throwA e w
               | Inr moduleContent \<Rightarrow>
                  (case module_args moduleOutline moduleIndex moduleContent of
                     Inl e \<Rightarrow> throwA e w
                   | Inr (d, ls) \<Rightarrow>
                      (let nextModuleIndex = moduleIndex + 1;
                           isLastModule = (nextModuleIndex \<ge> length modules)
                       in
                       bindA (saveGeneratedModule capsuleId d ls) (\<lambda>moduleId.
                       thenA (updateGenerationJob jobId
                                (no_updates
                                   \<lparr>u_modulesGenerated := Some nextModuleIndex,
                                    u_currentModuleIndex := Some nextModuleIndex,
                                    u_currentStage :=
                                      Some (if isLastModule then ''finalizing''
                                            else ''module_'' @ show_nat nextModuleIndex)\<rparr>))
                             (if isLastModule
                              then runAfter 0 (FinalizeGeneration capsuleId jobId gid)
                              else runAfter 0
                                     (GenerateModuleContent capsuleId jobId gid
                                        nextModuleIndex outline)))) w))))"

definition generateModuleContent_catch ::
  "nat \<Rightarrow> nat \<Rightarrow> string \<Rightarrow> nat \<Rightarrow> outlineResponse \<Rightarrow> error \<Rightarrow> unit action" where
  "generateModuleContent_catch capsuleId jobId gid moduleIndex outline error w =
     (let retryCount =
            (case getGenerationJobById jobId w of
               None \<Rightarrow> 0 | Some job \<Rightarrow> retryCount job) + 1
      in
      if retryCount < 3
      then thenA (updateGenerationJob jobId
                    (no_updates\<lparr>u_retryCount := Some retryCount,
                                u_lastError := Some (message error)\<rparr>))
                 (runAfter (2 ^ retryCount * 1000)
                    (GenerateModuleContent capsuleId jobId gid moduleIndex outline)) w
      else thenA (updateCapsuleStatus capsuleId
                    ((status_args failed)
                       \<lparr>a_errorMessage :=
                          Some (''Failed to generate module '' @ show_nat (moduleIndex + 1)
                                @ '' after 3 attempts'')\<rparr>))
                 (updateGenerationJob jobId
                    (no_updates\<lparr>u_lastError := Some (message error)\<rparr>)) w)"

definition generateModuleContent ::
  "(moduleInput \<Rightarrow> error + json) \<Rightarrow> nat \<Rightarrow> nat \<Rightarrow> string \<Rightarrow> nat \<Rightarrow> outlineResponse \<Rightarrow>
   unit action" where
  "generateModuleContent generateModuleContentAI capsuleId jobId gid moduleIndex outline =
     try_catch
       (generateModuleContent_try generateModuleContentAI capsuleId jobId gid moduleIndex
          outline)
       (generateModuleContent_catch capsuleId jobId gid moduleIndex outline)"

definition finalizeGeneration :: "nat \<Rightarrow> nat \<Rightarrow> string \<Rightarrow> unit action" where
  "finalizeGeneration capsuleId jobId gid =
     try_catch
       (\<lambda>w. thenA (updateCapsuleStatus capsuleId (status_args completed))
                   (updateGenerationJob jobId
                      (no_updates\<lparr>u_currentStage := Some ''completed'',
                                  u_completedAt := Some (now w)\<rparr>)) w)
       (\<lambda>error.
          updateCapsuleStatus capsuleId
            ((status_args failed)\<lparr>a_errorMessage := Some ''Failed to finalize generation''\<rparr>))"

section \<open>Sample data\<close>

definition sample_outline :: outlineResponse where
  "sample_outline =
     \<lparr>o_error = None, o_message = None, o_title = Some ''Stacks and queues'',
      o_description = Some ''Two linear containers'', o_estimatedDuration = Some 20,
      o_modules = Some
        [\<lparr>mo_title = ''Stacks'', mo_description = None,
          mo_lessons = Some [\<lparr>lo_title = ''Push and pop'', lo_description = None\<rparr>]\<rparr>,
         \<lparr>mo_title = ''Queues'', mo_description = None,
          mo_lessons = Some [\<lparr>lo_title = ''Enqueue and dequeue'', lo_description = None\<rparr>]\<rparr>]\<rparr>"

definition sample_capsule :: "status \<Rightarrow> capsule" where
  "sample_capsule s =
     \<lparr>c_title = ''Stacks and queues'', c_description = None, userPrompt = None,
      sourceType = topic, sourceTopic = Some ''Stacks and queues'', status = s,
      errorMessage = None, moduleCount = None, lessonCount = None,
      estimatedDuration = None, c_createdAt = 0, c_updatedAt = 0, c_completedAt = None\<rparr>"

definition sample_job :: job where
  "sample_job =
     \<lparr>j_capsuleId = 0, generationId = ''gen_0_abc'', currentStage = ''module_0'',
      outlineGenerated = True, modulesGenerated = 0, totalModules = 2,
      currentModuleIndex = 0, outlineJson = Some sample_outline, lastError = None,
      retryCount = 0, startedAt = 0, j_updatedAt = 0, j_completedAt = None\<rparr>"

text \<open>A store with one capsule in the given status and no job.\<close>

definition capsule_world :: "status \<Rightarrow> world" where
  "capsule_world s =
     \<lparr>capsules = [sample_capsule s], capsuleGenerationJobs = [], capsuleModules = [],
      capsuleLessons = [], scheduled = [], now = 0, store_refuses = (\<lambda>d ls. None)\<rparr>"

text \<open>A store in the middle of the module stage: outline stored, no module generated yet.\<close>

definition module_stage_world :: world where
  "module_stage_world =
     \<lparr>capsules = [sample_capsule generating_content], capsuleGenerationJobs = [sample_job],
      capsuleModules = [], capsuleLessons = [], scheduled = [], now = 0,
      store_refuses = (\<lambda>d ls. None)\<rparr>"

text \<open>The store after an invocation of the module stage in which the generator throws.\<close>

definition module_failure ::
  "error \<Rightarrow> nat \<Rightarrow> nat \<Rightarrow> string \<Rightarrow> nat \<Rightarrow> outlineResponse \<Rightarrow> world \<Rightarrow> world" where
  "module_failure e capsuleId jobId gid moduleIndex outline w =
     snd (generateModuleContent (\<lambda>input. Inl e) capsuleId jobId gid moduleIndex outline w)"

text \<open>
  The stores that \<open>generateCapsuleContent\<close> passes through once the start guard has let
  it go on: after \<open>createGenerationJob\<close>, after \<open>updateCapsuleStatus\<close>, and after the
  outline stage is scheduled. Each mutation commits on its own.
\<close>

definition generateCapsuleContent_states :: "string \<Rightarrow> nat \<Rightarrow> world \<Rightarrow> world list" where
  "generateCapsuleContent_states rnd capsuleId w =
     (case getCapsule capsuleId w of
        None \<Rightarrow> []
      | Some capsule \<Rightarrow>
          if status capsule \<noteq> pending \<and> status capsule \<noteq> failed then []
          else
            (let gid = ''gen_'' @ show_nat (now w) @ ''_'' @ rnd;
                 jobId = length (capsuleGenerationJobs w);
                 w1 = snd (createGenerationJob capsuleId gid w);
                 w2 = snd (updateCapsuleStatus capsuleId (status_args generating_outline) w1);
                 w3 = snd (runAfter 0 (GenerateOutline capsuleId jobId gid) w2)
             in [w1, w2, w3]))"


text \<open>An outline generator that answers every topic with the same response.\<close>

definition answer_outline :: "outlineResponse \<Rightarrow> string \<Rightarrow> string \<Rightarrow> error + outlineResponse" where
  "answer_outline r tpc guidance = Inr r"

definition rejection :: "string option \<Rightarrow> outlineResponse" where
  "rejection m =
     \<lparr>o_error = Some True, o_message = m, o_title = None, o_description = None,
      o_estimatedDuration = None, o_modules = None\<rparr>"

text \<open>A store at the outline stage: the capsule is \<open>generating_outline\<close> and its job has
  just been created.\<close>

definition outline_stage_world :: world where
  "outline_stage_world =
     \<lparr>capsules = [sample_capsule generating_outline],
      capsuleGenerationJobs =
        [sample_job\<lparr>currentStage := ''outline'', outlineGenerated := False,
                    totalModules := 0, outlineJson := None\<rparr>],
      capsuleModules = [], capsuleLessons = [],
      scheduled = [], now = 0, store_refuses = (\<lambda>d ls. None)\<rparr>"

section \<open>The section-quiz schema of the notes generator\<close>

text \<open>
  A zod schema is modelled by what \<open>parse\<close> does with a parsed document: it collects
  issues (their messages are kept, their paths are not) and yields a value unless the
  document has the wrong shape. A failed \<open>min\<close> check leaves the value in place
  (\<open>Some\<close>), a wrong type aborts (\<open>None\<close>); \<open>superRefine\<close> runs unless the object
  aborted. The document is accepted (\<open>Inr\<close>) when no issue was raised.
\<close>

fun received :: "json \<Rightarrow> string" where
  "received JNull = ''null''"
| "received (JBool b) = ''boolean''"
| "received (JNum n) = ''number''"
| "received (JStr s) = ''string''"
| "received (JArr xs) = ''array''"
| "received (JObj kvs) = ''object''"

text \<open>\<open>z.string().min(1, msg)\<close>\<close>

fun z_string_min1 :: "string \<Rightarrow> json option \<Rightarrow> string list \<times> string option" where
  "z_string_min1 msg None = ([''Required''], None)"
| "z_string_min1 msg (Some (JStr s)) = (if s = [] then [msg] else [], Some s)"
| "z_string_min1 msg (Some v) = ([''Expected string, received '' @ received v], None)"

definition quizQuestionTypes :: "string list" where
  "quizQuestionTypes = [''mcq'', ''true-false'', ''fill-blank'']"

text \<open>\<open>z.enum(quizQuestionTypes)\<close>\<close>

fun z_enum_type :: "json option \<Rightarrow> string list \<times> string option" where
  "z_enum_type None = ([''Required''], None)"
| "z_enum_type (Some (JStr s)) =
     (if s \<in> set quizQuestionTypes then ([], Some s)
      else ([''Invalid enum value. Expected 'mcq' | 'true-false' | 'fill-blank', received ''
             @ [CHR 0x27] @ s @ [CHR 0x27]], None))"
| "z_enum_type (Some v) =
     ([''Expected 'mcq' | 'true-false' | 'fill-blank', received '' @ received v], None)"

text \<open>The elements of \<open>z.array(z.string().min(1))\<close>.\<close>

fun z_strings_min1 :: "json list \<Rightarrow> string list \<times> string list option" where
  "z_strings_min1 [] = ([], Some [])"
| "z_strings_min1 (x # xs) =
     (case (z_string_min1 ''String must contain at least 1 character(s)'' (Some x),
            z_strings_min1 xs) of
        ((i1, Some s), (i2, Some ss)) \<Rightarrow> (i1 @ i2, Some (s # ss))
      | ((i1, a), (i2, b)) \<Rightarrow> (i1 @ i2, None))"

text \<open>\<open>z.array(z.string().min(1)).optional()\<close>: the value is the optional array.\<close>

fun z_options :: "json option \<Rightarrow> string list \<times> string list option option" where
  "z_options None = ([], Some None)"
| "z_options (Some (JArr xs)) =
     (case z_strings_min1 xs of (i, Some ss) \<Rightarrow> (i, Some (Some ss)) | (i, None) \<Rightarrow> (i, None))"
| "z_options (Some v) = ([''Expected array, received '' @ received v], None)"

record quizItem =
  q_type :: string
  question :: string
  options :: "string list option"
  correctAnswer :: string
  explanation :: string

text \<open>The \<open>z.object\<close> under the refinement.\<close>

definition sectionQuizObject :: "json \<Rightarrow> string list \<times> quizItem option" where
  "sectionQuizObject j =
     (case j of
        JObj kvs \<Rightarrow>
          (case (z_enum_type (map_of kvs ''type''),
                 z_string_min1 ''Quiz question cannot be empty'' (map_of kvs ''question''),
                 z_options (map_of kvs ''options''),
                 z_string_min1 ''Quiz answer cannot be empty'' (map_of kvs ''correctAnswer''),
                 z_string_min1 ''Quiz explanation cannot be empty''
                   (map_of kvs ''explanation'')) of
             ((i1, Some t), (i2, Some q), (i3, Some os), (i4, Some a), (i5, Some e)) \<Rightarrow>
               (i1 @ i2 @ i3 @ i4 @ i5,
                Some \<lparr>q_type = t, question = q, options = os, correctAnswer = a,
                      explanation = e\<rparr>)
           | ((i1, t), (i2, q), (i3, os), (i4, a), (i5, e)) \<Rightarrow>
               (i1 @ i2 @ i3 @ i4 @ i5, None))
      | v \<Rightarrow> ([''Expected object, received '' @ received v], None))"

text \<open>The body of \<open>superRefine\<close>: the issues it adds.\<close>

definition quiz_refinement :: "quizItem \<Rightarrow> string list" where
  "quiz_refinement v =
     (if q_type v = ''mcq''
      then (if options v = None \<or> length (the (options v)) \<noteq> 4
            then [''Multiple choice questions require exactly 4 options'']
            else if correctAnswer v \<notin> set (the (options v))
            then [''Correct answer must be one of the provided options'']
            else [])
      else [])
     @
     (if q_type v \<noteq> ''mcq'' \<and> options v \<noteq> None \<and> length (the (options v)) > 0
      then [''Only multiple choice questions can include options'']
      else [])"

definition sectionQuizSchema :: "json \<Rightarrow> string list + quizItem" where
  "sectionQuizSchema j =
     (case sectionQuizObject j of
        (issues, None) \<Rightarrow> Inl issues
      | (issues, Some v) \<Rightarrow>
          (if issues @ quiz_refinement v = [] then Inr v
           else Inl (issues @ quiz_refinement v)))"

definition quiz_document :: "string \<Rightarrow> string list \<Rightarrow> string \<Rightarrow> json" where
  "quiz_document t os a =
     JObj [(''type'', JStr t), (''question'', JStr ''Which container is LIFO?''),
           (''options'', JArr (map JStr os)), (''correctAnswer'', JStr a),
           (''explanation'', JStr ''A stack pops the last element pushed.'')]"

definition quiz_value :: "string \<Rightarrow> string list option \<Rightarrow> string \<Rightarrow> quizItem" where
  "quiz_value t os a =
     \<lparr>q_type = t, question = ''Which container is LIFO?'', options = os, correctAnswer = a,
      explanation = ''A stack pops the last element pushed.''\<rparr>"

text \<open>
  A quiz document of type \<open>mcq\<close> whose fields have the types the object schema declares:
  \<open>question\<close>, \<open>correctAnswer\<close> and \<open>explanation\<close> are strings and \<open>options\<close> is an array
  of strings (\<open>Some\<close>) or is absent (\<open>None\<close>).
\<close>

definition typed_mcq :: "(string \<times> json) list \<Rightarrow> string list option \<Rightarrow> string \<Rightarrow> bool" where
  "typed_mcq kvs ops a =
     (map_of kvs ''type'' = Some (JStr ''mcq'')
      \<and> (case map_of kvs ''question'' of Some (JStr q) \<Rightarrow> True | other \<Rightarrow> False)
      \<and> map_of kvs ''options'' = map_option (\<lambda>os. JArr (map JStr os)) ops
      \<and> map_of kvs ''correctAnswer'' = Some (JStr a)
      \<and> (case map_of kvs ''explanation'' of Some (JStr e) \<Rightarrow> True | other \<Rightarrow> False))"

text \<open>A quiz document without its \<open>explanation\<close> field.\<close>

definition quiz_document_unexplained :: "string \<Rightarrow> string list \<Rightarrow> string \<Rightarrow> json" where
  "quiz_document_unexplained t os a =
     JObj [(''type'', JStr t), (''question'', JStr ''Which container is LIFO?''),
           (''options'', JArr (map JStr os)), (''correctAnswer'', JStr a)]"

section \<open>Runs of the pipeline\<close>

text \<open>
  The scheduler hands a queued call to its handler once and removes it from the queue;
  delays order calls in time only, so any queued call may be the next to run. A handler
  invocation is one step: the job and module tables are written by handlers of the
  generation pipeline only. The other steps are the public entry points (creating a
  capsule, starting a generation, \<open>updateCapsuleStatus\<close>) and the passing of time.
  \<open>deleteCapsule\<close> is not a step.
\<close>

definition dequeue :: "nat \<Rightarrow> world \<Rightarrow> world" where
  "dequeue k w = w\<lparr>scheduled := take k (scheduled w) @ drop (Suc k) (scheduled w)\<rparr>"

fun run_call ::
  "(string \<Rightarrow> string \<Rightarrow> error + outlineResponse) \<Rightarrow> (moduleInput \<Rightarrow> error + json) \<Rightarrow> call \<Rightarrow>
   unit action" where
  "run_call oai mai (GenerateOutline c j g) = generateOutline oai c j g"
| "run_call oai mai (GenerateModuleContent c j g i ol) = generateModuleContent mai c j g i ol"
| "run_call oai mai (FinalizeGeneration c j g) = finalizeGeneration c j g"

definition initial ::
  "nat \<Rightarrow> (moduleData \<Rightarrow> lessonArg list \<Rightarrow> error option) \<Rightarrow> world" where
  "initial t r =
     \<lparr>capsules = [], capsuleGenerationJobs = [], capsuleModules = [], capsuleLessons = [],
      scheduled = [], now = t, store_refuses = r\<rparr>"

inductive step :: "world \<Rightarrow> world \<Rightarrow> bool" where
  step_create: "step w (snd (createCapsule title srcType srcTopic prompt w))"
| step_start: "step w (snd (generateCapsuleContent rnd capsuleId w))"
| step_run: "k < length (scheduled w) \<Longrightarrow>
        step w (snd (run_call oai mai (snd (scheduled w ! k)) (dequeue k w)))"
| step_status: "step w (snd (updateCapsuleStatus capsuleId args w))"
| step_tick: "now w \<le> t \<Longrightarrow> step w (w\<lparr>now := t\<rparr>)"

inductive reachable :: "world \<Rightarrow> bool" where
  reach_init: "reachable (initial t r)"
| reach_step: "reachable w \<Longrightarrow> step w w' \<Longrightarrow> reachable w'"

fun job_of :: "call \<Rightarrow> nat" where
  "job_of (GenerateOutline c j g) = j"
| "job_of (GenerateModuleContent c j g i ol) = j"
| "job_of (FinalizeGeneration c j g) = j"

text \<open>What a queued call may rely on about its capsule and its job.\<close>

fun task_ok :: "world \<Rightarrow> call \<Rightarrow> bool" where
  "task_ok w (GenerateOutline c j g) =
     (c < length (capsules w) \<and> j < length (capsuleGenerationJobs w)
      \<and> modulesGenerated (capsuleGenerationJobs w ! j) = 0)"
| "task_ok w (GenerateModuleContent c j g i ol) =
     (c < length (capsules w) \<and> j < length (capsuleGenerationJobs w)
      \<and> totalModules (capsuleGenerationJobs w ! j) = totalModules_of (o_modules ol)
      \<and> modulesGenerated (capsuleGenerationJobs w ! j) = i)"
| "task_ok w (FinalizeGeneration c j g) =
     (c < length (capsules w) \<and> j < length (capsuleGenerationJobs w)
      \<and> modulesGenerated (capsuleGenerationJobs w ! j)
          = totalModules (capsuleGenerationJobs w ! j))"

definition job_ok :: "job \<Rightarrow> bool" where
  "job_ok j = (modulesGenerated j \<le> totalModules j
               \<and> (currentStage j = ''completed'' \<longrightarrow> modulesGenerated j = totalModules j))"

definition pipeline_inv :: "world \<Rightarrow> bool" where
  "pipeline_inv w =
     (list_all job_ok (capsuleGenerationJobs w)
      \<and> list_all (task_ok w) (map snd (scheduled w))
      \<and> distinct (map (job_of \<circ> snd) (scheduled w)))"

text \<open>The invariant while the handler of a call of job \<open>j\<close> runs: the call has left
  the queue, and no other queued call belongs to \<open>j\<close>.\<close>

definition running_inv :: "nat \<Rightarrow> world \<Rightarrow> bool" where
  "running_inv j w =
     (list_all job_ok (capsuleGenerationJobs w)
      \<and> list_all (task_ok w) (map snd (scheduled w))
      \<and> distinct (map (job_of \<circ> snd) (scheduled w))
      \<and> j \<notin> set (map (job_of \<circ> snd) (scheduled w)))"

text \<open>No job loses progress from one store to a later one.\<close>

definition progress_mono :: "world \<Rightarrow> world \<Rightarrow> bool" where
  "progress_mono w w' =
     (length (capsuleGenerationJobs w) \<le> length (capsuleGenerationJobs w')
      \<and> (\<forall>k < length (capsuleGenerationJobs w).
            modulesGenerated (capsuleGenerationJobs w ! k)
              \<le> modulesGenerated (capsuleGenerationJobs w' ! k)))"

section \<open>Sample runs\<close>

definition answer_module :: "json \<Rightarrow> moduleInput \<Rightarrow> error + json" where
  "answer_module mc input = Inr mc"

definition failing_module :: "error \<Rightarrow> moduleInput \<Rightarrow> error + json" where
  "failing_module e input = Inl e"

text \<open>The drag-and-drop question of the concrete case: two targets, one item, and the
  second target accepts nothing.\<close>

definition sample_dragDrop :: json where
  "sample_dragDrop =
     JObj [(''type'', JStr ''dragDrop''),
           (''instruction'', JStr ''Match each structure to its access rule''),
           (''items'', JArr [JObj [(''id'', JStr ''item1''), (''text'', JStr ''Stack'')]]),
           (''targets'',
            JArr [JObj [(''id'', JStr ''target1''), (''label'', JStr ''LIFO''),
                        (''acceptsItems'', JArr [JStr ''item1''])],
                  JObj [(''id'', JStr ''target2''), (''label'', JStr ''FIFO''),
                        (''acceptsItems'', JArr [])]])]"

definition sample_lesson_content :: json where
  "sample_lesson_content =
     JObj [(''sections'', JArr [JObj [(''type'', JStr ''concept''),
                                       (''title'', JStr ''What is a stack''),
                                       (''content'', JStr ''Last in, first out.'')]]),
           (''practiceQuestions'', JArr [sample_dragDrop])]"

definition sample_module_content :: json where
  "sample_module_content =
     JObj [(''title'', JStr ''Stacks''),
           (''introduction'', JStr ''Meet the stack.''),
           (''lessons'',
            JArr [JObj [(''title'', JStr ''Push and pop''),
                        (''content'', sample_lesson_content)]])]"

text \<open>Running the first call of the queue.\<close>

definition run_next ::
  "(string \<Rightarrow> string \<Rightarrow> error + outlineResponse) \<Rightarrow> (moduleInput \<Rightarrow> error + json) \<Rightarrow> world \<Rightarrow>
   world" where
  "run_next oai mai w = snd (run_call oai mai (snd (scheduled w ! 0)) (dequeue 0 w))"

definition good_step :: "world \<Rightarrow> world" where
  "good_step = run_next (answer_outline sample_outline) (answer_module sample_module_content)"

definition bad_step :: "world \<Rightarrow> world" where
  "bad_step =
     run_next (answer_outline sample_outline) (failing_module (Error ''AI API error: 500 - ''))"

text \<open>A capsule is created and its generation started. The sample runs start from a
  store whose runtime refuses no call: their values are small documents with plain field
  names.\<close>

definition started_world :: world where
  "started_world =
     snd (generateCapsuleContent ''abc'' 0
            (snd (createCapsule ''Stacks and queues'' topic (Some ''Stacks and queues'') None
                    (initial 0 (\<lambda>d ls. None)))))"

text \<open>The outline and both modules are generated, and the run is finalized.\<close>

definition completed_run :: world where
  "completed_run = good_step (good_step (good_step (good_step started_world)))"

text \<open>
  The outline and the first module are generated, the second module fails three times
  and the capsule fails; the user retries, and the new run generates the outline and the
  first module again.
\<close>

definition failed_run :: world where
  "failed_run = bad_step (bad_step (bad_step (good_step (good_step started_world))))"

definition retried_run :: world where
  "retried_run = good_step (good_step (snd (generateCapsuleContent ''xyz'' 0 failed_run)))"

text \<open>The \<open>order\<close> values of the modules stored for a capsule.\<close>

definition module_orders :: "nat \<Rightarrow> world \<Rightarrow> nat list" where
  "module_orders capsuleId w =
     map m_order (filter (\<lambda>m. m_capsuleId m = capsuleId) (capsuleModules w))"

section \<open>The output repair engine\<close>

subsection \<open>Strings and numbers\<close>

text \<open>
  A JavaScript string is a list of 16-bit code units; \<open>units\<close> gives the code units of a
  text written with 8-bit characters. The white space of \<open>trim\<close> and of the class \<open>\s\<close> is
  the language's WhiteSpace and LineTerminator: tab, line feed, vertical tab, form feed,
  carriage return, space, no-break space, U+1680, U+2000 to U+200A, U+2028, U+2029,
  U+202F, U+205F, U+3000 and U+FEFF. A line ends, for \<open>^\<close> and \<open>$\<close> under the \<open>m\<close> flag, at
  a line feed, a carriage return, U+2028 or U+2029. The patterns have no \<open>u\<close> flag: they
  work on code units.
\<close>

type_synonym jsstring = "16 word list"

definition units :: "string \<Rightarrow> jsstring" where
  "units s = map (\<lambda>c. of_nat (of_char c)) s"

definition is_space :: "16 word \<Rightarrow> bool" where
  "is_space u =
     (u \<in> set [0x09, 0x0A, 0x0B, 0x0C, 0x0D, 0x20, 0xA0, 0x1680, 0x2028, 0x2029, 0x202F,
                0x205F, 0x3000, 0xFEFF]
      \<or> (0x2000 \<le> u \<and> u \<le> 0x200A))"

definition is_line_terminator :: "16 word \<Rightarrow> bool" where
  "is_line_terminator u = (u \<in> set [0x0A, 0x0D, 0x2028, 0x2029])"

text \<open>The class \<open>[a-zA-Z]\<close>.\<close>

definition is_letter :: "16 word \<Rightarrow> bool" where
  "is_letter u = ((0x41 \<le> u \<and> u \<le> 0x5A) \<or> (0x61 \<le> u \<and> u \<le> 0x7A))"

definition trim :: "jsstring \<Rightarrow> jsstring" where
  "trim s = rev (dropWhile is_space (rev (dropWhile is_space s)))"

definition starts_with :: "'a list \<Rightarrow> 'a list \<Rightarrow> bool" where
  "starts_with p s = (take (length p) s = p)"

definition backslash :: "16 word" where
  "backslash = 0x5C"

definition fence :: jsstring where
  "fence = [0x60, 0x60, 0x60]"

text \<open>
  A JavaScript number is finite (every finite double is a rational), \<open>NaN\<close> or an
  infinity. \<open>less_than\<close> is \<open>attempt < maxAttempts\<close> for a loop counter, which is a natural
  number; \<open>plus_one\<close> is \<open>attempt + 1\<close> and \<open>attempt++\<close> on it: exact below \<open>2\<^sup>5\<^sup>3\<close>, where the
  sum rounds back to \<open>2\<^sup>5\<^sup>3\<close>.
\<close>

datatype jsnumber = Num rat | NaN | Infinity | NegInfinity

definition less_than :: "nat \<Rightarrow> jsnumber \<Rightarrow> bool" where
  "less_than a m =
     (case m of
        Num q \<Rightarrow> of_nat a < q
      | NaN \<Rightarrow> False
      | Infinity \<Rightarrow> True
      | NegInfinity \<Rightarrow> False)"

definition plus_one :: "nat \<Rightarrow> nat" where
  "plus_one a = (if a < 2 ^ 53 then a + 1 else a)"

text \<open>
  A number inside a template literal. An integer below \<open>10\<^sup>2\<^sup>1\<close> in absolute value is
  written with its decimal digits; how any other finite number is written is left to the
  parameter \<open>toString\<close>.
\<close>

definition number_string :: "(rat \<Rightarrow> string) \<Rightarrow> jsnumber \<Rightarrow> string" where
  "number_string toString m =
     (case m of
        Num q \<Rightarrow>
          if of_int \<lfloor>q\<rfloor> = q \<and> \<bar>q\<bar> < 10 ^ 21
          then (if q < 0 then ''-'' else []) @ show_nat (nat \<bar>\<lfloor>q\<rfloor>\<bar>)
          else toString q
      | NaN \<Rightarrow> ''NaN''
      | Infinity \<Rightarrow> ''Infinity''
      | NegInfinity \<Rightarrow> ''-Infinity'')"

subsection \<open>\<open>stripMarkdownFences\<close>\<close>

text \<open>
  The first pattern is \<^verbatim>\<open>^```(?:json)?\s*\n?([\s\S]*?)\n?```$\<close> with the \<open>m\<close> flag. A match
  starts at the first line that begins with a fence; after the fence, an optional
  \<open>json\<close> and all white space are consumed greedily; the lazy group then runs up to the
  first place where a fence, or a line feed and a fence, stands at the end of a line.
  (A later opening fence, or a shorter white-space run, can only match where this choice
  matches too.)
\<close>

definition at_eol :: "jsstring \<Rightarrow> bool" where
  "at_eol t = (case t of [] \<Rightarrow> True | c # r \<Rightarrow> is_line_terminator c)"

definition closes :: "jsstring \<Rightarrow> bool" where
  "closes r = ((starts_with (0x0A # fence) r \<and> at_eol (drop 4 r))
               \<or> (starts_with fence r \<and> at_eol (drop 3 r)))"

fun lazy_group :: "jsstring \<Rightarrow> jsstring option" where
  "lazy_group [] = None"
| "lazy_group (c # r) =
     (if closes (c # r) then Some [] else map_option ((#) c) (lazy_group r))"

definition after_open :: "jsstring \<Rightarrow> jsstring" where
  "after_open r = dropWhile is_space (if starts_with (units ''json'') r then drop 4 r else r)"

text \<open>The text after the first fence that stands at the beginning of a line.\<close>

fun find_open :: "bool \<Rightarrow> jsstring \<Rightarrow> jsstring option" where
  "find_open bol [] = None"
| "find_open bol (c # r) =
     (if bol \<and> starts_with fence (c # r) then Some (drop 3 (c # r))
      else find_open (is_line_terminator c) r)"

definition fence_match :: "jsstring \<Rightarrow> jsstring option" where
  "fence_match s = (case find_open True s of None \<Rightarrow> None | Some r \<Rightarrow> lazy_group (after_open r))"

text \<open>The second pattern is \<^verbatim>\<open>([\[{][\s\S]*[\]}])\<close>: from the first opening bracket or
  brace to the last closing one after it.\<close>

definition json_match :: "jsstring \<Rightarrow> jsstring option" where
  "json_match s =
     (case dropWhile (\<lambda>c. c \<noteq> 0x5B \<and> c \<noteq> 0x7B) s of
        [] \<Rightarrow> None
      | c # t \<Rightarrow>
          (let u = rev (dropWhile (\<lambda>d. d \<noteq> 0x5D \<and> d \<noteq> 0x7D) (rev t))
           in if u = [] then None else Some (c # u)))"

definition stripMarkdownFences :: "jsstring \<Rightarrow> jsstring" where
  "stripMarkdownFences raw =
     (let trimmed = trim raw in
      case fence_match trimmed of
        Some (c # g) \<Rightarrow> trim (c # g)
      | other \<Rightarrow>
          (case json_match trimmed of
             Some (c # g) \<Rightarrow> trim (c # g)
           | other \<Rightarrow> trimmed))"

subsection \<open>\<open>fixLatexEscapes\<close>\<close>

definition latexCommands :: "string list" where
  "latexCommands =
     [''pi'', ''sigma'', ''omega'', ''alpha'', ''beta'', ''gamma'', ''delta'', ''epsilon'',
      ''theta'', ''lambda'', ''mu'', ''nu'', ''rho'', ''tau'', ''phi'', ''psi'', ''chi'',
      ''frac'', ''sqrt'', ''sum'', ''prod'', ''int'', ''oint'', ''partial'', ''nabla'',
      ''infty'', ''cdot'', ''times'', ''div'', ''pm'', ''mp'', ''leq'', ''geq'', ''neq'',
      ''approx'', ''sin'', ''cos'', ''tan'', ''cot'', ''sec'', ''csc'', ''log'', ''ln'',
      ''exp'', ''lim'', ''left'', ''right'', ''begin'', ''end'', ''text'', ''mathrm'',
      ''mathbf'']"

text \<open>
  One pass of \<open>result.replace(pattern, replacement)\<close> for one command. The pattern is a
  backslash that no backslash precedes, the command, and then no letter; the
  replacement is two backslashes and the command. \<open>pb\<close> says that the code unit before
  the current one is a backslash, \<open>k\<close> counts the code units of a match still to skip.
\<close>

fun replace_cmd :: "jsstring \<Rightarrow> bool \<Rightarrow> nat \<Rightarrow> jsstring \<Rightarrow> jsstring" where
  "replace_cmd cmd pb k [] = []"
| "replace_cmd cmd pb (Suc k) (c # r) = replace_cmd cmd (c = backslash) k r"
| "replace_cmd cmd pb 0 (c # r) =
     (if c = backslash \<and> \<not> pb \<and> starts_with cmd r
         \<and> \<not> (case drop (length cmd) r of [] \<Rightarrow> False | d # t \<Rightarrow> is_letter d)
      then backslash # backslash # cmd @ replace_cmd cmd True (length cmd) r
      else c # replace_cmd cmd (c = backslash) 0 r)"

definition fixLatexEscapes :: "jsstring \<Rightarrow> jsstring" where
  "fixLatexEscapes jsonString =
     fold (\<lambda>cmd result. replace_cmd (units cmd) False 0 result) latexCommands jsonString"

subsection \<open>\<open>removeEmptyArrays\<close>\<close>

text \<open>
  The copy of an object is built by \<open>cleaned[key] = \<dots>\<close> for each entry that is kept. With
  the key \<open>__proto__\<close> that assignment creates no property of the copy (it sets the copy's
  prototype when the value is an object or \<open>null\<close>), so the entry is not among the copy's
  own properties. A value here is the tree of its own properties: the prototype of the
  copy is not recorded, and \<open>proto_free\<close> says that a document has no such key.
\<close>

fun removeEmptyArrays :: "json \<Rightarrow> json" where
  "removeEmptyArrays (JArr xs) = JArr (map removeEmptyArrays xs)"
| "removeEmptyArrays (JObj kvs) =
     JObj (map (\<lambda>kv. (fst kv, removeEmptyArrays (snd kv)))
             (filter (\<lambda>kv. snd kv \<noteq> JArr [] \<and> fst kv \<noteq> ''__proto__'') kvs))"
| "removeEmptyArrays v = v"


subsection \<open>\<open>validateAndCorrectJson\<close>\<close>

definition DEFAULT_ATTEMPTS :: jsnumber where
  "DEFAULT_ATTEMPTS = Num 5"

definition PROMPT_TRUNCATION_LIMIT :: nat where
  "PROMPT_TRUNCATION_LIMIT = 12000"

text \<open>The request sent to the model for a repair.\<close>

record repairPayload =
  p_format :: string
  p_schemaName :: string
  p_schemaDescription :: string
  p_previousOutput :: jsstring
  p_errorMessage :: string
  p_originalInput :: "jsstring option"
  p_attempt :: nat

text \<open>
  What the engine takes from its environment: \<open>JSON.parse\<close> (a document or a
  \<open>SyntaxError\<close>), \<open>JSON.stringify(value, null, 2)\<close>, the model behind \<open>generateText\<close>,
  which is called with the repair prompt and the serialised payload and answers with
  some text or rejects with an error, and the digits of a number (see \<open>number_string\<close>).
\<close>

record engine =
  JSON_parse :: "jsstring \<Rightarrow> error + json"
  JSON_stringify :: "json \<Rightarrow> jsstring"
  generateText :: "repairPayload \<Rightarrow> error + jsstring"
  Number_toString :: "rat \<Rightarrow> string"

text \<open>The options object. A schema is its \<open>parse\<close>: the validated value, or the
  \<open>ZodError\<close> it throws. \<open>maxAttempts\<close> is a number.\<close>

record options =
  opt_schema :: "(json \<Rightarrow> error + json) option"
  opt_schemaName :: "string option"
  opt_schemaDescription :: "string option"
  opt_originalInput :: "jsstring option"
  opt_format :: "string option"
  opt_maxAttempts :: "jsnumber option"

definition no_options :: options where
  "no_options =
     \<lparr>opt_schema = None, opt_schemaName = None, opt_schemaDescription = None,
      opt_originalInput = None, opt_format = None, opt_maxAttempts = None\<rparr>"

definition or_default :: "'a option \<Rightarrow> 'a \<Rightarrow> 'a" where
  "or_default x d = (case x of None \<Rightarrow> d | Some v \<Rightarrow> v)"

definition maxAttempts :: "options \<Rightarrow> jsnumber" where
  "maxAttempts opts = or_default (opt_maxAttempts opts) DEFAULT_ATTEMPTS"

text \<open>\<open>buildErrorMessage\<close>; before the first failure \<open>lastError\<close> is \<open>undefined\<close>.\<close>

definition buildErrorMessage :: "error option \<Rightarrow> string" where
  "buildErrorMessage e = (case e of Some (Error m) \<Rightarrow> m | None \<Rightarrow> ''undefined'')"

text \<open>\<open>repairStructuredJson\<close> awaits the model: when \<open>generateText\<close> rejects, so does it.\<close>

definition repairStructuredJson :: "engine \<Rightarrow> repairPayload \<Rightarrow> error + jsstring" where
  "repairStructuredJson eng payload =
     (case generateText eng payload of
        Inl e \<Rightarrow> Inl e
      | Inr text \<Rightarrow> Inr (stripMarkdownFences text))"

text \<open>The body of the \<open>try\<close> block: one parse/validate cycle on the current text.\<close>

definition parse_validate :: "engine \<Rightarrow> options \<Rightarrow> jsstring \<Rightarrow> error + jsstring" where
  "parse_validate eng opts currentJson =
     (let cleanJson = fixLatexEscapes (stripMarkdownFences currentJson) in
      case JSON_parse eng cleanJson of
        Inl e \<Rightarrow> Inl e
      | Inr parsed \<Rightarrow>
          (case opt_schema opts of
             Some schema \<Rightarrow>
               (case schema (removeEmptyArrays parsed) of
                  Inl e \<Rightarrow> Inl e
                | Inr validated \<Rightarrow> Inr (JSON_stringify eng validated))
           | None \<Rightarrow> Inr (JSON_stringify eng (removeEmptyArrays parsed))))"

text \<open>The repair request built in the \<open>catch\<close> block.\<close>

definition repair_payload :: "options \<Rightarrow> nat \<Rightarrow> jsstring \<Rightarrow> error \<Rightarrow> repairPayload" where
  "repair_payload opts attempt currentJson e =
     \<lparr>p_format = or_default (opt_format opts) ''generic-json'',
      p_schemaName = or_default (opt_schemaName opts) ''JSON payload'',
      p_schemaDescription = or_default (opt_schemaDescription opts) ''Generic JSON structure'',
      p_previousOutput = take PROMPT_TRUNCATION_LIMIT currentJson,
      p_errorMessage = buildErrorMessage (Some e),
      p_originalInput = map_option (take PROMPT_TRUNCATION_LIMIT) (opt_originalInput opts),
      p_attempt = plus_one attempt\<rparr>"

text \<open>
  A run of the engine: what it returns or throws, the texts its parse/validate cycles
  were run on, in order, and the repair requests it sent to the model, in order.
\<close>

record run =
  run_result :: "error + jsstring"
  run_tried :: "jsstring list"
  run_calls :: "repairPayload list"

text \<open>
  The \<open>for\<close> loop at iteration \<open>attempt\<close>; \<open>tried\<close> and \<open>calls\<close> are the cycles run and
  the requests sent so far. The repair request is awaited inside the \<open>catch\<close> block, so a
  rejection leaves the loop and the function with the model's error. The loop need not
  end: the value is \<open>None\<close> when it does not.
\<close>

partial_function (option) attempt_loop ::
  "engine \<Rightarrow> options \<Rightarrow> nat \<Rightarrow> jsstring \<Rightarrow> error option \<Rightarrow> jsstring list \<Rightarrow>
   repairPayload list \<Rightarrow> run option" where
  "attempt_loop eng opts attempt currentJson lastErr tried calls =
     (if less_than attempt (maxAttempts opts)
      then
        (case parse_validate eng opts currentJson of
           Inr out \<Rightarrow>
             Some \<lparr>run_result = Inr out, run_tried = tried @ [currentJson], run_calls = calls\<rparr>
         | Inl e \<Rightarrow>
             (case repairStructuredJson eng (repair_payload opts attempt currentJson e) of
                Inl failure \<Rightarrow>
                  Some \<lparr>run_result = Inl failure, run_tried = tried @ [currentJson],
                        run_calls = calls @ [repair_payload opts attempt currentJson e]\<rparr>
              | Inr answer \<Rightarrow>
                  attempt_loop eng opts (plus_one attempt) answer (Some e)
                    (tried @ [currentJson])
                    (calls @ [repair_payload opts attempt currentJson e])))
      else
        Some \<lparr>run_result =
                Inl (Error (''Failed to validate JSON after ''
                            @ number_string (Number_toString eng) (maxAttempts opts)
                            @ '' attempts: '' @ buildErrorMessage lastErr)),
              run_tried = tried, run_calls = calls\<rparr>)"

definition validateAndCorrectJson :: "engine \<Rightarrow> jsstring \<Rightarrow> options \<Rightarrow> run option" where
  "validateAndCorrectJson eng jsonString opts =
     attempt_loop eng opts 0 (stripMarkdownFences jsonString) None [] []"

text \<open>The message of the error with which a cycle fails on a text, and whether the model
  answers a repair request.\<close>

definition cycle_error :: "engine \<Rightarrow> options \<Rightarrow> jsstring \<Rightarrow> string" where
  "cycle_error eng opts s =
     (case parse_validate eng opts s of Inl e \<Rightarrow> buildErrorMessage (Some e) | Inr out \<Rightarrow> [])"

definition cycle_fails :: "engine \<Rightarrow> options \<Rightarrow> jsstring \<Rightarrow> bool" where
  "cycle_fails eng opts s = (case parse_validate eng opts s of Inl e \<Rightarrow> True | Inr out \<Rightarrow> False)"

definition answered :: "engine \<Rightarrow> repairPayload \<Rightarrow> bool" where
  "answered eng p = (case repairStructuredJson eng p of Inl e \<Rightarrow> False | Inr text \<Rightarrow> True)"

text \<open>
  The number of iterations after which the loop counter ends the loop: the least natural
  number that is not below \<open>maxAttempts\<close>. There is none for \<open>Infinity\<close>, and none that the
  counter reaches above \<open>2\<^sup>5\<^sup>3\<close>.
\<close>

definition cycle_bound :: "jsnumber \<Rightarrow> nat option" where
  "cycle_bound m =
     (case m of
        Num q \<Rightarrow> if q \<le> 2 ^ 53 then Some (nat \<lceil>q\<rceil>) else None
      | NaN \<Rightarrow> Some 0
      | Infinity \<Rightarrow> None
      | NegInfinity \<Rightarrow> Some 0)"

text \<open>An environment for the examples: \<open>JSON.parse\<close> and \<open>JSON.stringify\<close> on the
  documents listed, a model that always answers with the same text, and the digits of
  the one fraction that the examples print.\<close>

definition table_engine :: "(jsstring \<times> json) list \<Rightarrow> jsstring \<Rightarrow> engine" where
  "table_engine docs answer =
     \<lparr>JSON_parse = (\<lambda>s. case map_of docs s of
                           Some v \<Rightarrow> Inr v
                         | None \<Rightarrow> Inl (Error ''Unexpected token in JSON'')),
      JSON_stringify = (\<lambda>v. case map_of (map (\<lambda>d. (snd d, fst d)) docs) v of
                               Some s \<Rightarrow> s | None \<Rightarrow> []),
      generateText = (\<lambda>payload. Inr answer),
      Number_toString = (\<lambda>q. ''2.5'')\<rparr>"

definition doc_empty_array :: jsstring where
  \<open>doc_empty_array = units ''{"a":[]}''\<close>

definition doc_b_compact :: jsstring where
  \<open>doc_b_compact = units ''{"b":1}''\<close>

definition doc_b_pretty :: jsstring where
  \<open>doc_b_pretty = units (''{'' @ [CHR 0x0A] @ ''  "b": 1'' @ [CHR 0x0A] @ ''}'')\<close>

definition sample_engine :: engine where
  "sample_engine =
     table_engine
       [(units ''{}'', JObj []),
        (doc_empty_array, JObj [(''a'', JArr [])]),
        (doc_b_pretty, JObj [(''b'', JNum 1)]),
        (doc_b_compact, JObj [(''b'', JNum 1)])]
       (units ''still not JSON'')"

text \<open>The same environment with a model that rejects every request.\<close>

definition rejecting_engine :: engine where
  "rejecting_engine =
     sample_engine\<lparr>generateText := (\<lambda>payload. Inl (Error ''Resource exhausted''))\<rparr>"

text \<open>Two schemas for the examples: an object with an array \<open>a\<close>, and an object with a
  number \<open>b\<close>. Other keys are stripped, as \<open>z.object\<close> does.\<close>

definition schema_array_a :: "json \<Rightarrow> error + json" where
  "schema_array_a v =
     (case v of
        JObj kvs \<Rightarrow>
          (case map_of kvs ''a'' of
             Some (JArr xs) \<Rightarrow> Inr (JObj [(''a'', JArr xs)])
           | Some x \<Rightarrow> Inl (Error ''Expected array'')
           | None \<Rightarrow> Inl (Error ''Required''))
      | other \<Rightarrow> Inl (Error ''Expected object''))"

definition schema_number_b :: "json \<Rightarrow> error + json" where
  "schema_number_b v =
     (case v of
        JObj kvs \<Rightarrow>
          (case map_of kvs ''b'' of
             Some (JNum n) \<Rightarrow> Inr (JObj [(''b'', JNum n)])
           | Some x \<Rightarrow> Inl (Error ''Expected number'')
           | None \<Rightarrow> Inl (Error ''Required''))
      | other \<Rightarrow> Inl (Error ''Expected object''))"



text \<open>Options for the examples: with one of the two schemas, and with a \<open>maxAttempts\<close>
  that is not an integer.\<close>

definition array_options :: options where
  "array_options = no_options\<lparr>opt_schema := Some schema_array_a\<rparr>"

definition number_options :: options where
  "number_options = no_options\<lparr>opt_schema := Some schema_number_b\<rparr>"

definition fractional_options :: options where
  "fractional_options = no_options\<lparr>opt_maxAttempts := Some (Num (5 / 2))\<rparr>"






section \<open>The module-content generator\<close>

text \<open>
  \<open>extractJsonFromResponse\<close>, with \<open>JSON.parse\<close> as a parameter. The pattern of the
  second strategy is \<^verbatim>\<open>```(?:json)?\s*([\s\S]*?)\s*```\<close>: from the first fence of the text, an
  optional \<open>json\<close> and white space are skipped, and the group runs up to the white space
  before the next fence.
\<close>

fun after_first_fence :: "jsstring \<Rightarrow> jsstring option" where
  "after_first_fence [] = None"
| "after_first_fence (c # r) =
     (if starts_with fence (c # r) then Some (drop 3 (c # r)) else after_first_fence r)"

fun lazy_block :: "jsstring \<Rightarrow> jsstring option" where
  "lazy_block [] = None"
| "lazy_block (c # r) =
     (if starts_with fence (dropWhile is_space (c # r)) then Some []
      else map_option ((#) c) (lazy_block r))"

definition block_match :: "jsstring \<Rightarrow> jsstring option" where
  "block_match s =
     (case after_first_fence s of None \<Rightarrow> None | Some r \<Rightarrow> lazy_block (after_open r))"

text \<open>\<open>text.slice(firstBrace, lastBrace + 1)\<close> when both braces are found and the last
  one comes after the first.\<close>

definition brace_slice :: "jsstring \<Rightarrow> jsstring option" where
  "brace_slice s =
     (case dropWhile (\<lambda>c. c \<noteq> 0x7B) s of
        [] \<Rightarrow> None
      | c # t \<Rightarrow>
          (let u = rev (dropWhile (\<lambda>d. d \<noteq> 0x7D) (rev t))
           in if u = [] then None else Some (c # u)))"

definition parse_opt :: "(jsstring \<Rightarrow> error + json) \<Rightarrow> jsstring option \<Rightarrow> json option" where
  "parse_opt parse s =
     (case s of None \<Rightarrow> None
      | Some t \<Rightarrow> (case parse t of Inr v \<Rightarrow> Some v | Inl e \<Rightarrow> None))"

definition extractJsonFromResponse ::
  "(jsstring \<Rightarrow> error + json) \<Rightarrow> jsstring \<Rightarrow> error + json" where
  "extractJsonFromResponse parse txt =
     (case parse txt of
        Inr v \<Rightarrow> Inr v
      | Inl e \<Rightarrow>
          (case parse_opt parse (block_match txt) of
             Some v \<Rightarrow> Inr v
           | None \<Rightarrow>
               (case parse_opt parse (brace_slice txt) of
                  Some v \<Rightarrow> Inr v
                | None \<Rightarrow> Inl (Error ''Could not parse JSON from AI response''))))"

text \<open>The answer of the model endpoint: a failure status with its body, or a success
  with the text of the first candidate, if there is one.\<close>

datatype httpResponse = HttpError nat string | HttpOk "jsstring option"

text \<open>
  What \<open>generateModuleContentAI\<close> takes from its environment: the API key, the endpoint
  (from the prompt to its answer), \<open>JSON.parse\<close>, and the constant
  \<open>CAPSULE_MODULE_CONTENT_PROMPT\<close>.
\<close>

record aiEnv =
  apiKey :: "string option"
  fetch :: "string \<Rightarrow> httpResponse"
  ai_parse :: "jsstring \<Rightarrow> error + json"
  CAPSULE_MODULE_CONTENT_PROMPT :: string

text \<open>A value inside a template literal.\<close>

definition js_string :: "string option \<Rightarrow> string" where
  "js_string x = (case x of None \<Rightarrow> ''undefined'' | Some s \<Rightarrow> s)"

fun lesson_lines :: "nat \<Rightarrow> lessonOutline list \<Rightarrow> string list" where
  "lesson_lines i [] = []"
| "lesson_lines i (l # ls) =
     (show_nat (i + 1) @ ''. '' @ lo_title l
        @ (case lo_description l of
             None \<Rightarrow> []
           | Some d \<Rightarrow> if d = [] then [] else '' - '' @ d))
     # lesson_lines (i + 1) ls"

fun join_lines :: "string list \<Rightarrow> string" where
  "join_lines [] = []"
| "join_lines [l] = l"
| "join_lines (l # ls) = l @ [CHR 0x0A] @ join_lines ls"

definition module_prompt :: "aiEnv \<Rightarrow> moduleInput \<Rightarrow> string" where
  "module_prompt env input =
     CAPSULE_MODULE_CONTENT_PROMPT env @ [CHR 0x0A, CHR 0x0A]
     @ ''Course: '' @ js_string (i_capsuleTitle input) @ [CHR 0x0A]
     @ ''Course Description: '' @ js_string (i_capsuleDescription input) @ [CHR 0x0A]
     @ ''Topic: '' @ i_topic input @ [CHR 0x0A, CHR 0x0A]
     @ ''Module '' @ show_nat (i_moduleIndex input + 1) @ '': '' @ i_moduleTitle input
     @ [CHR 0x0A]
     @ ''Module Description: '' @ i_moduleDescription input @ [CHR 0x0A, CHR 0x0A]
     @ ''Lessons to generate content for:'' @ [CHR 0x0A]
     @ join_lines (lesson_lines 0 (i_lessons input)) @ [CHR 0x0A, CHR 0x0A]
     @ ''Generate detailed content for all lessons in this module:''"

definition generateModuleContentAI :: "aiEnv \<Rightarrow> moduleInput \<Rightarrow> error + json" where
  "generateModuleContentAI env input =
     (if apiKey env = None \<or> apiKey env = Some []
      then Inl (Error ''GOOGLE_GENERATIVE_AI_API_KEY not configured'')
      else
        (case fetch env (module_prompt env input) of
           HttpError st errorText \<Rightarrow>
             Inl (Error (''AI API error: '' @ show_nat st @ '' - '' @ errorText))
         | HttpOk None \<Rightarrow> Inl (Error ''No response from AI'')
         | HttpOk (Some txt) \<Rightarrow>
             if txt = [] then Inl (Error ''No response from AI'')
             else extractJsonFromResponse (ai_parse env) txt))"

subsection \<open>The drag-and-drop rules of the prompt\<close>

text \<open>
  \<open>CAPSULE_MODULE_CONTENT_PROMPT\<close> asks of a drag-and-drop question: as many items as
  targets, between 2 and 5; every item in exactly one target's \<open>acceptsItems\<close>; every
  target with at least one item in \<open>acceptsItems\<close>.
\<close>

definition array_field :: "string \<Rightarrow> json \<Rightarrow> json list" where
  "array_field k v =
     (case v of
        JObj kvs \<Rightarrow> (case map_of kvs k of Some (JArr xs) \<Rightarrow> xs | other \<Rightarrow> [])
      | other \<Rightarrow> [])"

definition id_of :: "json \<Rightarrow> json option" where
  "id_of v = (case v of JObj kvs \<Rightarrow> map_of kvs ''id'' | other \<Rightarrow> None)"

definition dragDrop_rules_hold :: "json \<Rightarrow> bool" where
  "dragDrop_rules_hold q =
     (let items = array_field ''items'' q; targets = array_field ''targets'' q in
      length items = length targets \<and> 2 \<le> length items \<and> length items \<le> 5
      \<and> list_all (\<lambda>i. length (filter (\<lambda>t. the (id_of i) \<in> set (array_field ''acceptsItems'' t))
                                 targets) = 1 \<and> id_of i \<noteq> None) items
      \<and> list_all (\<lambda>t. array_field ''acceptsItems'' t \<noteq> []) targets)"

subsection \<open>A generator answer with the drag-and-drop question of the concrete case\<close>

definition sample_module_text :: jsstring where
  \<open>sample_module_text =
     units (''{"title":"Stacks","introduction":"Meet the stack.","lessons":[{"title":"Push and pop",''
     @ ''"content":{"sections":[{"type":"concept","title":"What is a stack",''
     @ ''"content":"Last in, first out."}],"practiceQuestions":[{"type":"dragDrop",''
     @ ''"instruction":"Match each structure to its access rule",''
     @ ''"items":[{"id":"item1","text":"Stack"}],''
     @ ''"targets":[{"id":"target1","label":"LIFO","acceptsItems":["item1"]},''
     @ ''{"id":"target2","label":"FIFO","acceptsItems":[]}]}]}}]}'')\<close>

definition sample_ai_env :: aiEnv where
  "sample_ai_env =
     \<lparr>apiKey = Some ''key'',
      fetch = (\<lambda>prompt. HttpOk (Some sample_module_text)),
      ai_parse = JSON_parse (table_engine [(sample_module_text, sample_module_content)] []),
      CAPSULE_MODULE_CONTENT_PROMPT = ''You are an expert educator.''\<rparr>"

text \<open>A generator answer with one lesson per pair of a title and a content.\<close>

definition lesson_doc :: "string \<times> json \<Rightarrow> json" where
  "lesson_doc l = JObj [(''title'', JStr (fst l)), (''content'', snd l)]"

definition module_doc :: "string \<Rightarrow> (string \<times> json) list \<Rightarrow> json" where
  "module_doc t ls = JObj [(''title'', JStr t), (''lessons'', JArr (map lesson_doc ls))]"

text \<open>
  What the module stage does with a parsed response. The response is accepted when the
  arguments of \<open>saveGeneratedModule\<close> can be built from it (no \<open>TypeError\<close>), the runtime
  does not refuse them and the argument validators pass.
\<close>

definition module_accepted :: "world \<Rightarrow> moduleOutline \<Rightarrow> nat \<Rightarrow> json \<Rightarrow> bool" where
  "module_accepted w mo moduleIndex moduleContent =
     (case module_args mo moduleIndex moduleContent of
        Inl e \<Rightarrow> False
      | Inr (d, ls) \<Rightarrow>
          store_refuses w d ls = None \<and> valid_moduleData d \<and> list_all valid_lessonArg ls)"

text \<open>The lessons of a response (\<open>moduleContent.lessons || []\<close>, when that is an array) and
  the content stored for a lesson (\<open>lesson.content || lesson\<close>).\<close>

definition response_lessons :: "json \<Rightarrow> json list" where
  "response_lessons moduleContent =
     (case moduleContent of
        JObj kvs \<Rightarrow> (case map_of kvs ''lessons'' of Some (JArr ls) \<Rightarrow> ls | other \<Rightarrow> [])
      | other \<Rightarrow> [])"

definition lesson_content :: "json \<Rightarrow> json" where
  "lesson_content lesson =
     (case lesson of
        JObj kvs \<Rightarrow>
          (case map_of kvs ''content'' of
             Some v \<Rightarrow> if truthy v then v else lesson
           | None \<Rightarrow> lesson)
      | other \<Rightarrow> lesson)"

text \<open>A response whose \<open>learningObjectives\<close> is a string, not an array of strings.\<close>

definition sample_module_bad_objectives :: json where
  "sample_module_bad_objectives =
     JObj [(''title'', JStr ''Stacks''),
           (''learningObjectives'', JStr ''Know the stack''),
           (''lessons'',
            JArr [JObj [(''title'', JStr ''Push and pop''),
                        (''content'', sample_lesson_content)]])]"

section \<open>Properties\<close>

lemmas action_defs = returnA_def throwA_def bindA_def thenA_def try_catch_def

subsection \<open>The start guard\<close>

text \<open>
  C9. \<open>generateCapsuleContent\<close> returns \<open>{success: false, error}\<close> without throwing
  exactly when the capsule exists and its status is neither \<open>pending\<close> nor \<open>failed\<close>; it
  then leaves the whole store as it was, so no job is created and the capsule is
  unchanged. On an id with no capsule it throws \<open>Capsule not found\<close>.
\<close>

theorem generateCapsuleContent_start_guard:
  "((\<exists>r. fst (generateCapsuleContent rnd capsuleId w) = Inr r \<and> \<not> success r)
      = (capsuleId < length (capsules w) \<and> status (capsules w ! capsuleId) \<noteq> pending
          \<and> status (capsules w ! capsuleId) \<noteq> failed))
   \<and> (capsuleId < length (capsules w) \<and> status (capsules w ! capsuleId) \<noteq> pending
          \<and> status (capsules w ! capsuleId) \<noteq> failed
        \<longrightarrow> generateCapsuleContent rnd capsuleId w =
            (Inr \<lparr>success = False, r_generationId = None, r_jobId = None,
                  r_error = Some ''Capsule is already being generated or completed''\<rparr>, w))
   \<and> (\<not> capsuleId < length (capsules w)
        \<longrightarrow> generateCapsuleContent rnd capsuleId w = (Inl (Error ''Capsule not found''), w))"
  by (simp add: generateCapsuleContent_def getCapsule_def action_defs createGenerationJob_def
        updateCapsuleStatus_def runAfter_def Let_def)

theorem generateCapsuleContent_start_guard_witness:
  "generateCapsuleContent ''abc'' 0 (capsule_world generating_outline) =
     (Inr \<lparr>success = False, r_generationId = None, r_jobId = None,
           r_error = Some ''Capsule is already being generated or completed''\<rparr>,
      capsule_world generating_outline)
   \<and> generateCapsuleContent ''abc'' 1 (capsule_world generating_outline) =
     (Inl (Error ''Capsule not found''), capsule_world generating_outline)"
  using generateCapsuleContent_start_guard [of "''abc''" 0 "capsule_world generating_outline"]
        generateCapsuleContent_start_guard [of "''abc''" 1 "capsule_world generating_outline"]
  by (simp add: capsule_world_def sample_capsule_def)

subsection \<open>Retries of the module stage\<close>

lemma generateModuleContent_failure:
  assumes "capsuleId < length (capsules w)" and "jobId < length (capsuleGenerationJobs w)"
  shows "generateModuleContent (\<lambda>input. Inl e) capsuleId jobId gid i ol w =
    (let rc = retryCount (capsuleGenerationJobs w ! jobId) + 1;
         e' = (case o_modules ol of
                 None \<Rightarrow> Error ''Cannot read properties of undefined''
               | Some ms \<Rightarrow> if i < length ms then e
                            else Error (''Module '' @ show_nat i @ '' not found in outline''))
     in if rc < 3
        then (Inr (),
              w\<lparr>capsuleGenerationJobs := (capsuleGenerationJobs w)
                   [jobId := patch_job (now w)
                      (no_updates\<lparr>u_retryCount := Some rc, u_lastError := Some (message e')\<rparr>)
                      (capsuleGenerationJobs w ! jobId)],
                scheduled := scheduled w @
                   [(2 ^ rc * 1000, GenerateModuleContent capsuleId jobId gid i ol)]\<rparr>)
        else (Inr (),
              w\<lparr>capsules := (capsules w)
                   [capsuleId := patch_capsule (now w)
                      ((status_args failed)
                         \<lparr>a_errorMessage :=
                            Some (''Failed to generate module '' @ show_nat (i + 1)
                                  @ '' after 3 attempts'')\<rparr>)
                      (capsules w ! capsuleId)],
                capsuleGenerationJobs := (capsuleGenerationJobs w)
                   [jobId := patch_job (now w)
                      (no_updates\<lparr>u_lastError := Some (message e')\<rparr>)
                      (capsuleGenerationJobs w ! jobId)]\<rparr>))"
  using assms
  by (auto simp add: generateModuleContent_def generateModuleContent_try_def
        generateModuleContent_catch_def action_defs getCapsuleForGeneration_def
        getGenerationJobById_def updateGenerationJob_def updateCapsuleStatus_def runAfter_def
        Let_def split: option.splits)

lemma module_failure_low:
  assumes "capsuleId < length (capsules w)" and "jobId < length (capsuleGenerationJobs w)"
    and "retryCount (capsuleGenerationJobs w ! jobId) + 1 < 3"
  shows "scheduled (module_failure e capsuleId jobId gid i ol w) =
           scheduled w @ [(2 ^ (retryCount (capsuleGenerationJobs w ! jobId) + 1) * 1000,
                           GenerateModuleContent capsuleId jobId gid i ol)]"
    and "capsules (module_failure e capsuleId jobId gid i ol w) = capsules w"
    and "length (capsuleGenerationJobs (module_failure e capsuleId jobId gid i ol w)) =
           length (capsuleGenerationJobs w)"
    and "retryCount (capsuleGenerationJobs (module_failure e capsuleId jobId gid i ol w) ! jobId) =
           retryCount (capsuleGenerationJobs w ! jobId) + 1"
  using assms
  by (simp_all add: module_failure_def generateModuleContent_failure Let_def patch_job_def
        no_updates_def)

lemma module_failure_high:
  assumes "capsuleId < length (capsules w)" and "jobId < length (capsuleGenerationJobs w)"
    and "\<not> retryCount (capsuleGenerationJobs w ! jobId) + 1 < 3"
  shows "scheduled (module_failure e capsuleId jobId gid i ol w) = scheduled w"
    and "status (capsules (module_failure e capsuleId jobId gid i ol w) ! capsuleId) = failed"
    and "errorMessage (capsules (module_failure e capsuleId jobId gid i ol w) ! capsuleId) =
          Some (''Failed to generate module '' @ show_nat (i + 1) @ '' after 3 attempts'')"
  using assms
  by (simp_all add: module_failure_def generateModuleContent_failure Let_def patch_capsule_def
        status_args_def given_def)

text \<open>
  C1. Retry cap of the module stage, as the code has it: starting from a job whose
  \<open>retryCount\<close> is 0, the first failure of a module index schedules a retry after 2000 ms
  and the second one after 4000 ms, the capsule being left as it was; the third failure
  schedules nothing and sets the capsule to \<open>failed\<close> with the message
  \<open>Failed to generate module {i+1} after 3 attempts\<close>. No retry is ever scheduled with
  the 8000 ms delay, and the capsule fails at the third failure, not at the fourth.
\<close>

theorem generateModuleContent_fails_at_third_failure:
  assumes "capsuleId < length (capsules w)" and "jobId < length (capsuleGenerationJobs w)"
    and "retryCount (capsuleGenerationJobs w ! jobId) = 0"
  shows "(let fail = module_failure e capsuleId jobId gid i ol;
             retry = GenerateModuleContent capsuleId jobId gid i ol
          in scheduled (fail w) = scheduled w @ [(2000, retry)]
           \<and> capsules (fail w) = capsules w
           \<and> scheduled (fail (fail w)) = scheduled w @ [(2000, retry), (4000, retry)]
           \<and> capsules (fail (fail w)) = capsules w
           \<and> scheduled (fail (fail (fail w))) = scheduled w @ [(2000, retry), (4000, retry)]
           \<and> status (capsules (fail (fail (fail w))) ! capsuleId) = failed
           \<and> errorMessage (capsules (fail (fail (fail w))) ! capsuleId) =
               Some (''Failed to generate module '' @ show_nat (i + 1) @ '' after 3 attempts''))"
proof -
  let ?f = "module_failure e capsuleId jobId gid i ol"
  let ?retry = "GenerateModuleContent capsuleId jobId gid i ol"
  have 1: "scheduled (?f w) = scheduled w @ [(2000, ?retry)]"
    "capsules (?f w) = capsules w"
    "length (capsuleGenerationJobs (?f w)) = length (capsuleGenerationJobs w)"
    "retryCount (capsuleGenerationJobs (?f w) ! jobId) = 1"
    using module_failure_low [of capsuleId w jobId e gid i ol] assms by simp_all
  have 2: "scheduled (?f (?f w)) = scheduled w @ [(2000, ?retry), (4000, ?retry)]"
    "capsules (?f (?f w)) = capsules w"
    "length (capsuleGenerationJobs (?f (?f w))) = length (capsuleGenerationJobs w)"
    "retryCount (capsuleGenerationJobs (?f (?f w)) ! jobId) = 2"
    using module_failure_low [of capsuleId "?f w" jobId e gid i ol] assms 1 by simp_all
  have 3: "scheduled (?f (?f (?f w))) = scheduled w @ [(2000, ?retry), (4000, ?retry)]"
    "status (capsules (?f (?f (?f w))) ! capsuleId) = failed"
    "errorMessage (capsules (?f (?f (?f w))) ! capsuleId) =
       Some (''Failed to generate module '' @ show_nat (i + 1) @ '' after 3 attempts'')"
    using module_failure_high [of capsuleId "?f (?f w)" jobId e gid i ol] assms 2 by simp_all
  show ?thesis using 1 2 3 by (simp add: Let_def)
qed

theorem generateModuleContent_fails_at_third_failure_witness:
  "(let fail = module_failure (Error ''AI API error: 500 - '') 0 0 ''gen_0_abc'' 0 sample_outline
    in map fst (scheduled (fail (fail (fail module_stage_world)))) = [2000, 4000]
     \<and> status (capsules (fail (fail module_stage_world)) ! 0) = generating_content
     \<and> status (capsules (fail (fail (fail module_stage_world))) ! 0) = failed
     \<and> errorMessage (capsules (fail (fail (fail module_stage_world))) ! 0) =
         Some ''Failed to generate module 1 after 3 attempts'')"
  using generateModuleContent_fails_at_third_failure
          [of 0 module_stage_world 0 "Error ''AI API error: 500 - ''" "''gen_0_abc''" 0
              sample_outline]
  by (simp add: module_stage_world_def sample_job_def sample_capsule_def Let_def
        show_nat.simps digit_char_def)

subsection \<open>Job creation and the status transition\<close>

lemma generateCapsuleContent_final_state:
  "snd (generateCapsuleContent rnd capsuleId w) =
     last (w # generateCapsuleContent_states rnd capsuleId w)"
  by (simp add: generateCapsuleContent_def generateCapsuleContent_states_def getCapsule_def
        action_defs createGenerationJob_def updateCapsuleStatus_def runAfter_def Let_def)




subsection \<open>Rejection by the outline generator\<close>

text \<open>
  C6, against the claim as stated: a rejection whose \<open>message\<close> field is present and is
  the empty string is not stored verbatim; the capsule gets the default message.
\<close>

theorem empty_rejection_message_replaced:
  "o_message (rejection (Some [])) = Some []
   \<and> errorMessage
        (capsules (snd (generateOutline (answer_outline (rejection (Some []))) 0 0 ''gen_0_abc''
                          outline_stage_world)) ! 0)
       = Some ''Content generation failed''"
  by (simp add: generateOutline_def answer_outline_def rejection_def outline_stage_world_def
        sample_capsule_def action_defs getCapsuleForGeneration_def updateCapsuleStatus_def
        patch_capsule_def status_args_def given_def str_or_def)

text \<open>
  C6, amended. When the outline generator answers with an error object whose message is
  a non-empty string, the outline stage makes one mutation only: it sets the capsule to
  \<open>failed\<close> with that message, verbatim, as \<open>errorMessage\<close>. Nothing is scheduled, no
  job is touched, and \<open>generating_content\<close> is not entered. An absent or empty message is
  replaced by \<open>Content generation failed\<close>.
\<close>

theorem outline_rejection_is_terminal:
  assumes "capsuleId < length (capsules w)"
    and "ai (str_or (sourceTopic (capsules w ! capsuleId)) (c_title (capsules w ! capsuleId)))
            (str_or (userPrompt (capsules w ! capsuleId)) []) = Inr r"
    and "o_error r = Some True"
  shows "generateOutline ai capsuleId jobId gid w =
           (Inr (),
            w\<lparr>capsules := (capsules w)
                 [capsuleId := (capsules w ! capsuleId)
                    \<lparr>status := failed, c_updatedAt := now w,
                     errorMessage := Some (str_or (o_message r) ''Content generation failed'')\<rparr>]\<rparr>)
         \<and> (\<forall>m. o_message r = Some m \<and> m \<noteq> [] \<longrightarrow>
               errorMessage (capsules (snd (generateOutline ai capsuleId jobId gid w)) ! capsuleId)
                 = Some m)
         \<and> status (capsules (snd (generateOutline ai capsuleId jobId gid w)) ! capsuleId) = failed
         \<and> scheduled (snd (generateOutline ai capsuleId jobId gid w)) = scheduled w
         \<and> capsuleGenerationJobs (snd (generateOutline ai capsuleId jobId gid w))
             = capsuleGenerationJobs w"
  using assms
  by (simp add: generateOutline_def action_defs getCapsuleForGeneration_def
        updateCapsuleStatus_def patch_capsule_def status_args_def given_def str_or_def)

theorem outline_rejection_is_terminal_witness:
  "errorMessage
      (capsules (snd (generateOutline
                        (answer_outline (rejection (Some ''Please enter a real topic.'')))
                        0 0 ''gen_0_abc'' outline_stage_world)) ! 0)
     = Some ''Please enter a real topic.''
   \<and> status
      (capsules (snd (generateOutline
                        (answer_outline (rejection (Some ''Please enter a real topic.'')))
                        0 0 ''gen_0_abc'' outline_stage_world)) ! 0)
     = failed
   \<and> scheduled (snd (generateOutline
                        (answer_outline (rejection (Some ''Please enter a real topic.'')))
                        0 0 ''gen_0_abc'' outline_stage_world)) = []"
  using outline_rejection_is_terminal
          [of 0 outline_stage_world
              "answer_outline (rejection (Some ''Please enter a real topic.''))"
              "rejection (Some ''Please enter a real topic.'')" 0 "''gen_0_abc''"]
  by (simp add: answer_outline_def rejection_def outline_stage_world_def str_or_def)

subsection \<open>Answer membership in the section-quiz schema\<close>

lemma z_string_min1_Some: "z_string_min1 msg x = (i, Some s) \<Longrightarrow> x = Some (JStr s)"
  by (cases "(msg, x)" rule: z_string_min1.cases) (auto split: if_splits)

lemma z_enum_type_Some: "z_enum_type x = (i, Some s) \<Longrightarrow> x = Some (JStr s)"
  by (cases x rule: z_enum_type.cases) (auto split: if_splits)

lemma z_strings_min1_Some: "z_strings_min1 xs = (i, Some ss) \<Longrightarrow> xs = map JStr ss"
proof (induction xs arbitrary: i ss)
  case Nil
  then show ?case by simp
next
  case (Cons x xs)
  then show ?case
    by (auto split: prod.splits option.splits dest: z_string_min1_Some)
qed

lemma z_options_Some: "z_options x = (i, Some (Some ss)) \<Longrightarrow> x = Some (JArr (map JStr ss))"
  by (cases x rule: z_options.cases) (auto split: prod.splits option.splits dest: z_strings_min1_Some)

lemma sectionQuizObject_Some:
  assumes "sectionQuizObject j = (i, Some v)"
  shows "\<exists>kvs. j = JObj kvs
      \<and> map_of kvs ''type'' = Some (JStr (q_type v))
      \<and> map_of kvs ''correctAnswer'' = Some (JStr (correctAnswer v))
      \<and> (\<forall>os. options v = Some os \<longrightarrow> map_of kvs ''options'' = Some (JArr (map JStr os)))"
  using assms
  by (auto simp add: sectionQuizObject_def split: json.splits prod.splits option.splits
      dest: z_string_min1_Some z_enum_type_Some z_options_Some)

lemma z_string_min1_heads:
  assumes "m \<in> set (fst (z_string_min1 msg x))" and "msg \<noteq> []" and "hd msg \<in> set ''QS''"
  shows "m \<noteq> [] \<and> hd m \<in> set ''REIQS''"
  using assms
  by (cases "(msg, x)" rule: z_string_min1.cases) (auto split: if_splits)

lemma z_enum_type_heads:
  "m \<in> set (fst (z_enum_type x)) \<Longrightarrow> m \<noteq> [] \<and> hd m \<in> set ''REIQS''"
  by (cases x rule: z_enum_type.cases) (auto split: if_splits)

lemma z_strings_min1_heads:
  "m \<in> set (fst (z_strings_min1 xs)) \<Longrightarrow> m \<noteq> [] \<and> hd m \<in> set ''REIQS''"
proof (induction xs)
  case Nil
  then show ?case by simp
next
  case (Cons x xs)
  from Cons.prems have
    "m \<in> set (fst (z_string_min1 ''String must contain at least 1 character(s)'' (Some x)))
     \<or> m \<in> set (fst (z_strings_min1 xs))"
    by (auto split: prod.splits option.splits)
  then show ?case
  proof
    assume "m \<in> set (fst (z_string_min1 ''String must contain at least 1 character(s)'' (Some x)))"
    then show ?thesis by (rule z_string_min1_heads) simp_all
  next
    assume "m \<in> set (fst (z_strings_min1 xs))"
    then show ?thesis by (rule Cons.IH)
  qed
qed

lemma z_options_heads:
  "m \<in> set (fst (z_options x)) \<Longrightarrow> m \<noteq> [] \<and> hd m \<in> set ''REIQS''"
proof (cases x rule: z_options.cases)
  case 1
  assume "m \<in> set (fst (z_options x))"
  with 1 show ?thesis by simp
next
  case (2 xs)
  assume "m \<in> set (fst (z_options x))"
  with 2 have "m \<in> set (fst (z_strings_min1 xs))"
    by (auto split: prod.splits option.splits)
  then show ?thesis by (rule z_strings_min1_heads)
qed auto

lemma sectionQuizObject_heads:
  assumes "m \<in> set (fst (sectionQuizObject j))"
  shows "m \<noteq> [] \<and> hd m \<in> set ''REIQS''"
proof (cases j)
  case (JObj kvs)
  from assms have
    "m \<in> set (fst (z_enum_type (map_of kvs ''type'')))
     \<or> m \<in> set (fst (z_string_min1 ''Quiz question cannot be empty'' (map_of kvs ''question'')))
     \<or> m \<in> set (fst (z_options (map_of kvs ''options'')))
     \<or> m \<in> set (fst (z_string_min1 ''Quiz answer cannot be empty''
                         (map_of kvs ''correctAnswer'')))
     \<or> m \<in> set (fst (z_string_min1 ''Quiz explanation cannot be empty''
                         (map_of kvs ''explanation'')))"
    unfolding JObj sectionQuizObject_def
    by (auto split: prod.splits option.splits)
  then show ?thesis
    using z_enum_type_heads [of m] z_options_heads [of m]
      z_string_min1_heads [of m "''Quiz question cannot be empty''"]
      z_string_min1_heads [of m "''Quiz answer cannot be empty''"]
      z_string_min1_heads [of m "''Quiz explanation cannot be empty''"]
    by (elim disjE) simp_all
qed (use assms in \<open>auto simp add: sectionQuizObject_def\<close>)

lemma sectionQuizObject_no_refinement_issue:
  assumes "m \<in> set (fst (sectionQuizObject j))"
  shows "m \<noteq> ''Correct answer must be one of the provided options''"
    and "m \<noteq> ''Multiple choice questions require exactly 4 options''"
  using sectionQuizObject_heads [OF assms] by auto

lemma z_strings_min1_strings: "snd (z_strings_min1 (map JStr os)) = Some os"
  by (induction os) (auto split: prod.splits option.splits)

lemma typed_mcq_object:
  assumes "typed_mcq kvs ops a"
  shows "\<exists>q e. snd (sectionQuizObject (JObj kvs)) =
           Some \<lparr>q_type = ''mcq'', question = q, options = ops, correctAnswer = a,
                 explanation = e\<rparr>"
proof -
  from assms obtain q e where f: "map_of kvs ''type'' = Some (JStr ''mcq'')"
    "map_of kvs ''question'' = Some (JStr q)"
    "map_of kvs ''options'' = map_option (\<lambda>os. JArr (map JStr os)) ops"
    "map_of kvs ''correctAnswer'' = Some (JStr a)"
    "map_of kvs ''explanation'' = Some (JStr e)"
    by (auto simp add: typed_mcq_def split: option.splits json.splits)
  have o: "snd (z_options (map_option (\<lambda>os. JArr (map JStr os)) ops)) = Some ops"
  proof (cases ops)
    case None
    then show ?thesis by simp
  next
    case (Some os)
    obtain i where "z_strings_min1 (map JStr os) = (i, Some os)"
      using z_strings_min1_strings [of os] by (cases "z_strings_min1 (map JStr os)") simp
    with Some show ?thesis by simp
  qed
  show ?thesis
    using f o
    by (auto simp add: sectionQuizObject_def quizQuestionTypes_def
        split: prod.splits option.splits)
qed


lemma sectionQuizSchema_refined:
  assumes "snd (sectionQuizObject j) = Some u" and "quiz_refinement u \<noteq> []"
  shows "sectionQuizSchema j = Inl (fst (sectionQuizObject j) @ quiz_refinement u)"
  using assms by (cases "sectionQuizObject j") (simp add: sectionQuizSchema_def)

lemma sectionQuizSchema_aborted:
  assumes "snd (sectionQuizObject j) = None"
  shows "sectionQuizSchema j = Inl (fst (sectionQuizObject j))"
  using assms by (cases "sectionQuizObject j") (simp add: sectionQuizSchema_def)

text \<open>
  C10, amended. Four facts about \<open>sectionQuizSchema\<close>.
  (1) It accepts a document of type \<open>mcq\<close> only if the document has exactly 4 options and
  its \<open>correctAnswer\<close> is one of them.
  (2) A document of type \<open>mcq\<close> whose fields have the declared types (\<open>question\<close>,
  \<open>correctAnswer\<close> and \<open>explanation\<close> strings, \<open>options\<close> an array of strings), with exactly
  4 options and a \<open>correctAnswer\<close> that is none of them, is rejected; the last issue is
  \<open>Correct answer must be one of the provided options\<close>, and neither that violation nor the
  option-count violation occurs among the issues before it.
  (3) Such a document with no \<open>options\<close> or with a number of options other than 4 is
  rejected, whatever its \<open>correctAnswer\<close>; the last issue is
  \<open>Multiple choice questions require exactly 4 options\<close>, and the membership violation is
  not reported.
  (4) A value the object schema itself refuses (not an object, a field missing or of another
  type, a \<open>type\<close> outside the enumeration) is rejected with the issues of the object schema
  only: the refinement does not run, and neither violation is reported.
\<close>

theorem sectionQuizSchema_mcq_answer_membership:
  "(sectionQuizSchema (JObj kvs) = Inr v \<and> map_of kvs ''type'' = Some (JStr ''mcq'')
      \<longrightarrow> (\<exists>os a. map_of kvs ''options'' = Some (JArr (map JStr os)) \<and> length os = 4
                 \<and> map_of kvs ''correctAnswer'' = Some (JStr a) \<and> a \<in> set os))
   \<and> (typed_mcq kvs1 (Some os1) a1 \<and> length os1 = 4 \<and> a1 \<notin> set os1
      \<longrightarrow> (\<exists>issues. sectionQuizSchema (JObj kvs1)
                      = Inl (issues @ [''Correct answer must be one of the provided options''])
             \<and> ''Correct answer must be one of the provided options'' \<notin> set issues
             \<and> ''Multiple choice questions require exactly 4 options'' \<notin> set issues))
   \<and> (typed_mcq kvs2 ops2 a2 \<and> (ops2 = None \<or> length (the ops2) \<noteq> 4)
      \<longrightarrow> (\<exists>issues. sectionQuizSchema (JObj kvs2)
                      = Inl (issues @ [''Multiple choice questions require exactly 4 options''])
             \<and> ''Correct answer must be one of the provided options'' \<notin> set issues
             \<and> ''Multiple choice questions require exactly 4 options'' \<notin> set issues))
   \<and> (snd (sectionQuizObject j) = None
      \<longrightarrow> sectionQuizSchema j = Inl (fst (sectionQuizObject j))
          \<and> ''Correct answer must be one of the provided options''
               \<notin> set (fst (sectionQuizObject j))
          \<and> ''Multiple choice questions require exactly 4 options''
               \<notin> set (fst (sectionQuizObject j)))"
proof (intro conjI impI)
  assume a: "sectionQuizSchema (JObj kvs) = Inr v \<and> map_of kvs ''type'' = Some (JStr ''mcq'')"
  then obtain i where o: "sectionQuizObject (JObj kvs) = (i, Some v)"
    and r: "quiz_refinement v = []"
    by (auto simp add: sectionQuizSchema_def split: prod.splits option.splits if_splits)
  from sectionQuizObject_Some [OF o] a have t: "q_type v = ''mcq''"
    and c: "map_of kvs ''correctAnswer'' = Some (JStr (correctAnswer v))"
    and os: "\<forall>os. options v = Some os \<longrightarrow> map_of kvs ''options'' = Some (JArr (map JStr os))"
    by auto
  from r t obtain os where "options v = Some os" "length os = 4" "correctAnswer v \<in> set os"
    by (auto simp add: quiz_refinement_def split: if_splits)
  with c os show "\<exists>os a. map_of kvs ''options'' = Some (JArr (map JStr os)) \<and> length os = 4
                 \<and> map_of kvs ''correctAnswer'' = Some (JStr a) \<and> a \<in> set os"
    by blast
next
  assume a: "typed_mcq kvs1 (Some os1) a1 \<and> length os1 = 4 \<and> a1 \<notin> set os1"
  then obtain q e where o: "snd (sectionQuizObject (JObj kvs1)) =
      Some \<lparr>q_type = ''mcq'', question = q, options = Some os1, correctAnswer = a1,
            explanation = e\<rparr>"
    using typed_mcq_object [of kvs1 "Some os1" a1] by auto
  let ?u = "\<lparr>q_type = ''mcq'', question = q, options = Some os1, correctAnswer = a1,
             explanation = e\<rparr>"
  from a have r: "quiz_refinement ?u = [''Correct answer must be one of the provided options'']"
    by (simp add: quiz_refinement_def)
  have "sectionQuizSchema (JObj kvs1) = Inl (fst (sectionQuizObject (JObj kvs1))
          @ [''Correct answer must be one of the provided options''])"
    using sectionQuizSchema_refined [OF o] r by simp
  moreover have "''Multiple choice questions require exactly 4 options''
                   \<notin> set (fst (sectionQuizObject (JObj kvs1)))"
    using sectionQuizObject_no_refinement_issue(2) by blast
  moreover have "''Correct answer must be one of the provided options''
                   \<notin> set (fst (sectionQuizObject (JObj kvs1)))"
    using sectionQuizObject_no_refinement_issue(1) by blast
  ultimately
  show "\<exists>issues. sectionQuizSchema (JObj kvs1)
                   = Inl (issues @ [''Correct answer must be one of the provided options''])
          \<and> ''Correct answer must be one of the provided options'' \<notin> set issues
          \<and> ''Multiple choice questions require exactly 4 options'' \<notin> set issues"
    by blast
next
  assume a: "typed_mcq kvs2 ops2 a2 \<and> (ops2 = None \<or> length (the ops2) \<noteq> 4)"
  then obtain q e where o: "snd (sectionQuizObject (JObj kvs2)) =
      Some \<lparr>q_type = ''mcq'', question = q, options = ops2, correctAnswer = a2,
            explanation = e\<rparr>"
    using typed_mcq_object [of kvs2 ops2 a2] by auto
  let ?u = "\<lparr>q_type = ''mcq'', question = q, options = ops2, correctAnswer = a2,
             explanation = e\<rparr>"
  from a have r: "quiz_refinement ?u = [''Multiple choice questions require exactly 4 options'']"
    by (auto simp add: quiz_refinement_def)
  have "sectionQuizSchema (JObj kvs2) = Inl (fst (sectionQuizObject (JObj kvs2))
          @ [''Multiple choice questions require exactly 4 options''])"
    using sectionQuizSchema_refined [OF o] r by simp
  moreover have "''Correct answer must be one of the provided options''
                   \<notin> set (fst (sectionQuizObject (JObj kvs2)))"
    using sectionQuizObject_no_refinement_issue(1) by blast
  moreover have "''Multiple choice questions require exactly 4 options''
                   \<notin> set (fst (sectionQuizObject (JObj kvs2)))"
    using sectionQuizObject_no_refinement_issue(2) by blast
  ultimately
  show "\<exists>issues. sectionQuizSchema (JObj kvs2)
                   = Inl (issues @ [''Multiple choice questions require exactly 4 options''])
          \<and> ''Correct answer must be one of the provided options'' \<notin> set issues
          \<and> ''Multiple choice questions require exactly 4 options'' \<notin> set issues"
    by blast
next
  assume "snd (sectionQuizObject j) = None"
  then show "sectionQuizSchema j = Inl (fst (sectionQuizObject j))"
    by (rule sectionQuizSchema_aborted)
next
  show "''Correct answer must be one of the provided options''
          \<notin> set (fst (sectionQuizObject j))"
    using sectionQuizObject_no_refinement_issue(1) by blast
next
  show "''Multiple choice questions require exactly 4 options''
          \<notin> set (fst (sectionQuizObject j))"
    using sectionQuizObject_no_refinement_issue(2) by blast
qed

lemmas quiz_sample_defs = quiz_document_def quiz_document_unexplained_def quiz_value_def
  sectionQuizObject_def sectionQuizSchema_def quiz_refinement_def quizQuestionTypes_def
  typed_mcq_def

theorem sectionQuizSchema_mcq_answer_membership_witness:
  "(sectionQuizSchema (quiz_document ''mcq'' [''Stack'', ''Queue'', ''Array'', ''Heap''] ''Stack'')
      = Inr (quiz_value ''mcq'' (Some [''Stack'', ''Queue'', ''Array'', ''Heap'']) ''Stack'')
    \<and> ''Stack'' \<in> set [''Stack'', ''Queue'', ''Array'', ''Heap''])
   \<and> (\<exists>kvs. quiz_document ''mcq'' [''Stack'', ''Queue'', ''Array'', ''Heap''] ''Tree'' = JObj kvs
        \<and> typed_mcq kvs (Some [''Stack'', ''Queue'', ''Array'', ''Heap'']) ''Tree''
        \<and> ''Tree'' \<notin> set [''Stack'', ''Queue'', ''Array'', ''Heap''])
   \<and> sectionQuizSchema (quiz_document ''mcq'' [''Stack'', ''Queue'', ''Array'', ''Heap''] ''Tree'')
       = Inl [''Correct answer must be one of the provided options'']
   \<and> (\<exists>kvs. quiz_document ''mcq'' [''Stack'', ''Queue'', ''Array''] ''Stack'' = JObj kvs
        \<and> typed_mcq kvs (Some [''Stack'', ''Queue'', ''Array'']) ''Stack'')
   \<and> sectionQuizSchema (quiz_document ''mcq'' [''Stack'', ''Queue'', ''Array''] ''Stack'')
       = Inl [''Multiple choice questions require exactly 4 options'']
   \<and> snd (sectionQuizObject
            (quiz_document_unexplained ''mcq'' [''Stack'', ''Queue'', ''Array'', ''Heap'']
               ''Tree'')) = None
   \<and> sectionQuizSchema
        (quiz_document_unexplained ''mcq'' [''Stack'', ''Queue'', ''Array'', ''Heap''] ''Tree'')
       = Inl [''Required'']"
  using sectionQuizSchema_mcq_answer_membership
    [of "[(''type'', JStr ''mcq''), (''question'', JStr ''Which container is LIFO?''),
          (''options'', JArr (map JStr [''Stack'', ''Queue'', ''Array'', ''Heap''])),
          (''correctAnswer'', JStr ''Stack''),
          (''explanation'', JStr ''A stack pops the last element pushed.'')]"
        "quiz_value ''mcq'' (Some [''Stack'', ''Queue'', ''Array'', ''Heap'']) ''Stack''"
        "[(''type'', JStr ''mcq''), (''question'', JStr ''Which container is LIFO?''),
          (''options'', JArr (map JStr [''Stack'', ''Queue'', ''Array'', ''Heap''])),
          (''correctAnswer'', JStr ''Tree''),
          (''explanation'', JStr ''A stack pops the last element pushed.'')]"
        "[''Stack'', ''Queue'', ''Array'', ''Heap'']" "''Tree''"
        "[(''type'', JStr ''mcq''), (''question'', JStr ''Which container is LIFO?''),
          (''options'', JArr (map JStr [''Stack'', ''Queue'', ''Array''])),
          (''correctAnswer'', JStr ''Stack''),
          (''explanation'', JStr ''A stack pops the last element pushed.'')]"
        "Some [''Stack'', ''Queue'', ''Array'']" "''Stack''"
        "quiz_document_unexplained ''mcq'' [''Stack'', ''Queue'', ''Array'', ''Heap''] ''Tree''"]
  by (simp add: quiz_sample_defs)

text \<open>
  C10 as stated fails on two inputs whose \<open>correctAnswer\<close> is not among the options: with
  three options the only violation is the option count, and with four options but no
  \<open>explanation\<close> the only issue is \<open>Required\<close>.
\<close>

theorem mcq_foreign_answer_other_violation:
  "sectionQuizSchema (quiz_document ''mcq'' [''Stack'', ''Queue'', ''Array''] ''Heap'')
     = Inl [''Multiple choice questions require exactly 4 options'']
   \<and> ''Heap'' \<notin> set [''Stack'', ''Queue'', ''Array'']
   \<and> sectionQuizSchema
        (quiz_document_unexplained ''mcq'' [''Stack'', ''Queue'', ''Array'', ''Heap''] ''Tree'')
     = Inl [''Required'']
   \<and> ''Tree'' \<notin> set [''Stack'', ''Queue'', ''Array'', ''Heap'']"
  by (simp add: quiz_document_def quiz_document_unexplained_def sectionQuizObject_def
      sectionQuizSchema_def quiz_refinement_def quizQuestionTypes_def)

subsection \<open>The pipeline invariant\<close>

lemma task_ok_job_bound: "task_ok w c \<Longrightarrow> job_of c < length (capsuleGenerationJobs w)"
  by (cases c) auto

lemma task_ok_frame:
  assumes "task_ok w c"
    and "length (capsules w) \<le> length (capsules w')"
    and "length (capsuleGenerationJobs w) \<le> length (capsuleGenerationJobs w')"
    and "capsuleGenerationJobs w' ! job_of c = capsuleGenerationJobs w ! job_of c"
  shows "task_ok w' c"
  using assms by (cases c) auto

lemma task_ok_cong:
  assumes "length (capsules w') = length (capsules w)"
    and "capsuleGenerationJobs w' = capsuleGenerationJobs w"
  shows "task_ok w' = task_ok w"
proof
  fix c show "task_ok w' c = task_ok w c" using assms by (cases c) simp_all
qed

lemma pipeline_inv_initial: "pipeline_inv (initial t r)"
  by (simp add: pipeline_inv_def initial_def)

lemma dequeue_running:
  assumes "pipeline_inv w" and "k < length (scheduled w)"
  shows "running_inv (job_of (snd (scheduled w ! k))) (dequeue k w)"
    and "task_ok (dequeue k w) (snd (scheduled w ! k))"
proof -
  let ?xs = "scheduled w"
  have split: "?xs = take k ?xs @ ?xs ! k # drop (Suc k) ?xs"
    using assms(2) by (rule id_take_nth_drop)
  have ok: "list_all (task_ok w) (map snd ?xs)" and d: "distinct (map (job_of \<circ> snd) ?xs)"
    and jobs: "list_all job_ok (capsuleGenerationJobs w)"
    using assms(1) by (simp_all add: pipeline_inv_def)
  have fr: "task_ok (dequeue k w) = task_ok w"
    by (rule task_ok_cong) (simp_all add: dequeue_def)
  have sch: "scheduled (dequeue k w) = take k ?xs @ drop (Suc k) ?xs"
    and jb: "capsuleGenerationJobs (dequeue k w) = capsuleGenerationJobs w"
    by (simp_all add: dequeue_def)
  from ok have ok': "list_all (task_ok w) (map snd (take k ?xs @ ?xs ! k # drop (Suc k) ?xs))"
    using split by simp
  from d have d': "distinct (map (job_of \<circ> snd) (take k ?xs @ ?xs ! k # drop (Suc k) ?xs))"
    using split by simp
  show "running_inv (job_of (snd (scheduled w ! k))) (dequeue k w)"
    using ok' d' jobs by (auto simp add: running_inv_def sch jb fr list_all_iff)
  show "task_ok (dequeue k w) (snd (scheduled w ! k))"
    using ok' by (simp add: fr)
qed

lemma inv_after:
  assumes "running_inv j w" and "j < length (capsuleGenerationJobs w)"
    and "length (capsules w') = length (capsules w)"
    and "capsuleGenerationJobs w' = (capsuleGenerationJobs w)[j := J]"
    and "job_ok J"
    and "scheduled w' = scheduled w @ new"
    and "new = [] \<or> (\<exists>d c. new = [(d, c)] \<and> job_of c = j \<and> task_ok w' c)"
  shows "pipeline_inv w'"
proof -
  have old: "task_ok w' c" if "c \<in> set (map snd (scheduled w))" for c
  proof -
    from that assms(1) have ok: "task_ok w c" and ne: "job_of c \<noteq> j"
      by (auto simp add: running_inv_def list_all_iff)
    show ?thesis
      by (rule task_ok_frame [OF ok]) (use assms(3,4) ne in simp_all)
  qed
  then have olds: "list_all (task_ok w') (map snd (scheduled w))"
    unfolding list_all_iff by blast
  have "set (capsuleGenerationJobs w') \<subseteq> insert J (set (capsuleGenerationJobs w))"
    unfolding assms(4) by (rule set_update_subset_insert)
  with assms(1,5) have jobs: "list_all job_ok (capsuleGenerationJobs w')"
    unfolding running_inv_def list_all_iff by blast
  have d: "distinct (map (job_of \<circ> snd) (scheduled w))"
    and nj: "j \<notin> set (map (job_of \<circ> snd) (scheduled w))"
    using assms(1) by (simp_all add: running_inv_def)
  from assms(7) show ?thesis
  proof
    assume "new = []"
    then have "scheduled w' = scheduled w" using assms(6) by simp
    with olds jobs d show ?thesis unfolding pipeline_inv_def by simp
  next
    assume "\<exists>d c. new = [(d, c)] \<and> job_of c = j \<and> task_ok w' c"
    then obtain dl c where n: "new = [(dl, c)]" and c: "job_of c = j" "task_ok w' c" by blast
    have "scheduled w' = scheduled w @ [(dl, c)]" using assms(6) n by simp
    with olds jobs d nj c show ?thesis unfolding pipeline_inv_def by simp
  qed
qed

lemma inv_after_job:
  assumes "running_inv j w" and "j < length (capsuleGenerationJobs w)"
    and "length (capsules w') = length (capsules w)"
    and "length (capsuleGenerationJobs w') = length (capsuleGenerationJobs w)"
    and "\<forall>k. k \<noteq> j \<longrightarrow> capsuleGenerationJobs w' ! k = capsuleGenerationJobs w ! k"
    and "job_ok (capsuleGenerationJobs w' ! j)"
    and "scheduled w' = scheduled w @ new"
    and "new = [] \<or> (\<exists>d c. new = [(d, c)] \<and> job_of c = j \<and> task_ok w' c)"
  shows "pipeline_inv w'"
proof -
  have "capsuleGenerationJobs w' =
          (capsuleGenerationJobs w)[j := capsuleGenerationJobs w' ! j]"
    using assms(2,4,5) by (intro nth_equalityI) (auto simp add: nth_list_update)
  then show ?thesis
    using inv_after [OF assms(1,2,3) _ assms(6,7,8)] by blast
qed

lemma inv_after_same:
  assumes "running_inv j w" 
    and "length (capsules w') = length (capsules w)"
    and "capsuleGenerationJobs w' = capsuleGenerationJobs w"
    and "scheduled w' = scheduled w"
  shows "pipeline_inv w'"
proof -
  have "task_ok w' = task_ok w" by (rule task_ok_cong) (use assms(2,3) in simp_all)
  then show ?thesis using assms by (simp add: pipeline_inv_def running_inv_def)
qed


lemmas mutation_defs = getCapsuleForGeneration_def getGenerationJobById_def
  updateCapsuleStatus_def updateGenerationJob_def runAfter_def saveGeneratedModule_def

lemma job_ok_patch_other:
  "u_modulesGenerated u = None \<Longrightarrow> u_totalModules u = None \<Longrightarrow> u_currentStage u = None \<Longrightarrow>
   job_ok j \<Longrightarrow> job_ok (patch_job t u j)"
  by (simp add: job_ok_def patch_job_def)

lemma inv_generateOutline:
  assumes "running_inv j w" and "task_ok w (GenerateOutline c j g)"
  shows "pipeline_inv (snd (generateOutline oai c j g w))"
proof -
  from assms(2) have c: "c < length (capsules w)" and j: "j < length (capsuleGenerationJobs w)"
    and mg: "modulesGenerated (capsuleGenerationJobs w ! j) = 0" by simp_all
  from assms(1) j have jok: "job_ok (capsuleGenerationJobs w ! j)"
    by (simp add: running_inv_def list_all_length)
  let ?r = "oai (str_or (sourceTopic (capsules w ! c)) (c_title (capsules w ! c)))
                (str_or (userPrompt (capsules w ! c)) [])"
  show ?thesis
  proof (cases ?r)
    case (Inl e)
    show ?thesis
      apply (rule inv_after_job [OF assms(1) j, where new = "[]"])
      using c j Inl jok
      apply (simp_all add: generateOutline_def action_defs mutation_defs job_ok_patch_other no_updates_def)
      done
  next
    case (Inr ol)
    show ?thesis
    proof (cases "o_error ol = Some True")
      case True
      show ?thesis
        apply (rule inv_after_same [OF assms(1)])
        using c j Inr True
        apply (simp_all add: generateOutline_def action_defs mutation_defs)
        done
    next
      case False
      show ?thesis
      proof (cases "totalModules_of (o_modules ol) > 0")
        case True
        show ?thesis
          apply (rule inv_after_job [OF assms(1) j, where new = "[(0, GenerateModuleContent c j g 0 ol)]"])
          using c j Inr False True jok mg
          apply (simp_all add: generateOutline_def action_defs mutation_defs no_updates_def job_ok_def patch_job_def)
          done
      next
        case z: False
        show ?thesis
          apply (rule inv_after_job [OF assms(1) j, where new = "[]"])
          using c j Inr False z jok mg
          apply (simp_all add: generateOutline_def action_defs mutation_defs no_updates_def job_ok_def patch_job_def)
          done
      qed
    qed
  qed
qed


lemma try_failure_keeps_store:
  assumes "j < length (capsuleGenerationJobs w)"
    and "generateModuleContent_try mai c j g i ol w = (Inl e, w')"
  shows "w' = w"
  using assms
  by (auto simp add: generateModuleContent_try_def action_defs mutation_defs Let_def
      split: option.splits sum.splits if_splits prod.splits)

lemma try_success:
  assumes "j < length (capsuleGenerationJobs w)"
    and "generateModuleContent_try mai c j g i ol w = (Inr x, w')"
  shows "length (capsules w') = length (capsules w)
       \<and> capsuleGenerationJobs w' = (capsuleGenerationJobs w)
            [j := patch_job (now w)
               (no_updates
                  \<lparr>u_modulesGenerated := Some (i + 1), u_currentModuleIndex := Some (i + 1),
                   u_currentStage :=
                     Some (if i + 1 \<ge> totalModules_of (o_modules ol) then ''finalizing''
                           else ''module_'' @ show_nat (i + 1))\<rparr>)
               (capsuleGenerationJobs w ! j)]
       \<and> scheduled w' = scheduled w @
            [(0, if i + 1 \<ge> totalModules_of (o_modules ol) then FinalizeGeneration c j g
                 else GenerateModuleContent c j g (i + 1) ol)]
       \<and> i < totalModules_of (o_modules ol)"
  using assms
  by (auto simp add: generateModuleContent_try_def action_defs mutation_defs Let_def totalModules_of_def
      split: option.splits sum.splits if_splits prod.splits)


lemma catch_outcome:
  fixes g :: string and i :: nat and ol :: outlineResponse and e :: error
  assumes "c < length (capsules w)" and "j < length (capsuleGenerationJobs w)"
  defines "w' \<equiv> snd (generateModuleContent_catch c j g i ol e w)"
  shows "length (capsules w') = length (capsules w)"
    and "length (capsuleGenerationJobs w') = length (capsuleGenerationJobs w)"
    and "\<forall>k. k \<noteq> j \<longrightarrow> capsuleGenerationJobs w' ! k = capsuleGenerationJobs w ! k"
    and "modulesGenerated (capsuleGenerationJobs w' ! j)
           = modulesGenerated (capsuleGenerationJobs w ! j)"
    and "totalModules (capsuleGenerationJobs w' ! j)
           = totalModules (capsuleGenerationJobs w ! j)"
    and "currentStage (capsuleGenerationJobs w' ! j)
           = currentStage (capsuleGenerationJobs w ! j)"
    and "scheduled w' = scheduled w
         \<or> (\<exists>d. scheduled w' = scheduled w @ [(d, GenerateModuleContent c j g i ol)])"
  using assms(1,2) unfolding w'_def
  by (simp_all add: generateModuleContent_catch_def action_defs mutation_defs Let_def
        patch_job_def no_updates_def)

lemma mono_after:
  assumes "length (capsuleGenerationJobs w') = length (capsuleGenerationJobs w)"
    and "\<forall>k. k \<noteq> j \<longrightarrow> capsuleGenerationJobs w' ! k = capsuleGenerationJobs w ! k"
    and "modulesGenerated (capsuleGenerationJobs w ! j)
           \<le> modulesGenerated (capsuleGenerationJobs w' ! j)"
  shows "progress_mono w w'"
  unfolding progress_mono_def
proof (intro conjI allI impI)
  show "length (capsuleGenerationJobs w) \<le> length (capsuleGenerationJobs w')"
    using assms(1) by simp
next
  fix k assume "k < length (capsuleGenerationJobs w)"
  show "modulesGenerated (capsuleGenerationJobs w ! k)
          \<le> modulesGenerated (capsuleGenerationJobs w' ! k)"
    using assms(2,3) by (cases "k = j") simp_all
qed

lemma inv_generateModuleContent:
  assumes "running_inv j w" and "task_ok w (GenerateModuleContent c j g i ol)"
  shows "pipeline_inv (snd (generateModuleContent mai c j g i ol w))
       \<and> progress_mono w (snd (generateModuleContent mai c j g i ol w))"
proof -
  from assms(2) have c: "c < length (capsules w)" and j: "j < length (capsuleGenerationJobs w)"
    and tm: "totalModules (capsuleGenerationJobs w ! j) = totalModules_of (o_modules ol)"
    and mg: "modulesGenerated (capsuleGenerationJobs w ! j) = i" by simp_all
  from assms(1) j have jok: "job_ok (capsuleGenerationJobs w ! j)"
    by (simp add: running_inv_def list_all_length)
  obtain r w1 where t: "generateModuleContent_try mai c j g i ol w = (r, w1)"
    by (cases "generateModuleContent_try mai c j g i ol w")
  show ?thesis
  proof (cases r)
    case (Inl e)
    with t j have "w1 = w" by (auto dest: try_failure_keeps_store)
    with t Inl have eq: "snd (generateModuleContent mai c j g i ol w) =
        snd (generateModuleContent_catch c j g i ol e w)"
      by (simp add: generateModuleContent_def try_catch_def)
    let ?w' = "snd (generateModuleContent_catch c j g i ol e w)"
    note co = catch_outcome [OF c j, of g i ol e]
    from co(7) obtain new where sch': "scheduled ?w' = scheduled w @ new"
      and new: "new = [] \<or> (\<exists>d. new = [(d, GenerateModuleContent c j g i ol)])"
      by auto
    have Jok: "job_ok (capsuleGenerationJobs ?w' ! j)"
      using jok co(4,5,6) by (simp add: job_ok_def)
    have "pipeline_inv ?w'"
    proof (rule inv_after_job [OF assms(1) j co(1,2,3) Jok sch'])
      show "new = [] \<or> (\<exists>d c. new = [(d, c)] \<and> job_of c = j \<and> task_ok ?w' c)"
        using new c j tm mg co(1,2,4,5) by auto
    qed
    moreover have "progress_mono w ?w'"
      by (rule mono_after [where j = j]) (use co(2,3,4) in simp_all)
    ultimately show ?thesis by (simp add: eq)
  next
    case (Inr x)
    with t have eq: "snd (generateModuleContent mai c j g i ol w) = w1"
      by (simp add: generateModuleContent_def try_catch_def)
    from try_success [OF j t [unfolded Inr]]
    have len: "length (capsules w1) = length (capsules w)"
      and jobs': "capsuleGenerationJobs w1 = (capsuleGenerationJobs w)
            [j := patch_job (now w)
               (no_updates
                  \<lparr>u_modulesGenerated := Some (i + 1), u_currentModuleIndex := Some (i + 1),
                   u_currentStage :=
                     Some (if i + 1 \<ge> totalModules_of (o_modules ol) then ''finalizing''
                           else ''module_'' @ show_nat (i + 1))\<rparr>)
               (capsuleGenerationJobs w ! j)]"
      and sch': "scheduled w1 = scheduled w @
            [(0, if i + 1 \<ge> totalModules_of (o_modules ol) then FinalizeGeneration c j g
                 else GenerateModuleContent c j g (i + 1) ol)]"
      and i: "i < totalModules_of (o_modules ol)"
      by simp_all
    have "pipeline_inv w1"
    proof (rule inv_after [OF assms(1) j len jobs' _ sch'])
      show "job_ok (patch_job (now w)
               (no_updates
                  \<lparr>u_modulesGenerated := Some (i + 1), u_currentModuleIndex := Some (i + 1),
                   u_currentStage :=
                     Some (if i + 1 \<ge> totalModules_of (o_modules ol) then ''finalizing''
                           else ''module_'' @ show_nat (i + 1))\<rparr>)
               (capsuleGenerationJobs w ! j))"
        using i tm by (simp add: job_ok_def patch_job_def no_updates_def)
      show "[(0, if i + 1 \<ge> totalModules_of (o_modules ol) then FinalizeGeneration c j g
                 else GenerateModuleContent c j g (i + 1) ol)] = [] \<or>
            (\<exists>d ca. [(0, if i + 1 \<ge> totalModules_of (o_modules ol) then FinalizeGeneration c j g
                 else GenerateModuleContent c j g (i + 1) ol)] = [(d, ca)] \<and> job_of ca = j \<and> task_ok w1 ca)"
        using i tm c j len by (simp add: jobs' patch_job_def no_updates_def)
    qed
    moreover have "progress_mono w w1"
      by (rule mono_after [where j = j]) (use j mg in \<open>simp_all add: jobs' patch_job_def no_updates_def\<close>)
    ultimately show ?thesis by (simp add: eq)
  qed
qed


lemma mono_generateOutline:
  assumes "c < length (capsules w)" and "j < length (capsuleGenerationJobs w)"
  shows "progress_mono w (snd (generateOutline oai c j g w))"
  by (rule mono_after [where j = j])
     (use assms in \<open>auto simp add: generateOutline_def action_defs mutation_defs
        patch_job_def no_updates_def split: sum.splits\<close>)

lemma inv_finalizeGeneration:
  assumes "running_inv j w" and "task_ok w (FinalizeGeneration c j g)"
  shows "pipeline_inv (snd (finalizeGeneration c j g w))
       \<and> progress_mono w (snd (finalizeGeneration c j g w))"
proof -
  from assms(2) have c: "c < length (capsules w)" and j: "j < length (capsuleGenerationJobs w)"
    and mg: "modulesGenerated (capsuleGenerationJobs w ! j)
               = totalModules (capsuleGenerationJobs w ! j)" by simp_all
  have "pipeline_inv (snd (finalizeGeneration c j g w))"
    by (rule inv_after_job [OF assms(1) j, where new = "[]"])
       (use c j mg in \<open>simp_all add: finalizeGeneration_def action_defs mutation_defs
          patch_job_def no_updates_def job_ok_def\<close>)
  moreover have "progress_mono w (snd (finalizeGeneration c j g w))"
    by (rule mono_after [where j = j])
       (use c j in \<open>simp_all add: finalizeGeneration_def action_defs mutation_defs
          patch_job_def no_updates_def\<close>)
  ultimately show ?thesis ..
qed

lemma inv_run_call:
  assumes "running_inv (job_of cl) w" and "task_ok w cl"
  shows "pipeline_inv (snd (run_call oai mai cl w)) \<and> progress_mono w (snd (run_call oai mai cl w))"
proof (cases cl)
  case (GenerateOutline c j g)
  with assms show ?thesis
    by (simp add: inv_generateOutline mono_generateOutline)
next
  case (GenerateModuleContent c j g i ol)
  with assms show ?thesis
    using inv_generateModuleContent [of j w c g i ol mai] by simp
next
  case (FinalizeGeneration c j g)
  with assms show ?thesis
    using inv_finalizeGeneration [of j w c g] by simp
qed

lemma progress_mono_same_jobs:
  "capsuleGenerationJobs w' = capsuleGenerationJobs w \<Longrightarrow> progress_mono w w'"
  by (simp add: progress_mono_def)

lemma pipeline_inv_same_tables:
  assumes "pipeline_inv w" and "length (capsules w) \<le> length (capsules w')"
    and "capsuleGenerationJobs w' = capsuleGenerationJobs w"
    and "scheduled w' = scheduled w"
  shows "pipeline_inv w'"
proof -
  have "task_ok w' c" if "task_ok w c" for c
    by (rule task_ok_frame [OF that]) (use assms(2,3) in simp_all)
  then show ?thesis
    using assms(1,3,4) by (auto simp add: pipeline_inv_def list_all_iff)
qed

lemma inv_createCapsule:
  assumes "pipeline_inv w"
  shows "pipeline_inv (snd (createCapsule title st tp pr w))
       \<and> progress_mono w (snd (createCapsule title st tp pr w))"
proof
  show "pipeline_inv (snd (createCapsule title st tp pr w))"
    by (rule pipeline_inv_same_tables [OF assms]) (simp_all add: createCapsule_def)
  show "progress_mono w (snd (createCapsule title st tp pr w))"
    by (rule progress_mono_same_jobs) (simp add: createCapsule_def)
qed

lemma generateCapsuleContent_cases:
  fixes rnd :: string
  defines "w' \<equiv> \<lambda>c w. snd (generateCapsuleContent rnd c w)"
  shows "w' c w = w
   \<or> (c < length (capsules w)
      \<and> length (capsules (w' c w)) = length (capsules w)
      \<and> capsuleGenerationJobs (w' c w)
          = capsuleGenerationJobs w @ [last (capsuleGenerationJobs (w' c w))]
      \<and> modulesGenerated (last (capsuleGenerationJobs (w' c w))) = 0
      \<and> totalModules (last (capsuleGenerationJobs (w' c w))) = 0
      \<and> currentStage (last (capsuleGenerationJobs (w' c w))) = ''outline''
      \<and> scheduled (w' c w) = scheduled w @
                [(0, GenerateOutline c (length (capsuleGenerationJobs w))
                       (generationId (last (capsuleGenerationJobs (w' c w)))))])"
  unfolding w'_def
  by (simp add: generateCapsuleContent_def getCapsule_def action_defs createGenerationJob_def
        updateCapsuleStatus_def runAfter_def Let_def)

lemma inv_generateCapsuleContent:
  assumes "pipeline_inv w"
  shows "pipeline_inv (snd (generateCapsuleContent rnd c w))
       \<and> progress_mono w (snd (generateCapsuleContent rnd c w))"
proof -
  let ?w' = "snd (generateCapsuleContent rnd c w)"
  let ?n = "length (capsuleGenerationJobs w)"
  let ?nj = "last (capsuleGenerationJobs ?w')"
  let ?gid = "generationId ?nj"
  from generateCapsuleContent_cases [of rnd c w] show ?thesis
  proof (elim disjE conjE)
    assume "?w' = w"
    with assms show ?thesis by (simp add: progress_mono_def)
  next
    assume c: "c < length (capsules w)"
      and caps': "length (capsules ?w') = length (capsules w)"
      and jobs': "capsuleGenerationJobs ?w' = capsuleGenerationJobs w @ [?nj]"
      and nj: "modulesGenerated ?nj = 0" "totalModules ?nj = 0" "currentStage ?nj = ''outline''"
      and sch': "scheduled ?w' = scheduled w @ [(0, GenerateOutline c ?n ?gid)]"
    have nth_old: "capsuleGenerationJobs ?w' ! k = capsuleGenerationJobs w ! k" if "k < ?n" for k
      by (subst jobs') (simp add: nth_append that)
    have len': "length (capsuleGenerationJobs ?w') = Suc ?n"
      by (subst jobs') simp
    have old: "task_ok ?w' cl \<and> job_of cl \<noteq> ?n" if "cl \<in> set (map snd (scheduled w))" for cl
    proof -
      from that assms have ok: "task_ok w cl" by (auto simp add: pipeline_inv_def list_all_iff)
      then have b: "job_of cl < ?n" by (rule task_ok_job_bound)
      have "task_ok ?w' cl"
        by (rule task_ok_frame [OF ok]) (use b in \<open>simp_all add: caps' len' nth_old\<close>)
      with b show ?thesis by simp
    qed
    then have olds: "list_all (task_ok ?w') (map snd (scheduled w))"
      unfolding list_all_iff by blast
    have fresh: "?n \<notin> set (map (job_of \<circ> snd) (scheduled w))"
    proof
      assume "?n \<in> set (map (job_of \<circ> snd) (scheduled w))"
      then obtain x where "x \<in> set (scheduled w)" and "job_of (snd x) = ?n" by auto
      with old [of "snd x"] show False by simp
    qed
    have "capsuleGenerationJobs ?w' ! ?n = ?nj"
      by (subst jobs') simp
    then have newt: "task_ok ?w' (GenerateOutline c ?n ?gid)"
      using c nj by (simp add: caps' len')
    have "list_all job_ok (capsuleGenerationJobs w @ [?nj])"
      using assms nj by (simp add: pipeline_inv_def job_ok_def)
    then have jobs: "list_all job_ok (capsuleGenerationJobs ?w')"
      using jobs' by simp
    have d: "distinct (map (job_of \<circ> snd) (scheduled w))"
      using assms by (simp add: pipeline_inv_def)
    have "pipeline_inv ?w'"
      unfolding pipeline_inv_def using olds fresh newt jobs d by (simp add: sch')
    moreover have "progress_mono w ?w'"
      by (simp add: progress_mono_def len' nth_old)
    ultimately show ?thesis ..
  qed
qed

lemma step_preserves:
  assumes "step w w'" and "pipeline_inv w"
  shows "pipeline_inv w' \<and> progress_mono w w'"
  using assms
proof (cases rule: step.cases)
  case (step_create title srcType srcTopic prompt)
  with assms(2) show ?thesis by (simp add: inv_createCapsule)
next
  case (step_start rnd capsuleId)
  with assms(2) show ?thesis by (simp add: inv_generateCapsuleContent)
next
  case (step_run k oai mai)
  let ?cl = "snd (scheduled w ! k)"
  from dequeue_running [OF assms(2) step_run(2)]
  have "running_inv (job_of ?cl) (dequeue k w)" and "task_ok (dequeue k w) ?cl" .
  from inv_run_call [OF this, of oai mai]
  show ?thesis unfolding step_run(1) by (simp add: progress_mono_def dequeue_def)
next
  case (step_status capsuleId args)
  have "pipeline_inv (snd (updateCapsuleStatus capsuleId args w))"
    by (rule pipeline_inv_same_tables [OF assms(2)]) (simp_all add: updateCapsuleStatus_def)
  then show ?thesis unfolding step_status(1)
    by (simp add: progress_mono_def updateCapsuleStatus_def)
next
  case (step_tick t)
  have "pipeline_inv (w\<lparr>now := t\<rparr>)"
    by (rule pipeline_inv_same_tables [OF assms(2)]) simp_all
  then show ?thesis unfolding step_tick(1) by (simp add: progress_mono_def)
qed

lemma reachable_inv: "reachable w \<Longrightarrow> pipeline_inv w"
  by (induction rule: reachable.induct) (simp_all add: pipeline_inv_initial step_preserves)

subsection \<open>Sample runs are runs of the pipeline\<close>

lemma reachable_run_next:
  assumes "reachable w" and "0 < length (scheduled w)"
  shows "reachable (run_next oai mai w)"
  unfolding run_next_def
  by (rule reach_step [OF assms(1)]) (rule step_run [OF assms(2)])

lemma reachable_started_world: "reachable started_world"
proof -
  have "reachable (snd (createCapsule ''Stacks and queues'' topic (Some ''Stacks and queues'')
                          None (initial 0 (\<lambda>d ls. None))))"
    by (rule reach_step [OF reach_init step_create])
  then show ?thesis
    unfolding started_world_def by (rule reach_step [OF _ step_start])
qed

lemma step_good_started: "step started_world (good_step started_world)"
proof -
  have "0 < length (scheduled started_world)" by code_simp
  then show ?thesis unfolding good_step_def run_next_def by (rule step_run)
qed

lemma reachable_good1: "reachable (good_step started_world)"
  by (rule reach_step [OF reachable_started_world step_good_started])

lemma reachable_good2: "reachable (good_step (good_step started_world))"
proof -
  have "0 < length (scheduled (good_step started_world))" by code_simp
  from reachable_run_next [OF reachable_good1 this] show ?thesis
    by (simp add: good_step_def)
qed

lemma reachable_good3: "reachable (good_step (good_step (good_step started_world)))"
proof -
  have "0 < length (scheduled (good_step (good_step started_world)))" by code_simp
  from reachable_run_next [OF reachable_good2 this] show ?thesis
    by (simp add: good_step_def)
qed

lemma reachable_completed_run: "reachable completed_run"
proof -
  have "0 < length (scheduled (good_step (good_step (good_step started_world))))"
    by code_simp
  from reachable_run_next [OF reachable_good3 this] show ?thesis
    by (simp add: good_step_def completed_run_def)
qed

lemma reachable_bad1: "reachable (bad_step (good_step (good_step started_world)))"
proof -
  have "0 < length (scheduled (good_step (good_step started_world)))" by code_simp
  from reachable_run_next [OF reachable_good2 this] show ?thesis
    by (simp add: bad_step_def)
qed

lemma reachable_bad2: "reachable (bad_step (bad_step (good_step (good_step started_world))))"
proof -
  have "0 < length (scheduled (bad_step (good_step (good_step started_world))))"
    by code_simp
  from reachable_run_next [OF reachable_bad1 this] show ?thesis
    by (simp add: bad_step_def)
qed

lemma reachable_failed_run: "reachable failed_run"
proof -
  have "0 < length (scheduled (bad_step (bad_step (good_step (good_step started_world)))))"
    by code_simp
  from reachable_run_next [OF reachable_bad2 this] show ?thesis
    by (simp add: bad_step_def failed_run_def)
qed

lemma reachable_retry_started:
  "reachable (snd (generateCapsuleContent ''xyz'' 0 failed_run))"
  by (rule reach_step [OF reachable_failed_run step_start])

lemma reachable_retry1:
  "reachable (good_step (snd (generateCapsuleContent ''xyz'' 0 failed_run)))"
proof -
  have "0 < length (scheduled (snd (generateCapsuleContent ''xyz'' 0 failed_run)))"
    by code_simp
  from reachable_run_next [OF reachable_retry_started this] show ?thesis
    by (simp add: good_step_def)
qed

lemma reachable_retried_run: "reachable retried_run"
proof -
  have "0 < length (scheduled (good_step (snd (generateCapsuleContent ''xyz'' 0 failed_run))))"
    by code_simp
  from reachable_run_next [OF reachable_retry1 this] show ?thesis
    by (simp add: good_step_def retried_run_def)
qed

subsection \<open>Job progress\<close>

text \<open>
  C8. In every reachable store, every job has \<open>modulesGenerated \<le> totalModules\<close>, and a
  job whose \<open>currentStage\<close> is \<open>completed\<close> has \<open>modulesGenerated = totalModules\<close>; and
  no step of the pipeline from a reachable store lowers the \<open>modulesGenerated\<close> of any
  job, so the count is non-decreasing along every run, the successful ones included.
\<close>

theorem job_progress_bounded_and_monotone:
  assumes "reachable w"
  shows "(\<forall>j < length (capsuleGenerationJobs w).
            modulesGenerated (capsuleGenerationJobs w ! j)
              \<le> totalModules (capsuleGenerationJobs w ! j)
          \<and> (currentStage (capsuleGenerationJobs w ! j) = ''completed'' \<longrightarrow>
               modulesGenerated (capsuleGenerationJobs w ! j)
                 = totalModules (capsuleGenerationJobs w ! j)))
       \<and> (\<forall>w'. step w w' \<longrightarrow>
             (\<forall>j < length (capsuleGenerationJobs w).
                j < length (capsuleGenerationJobs w')
                \<and> modulesGenerated (capsuleGenerationJobs w ! j)
                    \<le> modulesGenerated (capsuleGenerationJobs w' ! j)))"
proof (intro conjI allI impI)
  fix j assume j: "j < length (capsuleGenerationJobs w)"
  from reachable_inv [OF assms] j have ok: "job_ok (capsuleGenerationJobs w ! j)"
    by (simp add: pipeline_inv_def list_all_length)
  then show "modulesGenerated (capsuleGenerationJobs w ! j)
               \<le> totalModules (capsuleGenerationJobs w ! j)"
    by (simp add: job_ok_def)
  assume "currentStage (capsuleGenerationJobs w ! j) = ''completed''"
  with ok show "modulesGenerated (capsuleGenerationJobs w ! j)
                  = totalModules (capsuleGenerationJobs w ! j)"
    by (simp add: job_ok_def)
next
  fix w' j assume s: "step w w'" and j: "j < length (capsuleGenerationJobs w)"
  from step_preserves [OF s reachable_inv [OF assms]] have m: "progress_mono w w'" ..
  with j show "j < length (capsuleGenerationJobs w')"
    by (simp add: progress_mono_def)
  from m j show "modulesGenerated (capsuleGenerationJobs w ! j)
          \<le> modulesGenerated (capsuleGenerationJobs w' ! j)"
    by (simp add: progress_mono_def)
qed

theorem job_progress_bounded_and_monotone_witness:
  "reachable completed_run
   \<and> currentStage (capsuleGenerationJobs completed_run ! 0) = ''completed''
   \<and> modulesGenerated (capsuleGenerationJobs completed_run ! 0) = 2
   \<and> totalModules (capsuleGenerationJobs completed_run ! 0) = 2
   \<and> step (good_step started_world) (good_step (good_step started_world))
   \<and> modulesGenerated (capsuleGenerationJobs (good_step started_world) ! 0)
       \<le> modulesGenerated (capsuleGenerationJobs (good_step (good_step started_world)) ! 0)"
proof -
  have len: "0 < length (capsuleGenerationJobs completed_run)" by code_simp
  have stage: "currentStage (capsuleGenerationJobs completed_run ! 0) = ''completed''"
    by code_simp
  have total: "totalModules (capsuleGenerationJobs completed_run ! 0) = 2" by code_simp
  have q: "0 < length (scheduled (good_step started_world))" by code_simp
  have "step (good_step started_world)
          (run_next (answer_outline sample_outline) (answer_module sample_module_content)
             (good_step started_world))"
    unfolding run_next_def using q by (rule step_run)
  then have s: "step (good_step started_world) (good_step (good_step started_world))"
    by (simp add: good_step_def)
  have len1: "0 < length (capsuleGenerationJobs (good_step started_world))" by code_simp
  from job_progress_bounded_and_monotone [OF reachable_completed_run] len stage total
  have "modulesGenerated (capsuleGenerationJobs completed_run ! 0) = 2" by simp
  moreover from job_progress_bounded_and_monotone [OF reachable_good1] s len1
  have "modulesGenerated (capsuleGenerationJobs (good_step started_world) ! 0)
       \<le> modulesGenerated (capsuleGenerationJobs (good_step (good_step started_world)) ! 0)"
    by blast
  ultimately show ?thesis using reachable_completed_run stage total s by simp
qed

subsection \<open>Module order after a retry\<close>

text \<open>
  C5, on the code: the store \<open>retried_run\<close> is reachable (a capsule whose second module
  failed three times is retried, and the new run generates its first module), and in it
  the capsule has two modules with \<open>order\<close> 0: the modules of the failed run are still
  there when the retry stores its own.
\<close>

theorem retry_duplicates_module_order:
  "reachable retried_run
   \<and> module_orders 0 retried_run = [0, 0]
   \<and> \<not> distinct (module_orders 0 retried_run)"
proof -
  have "module_orders 0 retried_run = [0, 0]" by code_simp
  with reachable_retried_run show ?thesis by simp
qed

subsection \<open>The repair loop\<close>

lemma less_than_bound:
  assumes "cycle_bound m = Some N"
  shows "less_than a m = (a < N)"
proof (cases m)
  case (Num q)
  with assms have N: "N = nat \<lceil>q\<rceil>" by (simp add: cycle_bound_def split: if_splits)
  have "(of_nat a < q) = (int a < \<lceil>q\<rceil>)"
    by (simp add: less_ceiling_iff)
  also have "\<dots> = (a < nat \<lceil>q\<rceil>)" by linarith
  finally show ?thesis using Num N by (simp add: less_than_def)
qed (use assms in \<open>simp_all add: cycle_bound_def less_than_def\<close>)

lemma bound_le:
  assumes "cycle_bound m = Some N"
  shows "N \<le> 2 ^ 53"
proof (cases m)
  case (Num q)
  with assms have N: "N = nat \<lceil>q\<rceil>" and q: "q \<le> 2 ^ 53"
    by (simp_all add: cycle_bound_def split: if_splits)
  from q have "\<lceil>q\<rceil> \<le> 2 ^ 53"
    by (simp add: ceiling_le_iff)
  then have "nat \<lceil>q\<rceil> \<le> nat (2 ^ 53)" by (rule nat_mono)
  then show ?thesis using N by simp
qed (use assms in \<open>simp_all add: cycle_bound_def\<close>)

lemma plus_one_below:
  assumes "cycle_bound m = Some N" and "a < N"
  shows "plus_one a = Suc a"
  using bound_le [OF assms(1)] assms(2) by (simp add: plus_one_def)


lemma attempt_loop_run:
  assumes b: "cycle_bound (maxAttempts opts) = Some N"
  shows "a \<le> N \<Longrightarrow>
    \<exists>r ts ps. attempt_loop eng opts a cur le tried calls = Some r
      \<and> run_tried r = tried @ ts \<and> run_calls r = calls @ ps
      \<and> length ts \<le> N - a \<and> length ps \<le> length ts
      \<and> (\<forall>out. run_result r = Inr out \<longrightarrow>
             ts \<noteq> [] \<and> parse_validate eng opts (last ts) = Inr out
             \<and> Suc (length ps) = length ts)
      \<and> (list_all (cycle_fails eng opts) ts \<and> list_all (answered eng) ps \<longrightarrow>
             length ts = N - a \<and> length ps = N - a
             \<and> run_result r =
                 Inl (Error (''Failed to validate JSON after ''
                             @ number_string (Number_toString eng) (maxAttempts opts)
                             @ '' attempts: ''
                             @ (if ts = [] then buildErrorMessage le
                                else cycle_error eng opts (last ts)))))
      \<and> (\<forall>x. ps \<noteq> [] \<and> repairStructuredJson eng (last ps) = Inl x \<longrightarrow>
             run_result r = Inl x \<and> length ps = length ts)
      \<and> list_all (cycle_fails eng opts) (butlast ts)
      \<and> list_all (answered eng) (butlast ps)
      \<and> ((\<exists>e. run_result r = Inl e) \<longrightarrow> list_all (cycle_fails eng opts) ts)"
proof (induction "N - a" arbitrary: a cur le tried calls)
  case 0
  then have "\<not> less_than a (maxAttempts opts)"
    by (simp add: less_than_bound [OF b])
  then have "attempt_loop eng opts a cur le tried calls =
      Some \<lparr>run_result =
               Inl (Error (''Failed to validate JSON after ''
                           @ number_string (Number_toString eng) (maxAttempts opts)
                           @ '' attempts: '' @ buildErrorMessage le)),
             run_tried = tried, run_calls = calls\<rparr>"
    by (subst attempt_loop.simps) simp
  with 0 show ?case by simp
next
  case (Suc k)
  then have lt: "a < N" and k: "k = N - Suc a" by simp_all
  then have c: "less_than a (maxAttempts opts)" and p1: "plus_one a = Suc a"
    by (simp_all add: less_than_bound [OF b] plus_one_below [OF b])
  show ?case
  proof (cases "parse_validate eng opts cur")
    case (Inr out)
    with c have "attempt_loop eng opts a cur le tried calls =
        Some \<lparr>run_result = Inr out, run_tried = tried @ [cur], run_calls = calls\<rparr>"
      by (subst attempt_loop.simps) simp
    moreover have "\<not> cycle_fails eng opts cur"
      using Inr by (simp add: cycle_fails_def)
    ultimately show ?thesis using lt Inr
      by (intro exI [of _ "\<lparr>run_result = Inr out, run_tried = tried @ [cur],
                             run_calls = calls\<rparr>"] exI [of _ "[cur]"] exI [of _ "[]"])
         simp
  next
    case (Inl e)
    let ?p = "repair_payload opts a cur e"
    have f: "cycle_fails eng opts cur"
      and ce: "cycle_error eng opts cur = buildErrorMessage (Some e)"
      using Inl by (simp_all add: cycle_fails_def cycle_error_def)
    show ?thesis
    proof (cases "repairStructuredJson eng ?p")
      case (Inl x)
      with c \<open>parse_validate eng opts cur = Inl e\<close>
      have "attempt_loop eng opts a cur le tried calls =
          Some \<lparr>run_result = Inl x, run_tried = tried @ [cur], run_calls = calls @ [?p]\<rparr>"
        by (subst attempt_loop.simps) simp
      moreover have "\<not> answered eng ?p"
        using Inl by (simp add: answered_def)
      ultimately show ?thesis using lt Inl f
        by (intro exI [of _ "\<lparr>run_result = Inl x, run_tried = tried @ [cur],
                               run_calls = calls @ [?p]\<rparr>"] exI [of _ "[cur]"]
                  exI [of _ "[?p]"])
           simp
    next
      case (Inr answer)
      with c \<open>parse_validate eng opts cur = Inl e\<close> p1
      have u: "attempt_loop eng opts a cur le tried calls =
          attempt_loop eng opts (Suc a) answer (Some e) (tried @ [cur]) (calls @ [?p])"
        by (subst attempt_loop.simps) simp
      have an: "answered eng ?p"
        using Inr by (simp add: answered_def)
      from Suc.hyps(1) [of "Suc a" answer "Some e" "tried @ [cur]" "calls @ [?p]"] k lt
      obtain r ts ps where
        r: "attempt_loop eng opts (Suc a) answer (Some e) (tried @ [cur]) (calls @ [?p]) = Some r"
        and t: "run_tried r = (tried @ [cur]) @ ts" "run_calls r = (calls @ [?p]) @ ps"
        and l: "length ts \<le> N - Suc a" "length ps \<le> length ts"
        and ok: "\<forall>out. run_result r = Inr out \<longrightarrow>
             ts \<noteq> [] \<and> parse_validate eng opts (last ts) = Inr out
             \<and> Suc (length ps) = length ts"
        and ex: "list_all (cycle_fails eng opts) ts \<and> list_all (answered eng) ps \<longrightarrow>
             length ts = N - Suc a \<and> length ps = N - Suc a
             \<and> run_result r =
                 Inl (Error (''Failed to validate JSON after ''
                             @ number_string (Number_toString eng) (maxAttempts opts)
                             @ '' attempts: ''
                             @ (if ts = [] then buildErrorMessage (Some e)
                                else cycle_error eng opts (last ts))))"
        and rj: "\<forall>x. ps \<noteq> [] \<and> repairStructuredJson eng (last ps) = Inl x \<longrightarrow>
             run_result r = Inl x \<and> length ps = length ts"
        and bl: "list_all (cycle_fails eng opts) (butlast ts)"
          "list_all (answered eng) (butlast ps)"
        and er: "(\<exists>e. run_result r = Inl e) \<longrightarrow> list_all (cycle_fails eng opts) ts"
        by auto
      have 1: "length (cur # ts) \<le> N - a" "length (?p # ps) \<le> length (cur # ts)"
        using l lt by simp_all
      have 2: "\<forall>out. run_result r = Inr out \<longrightarrow>
             cur # ts \<noteq> [] \<and> parse_validate eng opts (last (cur # ts)) = Inr out
             \<and> Suc (length (?p # ps)) = length (cur # ts)"
        using ok by auto
      have 3: "list_all (cycle_fails eng opts) (cur # ts)
               \<and> list_all (answered eng) (?p # ps) \<longrightarrow>
             length (cur # ts) = N - a \<and> length (?p # ps) = N - a
             \<and> run_result r =
                 Inl (Error (''Failed to validate JSON after ''
                             @ number_string (Number_toString eng) (maxAttempts opts)
                             @ '' attempts: ''
                             @ (if cur # ts = [] then buildErrorMessage le
                                else cycle_error eng opts (last (cur # ts)))))"
        using ex lt ce by auto
      have 4: "\<forall>x. ?p # ps \<noteq> [] \<and> repairStructuredJson eng (last (?p # ps)) = Inl x \<longrightarrow>
             run_result r = Inl x \<and> length (?p # ps) = length (cur # ts)"
        using rj Inr by auto
      have 5: "list_all (cycle_fails eng opts) (butlast (cur # ts))"
        "list_all (answered eng) (butlast (?p # ps))"
        using bl f an by simp_all
      have 6: "(\<exists>e. run_result r = Inl e) \<longrightarrow> list_all (cycle_fails eng opts) (cur # ts)"
        using er f by simp
      from u r t have 0: "attempt_loop eng opts a cur le tried calls = Some r"
        "run_tried r = tried @ (cur # ts)" "run_calls r = calls @ (?p # ps)"
        by simp_all
      from 0 1 2 3 4 5 6 show ?thesis
        by (intro exI [of _ r] exI [of _ "cur # ts"] exI [of _ "?p # ps"]) blast
    qed
  qed
qed


text \<open>
  C3, amended. Let \<open>N\<close> be the number of iterations after which the loop counter ends the
  loop: the least natural number that is not below \<open>maxAttempts\<close> when that is finite and
  at most \<open>2\<^sup>5\<^sup>3\<close> (\<open>maxAttempts\<close> itself when it is a natural number, 5 when the option is
  not given), and 0 for \<open>NaN\<close> and \<open>-Infinity\<close>. Then a run of \<open>validateAndCorrectJson\<close> ends,
  whatever the input text, the schema and the model do; it runs at most \<open>N\<close>
  parse/validate cycles and sends at most one repair request for each cycle it runs. A
  run that returns gives the output of its last cycle and has sent one request less than
  it ran cycles. When every cycle of the run fails and the model answers every request,
  there are exactly \<open>N\<close> cycles and \<open>N\<close> requests, and the run throws
  \<open>Failed to validate JSON after M attempts: \<close> followed by the message of the error of
  the last cycle (\<open>undefined\<close> when \<open>N\<close> is 0), where \<open>M\<close> is \<open>maxAttempts\<close> as a template
  literal prints it. When the model rejects a repair request, that request is the last
  one: the run throws the model's error, after as many cycles as requests. In every run
  all cycles but the last fail and all requests but the last are answered, and a run
  that throws has no successful cycle.
\<close>

theorem validateAndCorrectJson_bounded_attempts:
  assumes "cycle_bound (maxAttempts opts) = Some N"
  shows "(opt_maxAttempts opts = None \<longrightarrow> N = 5)
       \<and> (maxAttempts opts = Num (of_nat n) \<longrightarrow>
            N = n \<and> number_string (Number_toString eng) (maxAttempts opts) = show_nat n)
       \<and> (\<exists>r. validateAndCorrectJson eng s opts = Some r
            \<and> length (run_tried r) \<le> N
            \<and> length (run_calls r) \<le> length (run_tried r)
            \<and> (\<forall>out. run_result r = Inr out \<longrightarrow>
                  run_tried r \<noteq> []
                \<and> parse_validate eng opts (last (run_tried r)) = Inr out
                \<and> Suc (length (run_calls r)) = length (run_tried r))
            \<and> (list_all (cycle_fails eng opts) (run_tried r)
                \<and> list_all (answered eng) (run_calls r) \<longrightarrow>
                  length (run_tried r) = N \<and> length (run_calls r) = N
                \<and> run_result r =
                    Inl (Error (''Failed to validate JSON after ''
                                @ number_string (Number_toString eng) (maxAttempts opts)
                                @ '' attempts: ''
                                @ (if N = 0 then ''undefined''
                                   else cycle_error eng opts (last (run_tried r))))))
            \<and> (\<forall>x. run_calls r \<noteq> []
                    \<and> repairStructuredJson eng (last (run_calls r)) = Inl x \<longrightarrow>
                  run_result r = Inl x \<and> length (run_calls r) = length (run_tried r))
            \<and> list_all (cycle_fails eng opts) (butlast (run_tried r))
            \<and> list_all (answered eng) (butlast (run_calls r))
            \<and> ((\<exists>e. run_result r = Inl e) \<longrightarrow>
                  list_all (cycle_fails eng opts) (run_tried r)))"
proof (intro conjI impI)
  assume "opt_maxAttempts opts = None"
  with assms show "N = 5"
    by (simp add: maxAttempts_def or_default_def DEFAULT_ATTEMPTS_def cycle_bound_def
        split: if_splits)
next
  assume m: "maxAttempts opts = Num (of_nat n)"
  with assms show "N = n"
    by (simp add: cycle_bound_def split: if_splits)
  with bound_le [OF assms] have "n \<le> 2 ^ 53" by simp
  also have "(2::nat) ^ 53 < 10 ^ 21" by simp
  finally have "(of_nat n :: rat) < of_nat (10 ^ 21)"
    by (simp only: of_nat_less_iff)
  then have "\<bar>of_nat n :: rat\<bar> < 10 ^ 21" by simp
  then show "number_string (Number_toString eng) (maxAttempts opts) = show_nat n"
    by (simp add: number_string_def m)
next
  from attempt_loop_run [OF assms, of 0 eng "stripMarkdownFences s" None "[]" "[]"]
  obtain r ts ps where r: "validateAndCorrectJson eng s opts = Some r"
    and t: "run_tried r = ts" "run_calls r = ps"
    and f: "length ts \<le> N" "length ps \<le> length ts"
      "\<forall>out. run_result r = Inr out \<longrightarrow>
             ts \<noteq> [] \<and> parse_validate eng opts (last ts) = Inr out
             \<and> Suc (length ps) = length ts"
      "list_all (cycle_fails eng opts) ts \<and> list_all (answered eng) ps \<longrightarrow>
             length ts = N \<and> length ps = N
             \<and> run_result r =
                 Inl (Error (''Failed to validate JSON after ''
                             @ number_string (Number_toString eng) (maxAttempts opts)
                             @ '' attempts: ''
                             @ (if ts = [] then buildErrorMessage None
                                else cycle_error eng opts (last ts))))"
      "\<forall>x. ps \<noteq> [] \<and> repairStructuredJson eng (last ps) = Inl x \<longrightarrow>
             run_result r = Inl x \<and> length ps = length ts"
      "list_all (cycle_fails eng opts) (butlast ts)"
      "list_all (answered eng) (butlast ps)"
      "(\<exists>e. run_result r = Inl e) \<longrightarrow> list_all (cycle_fails eng opts) ts"
    unfolding validateAndCorrectJson_def by auto
  have "list_all (cycle_fails eng opts) ts \<and> list_all (answered eng) ps \<longrightarrow>
             length ts = N \<and> length ps = N
             \<and> run_result r =
                 Inl (Error (''Failed to validate JSON after ''
                             @ number_string (Number_toString eng) (maxAttempts opts)
                             @ '' attempts: ''
                             @ (if N = 0 then ''undefined''
                                else cycle_error eng opts (last ts))))"
  proof
    assume a: "list_all (cycle_fails eng opts) ts \<and> list_all (answered eng) ps"
    with f(4) have l: "length ts = N" "length ps = N" by simp_all
    then have "(ts = []) = (N = 0)" by auto
    with a f(4) l show "length ts = N \<and> length ps = N
             \<and> run_result r =
                 Inl (Error (''Failed to validate JSON after ''
                             @ number_string (Number_toString eng) (maxAttempts opts)
                             @ '' attempts: ''
                             @ (if N = 0 then ''undefined''
                                else cycle_error eng opts (last ts))))"
      by (simp add: buildErrorMessage_def)
  qed
  with r f(1,2,3,5,6,7,8)
  show "\<exists>r. validateAndCorrectJson eng s opts = Some r
            \<and> length (run_tried r) \<le> N
            \<and> length (run_calls r) \<le> length (run_tried r)
            \<and> (\<forall>out. run_result r = Inr out \<longrightarrow>
                  run_tried r \<noteq> []
                \<and> parse_validate eng opts (last (run_tried r)) = Inr out
                \<and> Suc (length (run_calls r)) = length (run_tried r))
            \<and> (list_all (cycle_fails eng opts) (run_tried r)
                \<and> list_all (answered eng) (run_calls r) \<longrightarrow>
                  length (run_tried r) = N \<and> length (run_calls r) = N
                \<and> run_result r =
                    Inl (Error (''Failed to validate JSON after ''
                                @ number_string (Number_toString eng) (maxAttempts opts)
                                @ '' attempts: ''
                                @ (if N = 0 then ''undefined''
                                   else cycle_error eng opts (last (run_tried r))))))
            \<and> (\<forall>x. run_calls r \<noteq> []
                    \<and> repairStructuredJson eng (last (run_calls r)) = Inl x \<longrightarrow>
                  run_result r = Inl x \<and> length (run_calls r) = length (run_tried r))
            \<and> list_all (cycle_fails eng opts) (butlast (run_tried r))
            \<and> list_all (answered eng) (butlast (run_calls r))
            \<and> ((\<exists>e. run_result r = Inl e) \<longrightarrow>
                  list_all (cycle_fails eng opts) (run_tried r))"
    unfolding t [symmetric] by (intro exI [of _ r]) blast
qed

lemma replace_cmd_no_backslash:
  "backslash \<notin> set s \<Longrightarrow> replace_cmd cmd pb 0 s = s"
  by (induction s arbitrary: pb) auto

lemma fixLatexEscapes_no_backslash:
  assumes "backslash \<notin> set s"
  shows "fixLatexEscapes s = s"
proof -
  have "fold (\<lambda>cmd result. replace_cmd (units cmd) False 0 result) cmds s = s" for cmds
    by (induction cmds) (simp_all add: replace_cmd_no_backslash assms)
  then show ?thesis by (simp add: fixLatexEscapes_def)
qed

lemma sample_texts_stripped:
  "stripMarkdownFences (units ''oops'') = units ''oops''"
  "stripMarkdownFences (units ''still not JSON'') = units ''still not JSON''"
  "stripMarkdownFences doc_b_compact = doc_b_compact"
  "stripMarkdownFences doc_empty_array = doc_empty_array"
  by code_simp+

lemma sample_texts_escaped:
  "fixLatexEscapes (units ''oops'') = units ''oops''"
  "fixLatexEscapes (units ''still not JSON'') = units ''still not JSON''"
  "fixLatexEscapes doc_b_compact = doc_b_compact"
  "fixLatexEscapes doc_empty_array = doc_empty_array"
  by (rule fixLatexEscapes_no_backslash, code_simp)+

lemma sample_engine_parse:
  "JSON_parse sample_engine (units ''oops'') = Inl (Error ''Unexpected token in JSON'')"
  "JSON_parse sample_engine (units ''still not JSON'') = Inl (Error ''Unexpected token in JSON'')"
  "JSON_parse sample_engine doc_b_compact = Inr (JObj [(''b'', JNum 1)])"
  "JSON_parse sample_engine doc_b_pretty = Inr (JObj [(''b'', JNum 1)])"
  "JSON_parse sample_engine doc_empty_array = Inr (JObj [(''a'', JArr [])])"
  "JSON_parse sample_engine (units ''{}'') = Inr (JObj [])"
  by code_simp+

lemma sample_engine_stringify:
  "JSON_stringify sample_engine (JObj [(''b'', JNum 1)]) = doc_b_pretty"
  "JSON_stringify sample_engine (JObj []) = units ''{}''"
  by code_simp+


lemma sample_engine_repair:
  "repairStructuredJson sample_engine p = Inr (units ''still not JSON'')"
  "answered sample_engine p"
  by (simp_all add: repairStructuredJson_def answered_def sample_engine_def table_engine_def
        sample_texts_stripped)

lemma rejecting_engine_repair:
  "repairStructuredJson rejecting_engine p = Inl (Error ''Resource exhausted'')"
  by (simp add: repairStructuredJson_def rejecting_engine_def)

lemma rejecting_engine_parse: "JSON_parse rejecting_engine = JSON_parse sample_engine"
  by (simp add: rejecting_engine_def)

lemma sample_cycles_fail:
  assumes "opt_schema opts = None"
  shows "parse_validate sample_engine opts (units ''oops'')
           = Inl (Error ''Unexpected token in JSON'')"
    and "parse_validate sample_engine opts (units ''still not JSON'')
           = Inl (Error ''Unexpected token in JSON'')"
    and "parse_validate rejecting_engine opts (units ''oops'')
           = Inl (Error ''Unexpected token in JSON'')"
    and "parse_validate sample_engine opts doc_empty_array = Inr (units ''{}'')"
    and "parse_validate sample_engine opts doc_b_compact = Inr doc_b_pretty"
  using assms
  by (simp_all add: parse_validate_def sample_texts_stripped sample_texts_escaped
        sample_engine_parse sample_engine_stringify rejecting_engine_parse)


lemma sample_maxAttempts:
  "maxAttempts no_options = Num 5" "maxAttempts array_options = Num 5"
  "maxAttempts number_options = Num 5" "maxAttempts fractional_options = Num (5 / 2)"
  "opt_schema no_options = None" "opt_schema fractional_options = None"
  by (simp_all add: maxAttempts_def no_options_def array_options_def number_options_def
        fractional_options_def or_default_def DEFAULT_ATTEMPTS_def)

lemma sample_numbers:
  "show_nat 5 = ''5''"
  "number_string (Number_toString sample_engine) (Num 5) = ''5''"
  "number_string (Number_toString sample_engine) (Num (5 / 2)) = ''2.5''"
  by code_simp+

lemmas sample_run_simps = validateAndCorrectJson_def attempt_loop.simps less_than_def
  plus_one_def sample_maxAttempts sample_texts_stripped sample_engine_repair
  rejecting_engine_repair sample_numbers buildErrorMessage_def

lemma sample_failing_run:
  "map_option run_tried (validateAndCorrectJson sample_engine (units ''oops'') no_options)
     = Some [units ''oops'', units ''still not JSON'', units ''still not JSON'',
             units ''still not JSON'', units ''still not JSON'']"
  by (simp add: sample_run_simps sample_cycles_fail)

lemma sample_runs:
  "map_option run_tried (validateAndCorrectJson rejecting_engine (units ''oops'') no_options)
     = Some [units ''oops'']"
  "map_option (length \<circ> run_calls)
      (validateAndCorrectJson rejecting_engine (units ''oops'') no_options) = Some 1"
  "map_option run_result (validateAndCorrectJson rejecting_engine (units ''oops'') no_options)
     = Some (Inl (Error ''Resource exhausted''))"
  "map_option run_tried (validateAndCorrectJson sample_engine doc_b_compact no_options)
     = Some [doc_b_compact]"
  "map_option run_tried
      (validateAndCorrectJson sample_engine (units ''oops'') fractional_options)
     = Some [units ''oops'', units ''still not JSON'', units ''still not JSON'']"
  "map_option (length \<circ> run_calls)
      (validateAndCorrectJson sample_engine (units ''oops'') fractional_options) = Some 3"
  "map_option (length \<circ> run_tried)
      (validateAndCorrectJson sample_engine (units ''oops'') fractional_options) = Some 3"
  "map_option run_result
      (validateAndCorrectJson sample_engine (units ''oops'') fractional_options)
     = Some (Inl (Error ''Failed to validate JSON after 2.5 attempts: Unexpected token in JSON''))"
  by (simp_all add: sample_run_simps sample_cycles_fail)

lemma sample_bounds:
  "cycle_bound (maxAttempts no_options) = Some 5"
  "maxAttempts no_options = Num (of_nat 5)"
  by (simp_all add: sample_maxAttempts cycle_bound_def)

theorem validateAndCorrectJson_bounded_attempts_witness:
  "cycle_bound (maxAttempts no_options) = Some 5
   \<and> map_option run_tried (validateAndCorrectJson sample_engine (units ''oops'') no_options)
       = Some [units ''oops'', units ''still not JSON'', units ''still not JSON'',
               units ''still not JSON'', units ''still not JSON'']
   \<and> map_option (length \<circ> run_calls)
        (validateAndCorrectJson sample_engine (units ''oops'') no_options) = Some 5
   \<and> map_option run_result (validateAndCorrectJson sample_engine (units ''oops'') no_options)
       = Some (Inl (Error
            ''Failed to validate JSON after 5 attempts: Unexpected token in JSON''))
   \<and> map_option run_tried (validateAndCorrectJson rejecting_engine (units ''oops'') no_options)
       = Some [units ''oops'']
   \<and> map_option run_result (validateAndCorrectJson rejecting_engine (units ''oops'') no_options)
       = Some (Inl (Error ''Resource exhausted''))
   \<and> map_option run_result (validateAndCorrectJson sample_engine doc_b_compact no_options)
       = Some (Inr doc_b_pretty)
   \<and> map_option run_calls (validateAndCorrectJson sample_engine doc_b_compact no_options)
       = Some []"
proof -
  note none = sample_maxAttempts(5)
  from validateAndCorrectJson_bounded_attempts
         [OF sample_bounds(1), of 5 sample_engine "units ''oops''"]
  obtain r where r: "validateAndCorrectJson sample_engine (units ''oops'') no_options = Some r"
    and all: "list_all (cycle_fails sample_engine no_options) (run_tried r)
                \<and> list_all (answered sample_engine) (run_calls r) \<longrightarrow>
                  length (run_tried r) = 5 \<and> length (run_calls r) = 5
                \<and> run_result r =
                    Inl (Error (''Failed to validate JSON after ''
                                @ number_string (Number_toString sample_engine)
                                    (maxAttempts no_options)
                                @ '' attempts: ''
                                @ (if (5::nat) = 0 then ''undefined''
                                   else cycle_error sample_engine no_options
                                          (last (run_tried r)))))"
    by blast
  from r sample_failing_run
  have t: "run_tried r = [units ''oops'', units ''still not JSON'', units ''still not JSON'',
               units ''still not JSON'', units ''still not JSON'']"
    by simp
  have "list_all (cycle_fails sample_engine no_options) (run_tried r)"
    by (simp add: t cycle_fails_def sample_cycles_fail [OF none])
  moreover have "list_all (answered sample_engine) (run_calls r)"
    by (simp add: list_all_iff sample_engine_repair)
  moreover have "cycle_error sample_engine no_options (last (run_tried r))
                   = ''Unexpected token in JSON''"
    by (simp add: t cycle_error_def sample_cycles_fail [OF none] buildErrorMessage_def)
  ultimately have 1: "length (run_calls r) = 5"
    and 2: "run_result r =
       Inl (Error ''Failed to validate JSON after 5 attempts: Unexpected token in JSON'')"
    using all by (simp_all add: sample_maxAttempts sample_numbers)
  from validateAndCorrectJson_bounded_attempts
         [OF sample_bounds(1), of 5 rejecting_engine "units ''oops''"]
  obtain q where q: "validateAndCorrectJson rejecting_engine (units ''oops'') no_options = Some q"
    and rj: "\<forall>x. run_calls q \<noteq> []
                    \<and> repairStructuredJson rejecting_engine (last (run_calls q)) = Inl x \<longrightarrow>
                  run_result q = Inl x \<and> length (run_calls q) = length (run_tried q)"
    by blast
  from q sample_runs(1,2) have tq: "run_tried q = [units ''oops'']" "run_calls q \<noteq> []"
    by auto
  with rj rejecting_engine_repair
  have 3: "run_result q = Inl (Error ''Resource exhausted'')"
    by blast
  from validateAndCorrectJson_bounded_attempts
         [OF sample_bounds(1), of 5 sample_engine doc_b_compact]
  obtain g where g: "validateAndCorrectJson sample_engine doc_b_compact no_options = Some g"
    and ok: "\<forall>out. run_result g = Inr out \<longrightarrow>
                  run_tried g \<noteq> []
                \<and> parse_validate sample_engine no_options (last (run_tried g)) = Inr out
                \<and> Suc (length (run_calls g)) = length (run_tried g)"
    and er: "(\<exists>e. run_result g = Inl e) \<longrightarrow>
                  list_all (cycle_fails sample_engine no_options) (run_tried g)"
    by blast
  from g sample_runs(4) have tg: "run_tried g = [doc_b_compact]" by simp
  have "\<not> cycle_fails sample_engine no_options doc_b_compact"
    by (simp add: cycle_fails_def sample_cycles_fail [OF none])
  with er tg obtain out where out: "run_result g = Inr out"
    by (cases "run_result g") auto
  with ok tg have 4: "run_result g = Inr doc_b_pretty" and 5: "run_calls g = []"
    by (simp_all add: sample_cycles_fail [OF none])
  from r t 1 2 q tq 3 g 4 5 sample_bounds(1) show ?thesis
    by simp
qed

text \<open>
  C3, against the claim as stated. With \<open>maxAttempts\<close> 2.5 and a text that never becomes
  valid, the run has three parse/validate cycles and sends three repair requests: more
  than \<open>maxAttempts\<close>. And with the default \<open>maxAttempts\<close> and a model that rejects the
  repair request, the only cycle fails and the run ends after that one cycle with the
  model's error, which does not contain the error of the cycle.
\<close>

theorem repair_count_above_maxAttempts_or_stopped_by_model:
  "maxAttempts fractional_options = Num (5 / 2)
   \<and> map_option (length \<circ> run_tried)
        (validateAndCorrectJson sample_engine (units ''oops'') fractional_options) = Some 3
   \<and> map_option (length \<circ> run_calls)
        (validateAndCorrectJson sample_engine (units ''oops'') fractional_options) = Some 3
   \<and> \<not> less_than 3 (Num (5 / 2))
   \<and> maxAttempts no_options = Num 5
   \<and> cycle_fails rejecting_engine no_options (units ''oops'')
   \<and> map_option run_tried (validateAndCorrectJson rejecting_engine (units ''oops'') no_options)
       = Some [units ''oops'']
   \<and> map_option run_result (validateAndCorrectJson rejecting_engine (units ''oops'') no_options)
       = Some (Inl (Error ''Resource exhausted''))"
proof -
  have "cycle_fails rejecting_engine no_options (units ''oops'')"
    by (simp add: cycle_fails_def sample_cycles_fail [OF sample_maxAttempts(5)])
  moreover have "\<not> less_than 3 (Num (5 / 2))"
    by (simp add: less_than_def)
  ultimately show ?thesis
    using sample_runs(1,3,6,7) sample_maxAttempts(1,4) by simp
qed








subsection \<open>Module content is stored as generated\<close>

lemma extractJsonFromResponse_direct:
  "parse txt = Inr v \<Longrightarrow> extractJsonFromResponse parse txt = Inr v"
  by (simp add: extractJsonFromResponse_def)

lemma generateModuleContentAI_returns_parsed:
  assumes "apiKey env = Some k" and "k \<noteq> []"
    and "fetch env (module_prompt env input) = HttpOk (Some txt)" and "txt \<noteq> []"
    and "ai_parse env txt = Inr v"
  shows "generateModuleContentAI env input = Inr v"
  using assms by (simp add: generateModuleContentAI_def extractJsonFromResponse_direct)

lemma lesson_args_docs:
  assumes "list_all (\<lambda>l. fst l \<noteq> [] \<and> truthy (snd l)) ls"
  shows "\<exists>as. lesson_args idx (map lesson_doc ls) = Inr as
            \<and> map la_content as = map snd ls \<and> list_all valid_lessonArg as"
  using assms
proof (induction ls arbitrary: idx)
  case Nil
  then show ?case by simp
next
  case (Cons l ls)
  then obtain as where as: "lesson_args (idx + 1) (map lesson_doc ls) = Inr as"
    "map la_content as = map snd ls" "list_all valid_lessonArg as"
    by auto
  from Cons.prems have l: "fst l \<noteq> []" "truthy (snd l)" by simp_all
  let ?a = "\<lparr>la_title = Some (JStr (fst l)), la_description = None, la_order = idx,
               la_type = ''mixed'', la_content = snd l\<rparr>"
  have "lesson_arg idx (lesson_doc l) = Inr ?a"
    using l by (simp add: lesson_arg_def lesson_doc_def js_or_def)
  moreover have "valid_lessonArg ?a"
    by (simp add: valid_lessonArg_def v_optional_string_def)
  ultimately show ?case using as by simp
qed

lemma module_args_doc:
  assumes "t \<noteq> []" and "list_all (\<lambda>l. fst l \<noteq> [] \<and> truthy (snd l)) ls"
  shows "\<exists>d as. module_args mo i (module_doc t ls) = Inr (d, as)
            \<and> valid_moduleData d \<and> md_order d = i
            \<and> map la_content as = map snd ls \<and> list_all valid_lessonArg as"
proof -
  from lesson_args_docs [OF assms(2), of 0] obtain as where
    as: "lesson_args 0 (map lesson_doc ls) = Inr as"
    "map la_content as = map snd ls" "list_all valid_lessonArg as" by blast
  show ?thesis
    using assms(1) as
    by (cases "mo_description mo")
       (simp_all add: module_args_def module_doc_def js_or_def valid_moduleData_def
          v_optional_string_def Let_def)
qed

lemma lesson_arg_content:
  "lesson_arg idx lesson = Inr a \<Longrightarrow> la_content a = lesson_content lesson \<and> la_order a = idx"
  by (cases lesson)
     (auto simp add: lesson_arg_def lesson_content_def js_or_def split: option.splits)

lemma lesson_args_contents:
  "lesson_args idx xs = Inr as \<Longrightarrow> map la_content as = map lesson_content xs"
proof (induction xs arbitrary: idx as)
  case Nil
  then show ?case by simp
next
  case (Cons x xs)
  then show ?case
    by (auto simp add: lesson_arg_content split: sum.splits)
qed

lemma module_args_contents:
  assumes "module_args mo i mc = Inr (d, as)"
  shows "map la_content as = map lesson_content (response_lessons mc)" and "md_order d = i"
proof -
  from assms have "\<exists>xs. lesson_args 0 xs = Inr as \<and> response_lessons mc = xs"
    by (cases mc)
       (auto simp add: module_args_def response_lessons_def js_or_def Let_def
          split: sum.splits option.splits json.splits if_splits)
  then show "map la_content as = map lesson_content (response_lessons mc)"
    using lesson_args_contents by blast
  from assms show "md_order d = i"
    by (auto simp add: module_args_def Let_def split: sum.splits option.splits json.splits)
qed

lemma module_stage_accepted:
  assumes "c < length (capsules w)" and "j < length (capsuleGenerationJobs w)"
    and "o_modules ol = Some ms" and "i < length ms"
    and "mai (module_input (capsules w ! c) ol (ms ! i) i) = Inr mc"
    and "module_accepted w (ms ! i) i mc"
    and "w' = snd (generateModuleContent mai c j g i ol w)"
  shows "fst (generateModuleContent mai c j g i ol w) = Inr ()"
    and "map l_content (capsuleLessons w')
           = map l_content (capsuleLessons w) @ map lesson_content (response_lessons mc)"
    and "length (capsuleModules w') = Suc (length (capsuleModules w))"
    and "m_order (last (capsuleModules w')) = i"
    and "retryCount (capsuleGenerationJobs w' ! j) = retryCount (capsuleGenerationJobs w ! j)"
    and "capsules w' = capsules w"
    and "scheduled w' = scheduled w @
             [(0, if Suc i \<ge> length ms then FinalizeGeneration c j g
                  else GenerateModuleContent c j g (Suc i) ol)]"
proof -
  from assms(6) obtain d as where ma: "module_args (ms ! i) i mc = Inr (d, as)"
    and r: "store_refuses w d as = None"
    and v: "valid_moduleData d" "list_all valid_lessonArg as"
    by (auto simp add: module_accepted_def split: sum.splits)
  note cs = module_args_contents [OF ma]
  have lc: "map (l_content \<circ> lesson_row n m k) as = map la_content as" for n m k
    by (simp add: lesson_row_def)
  show "fst (generateModuleContent mai c j g i ol w) = Inr ()"
    and "map l_content (capsuleLessons w')
           = map l_content (capsuleLessons w) @ map lesson_content (response_lessons mc)"
    and "length (capsuleModules w') = Suc (length (capsuleModules w))"
    and "m_order (last (capsuleModules w')) = i"
    and "retryCount (capsuleGenerationJobs w' ! j) = retryCount (capsuleGenerationJobs w ! j)"
    and "capsules w' = capsules w"
    and "scheduled w' = scheduled w @
             [(0, if Suc i \<ge> length ms then FinalizeGeneration c j g
                  else GenerateModuleContent c j g (Suc i) ol)]"
    using assms(1-5) ma r v cs unfolding assms(7)
    by (simp_all add: generateModuleContent_def generateModuleContent_try_def try_catch_def
          bindA_def thenA_def throwA_def getCapsuleForGeneration_def saveGeneratedModule_def
          updateGenerationJob_def runAfter_def Let_def lc patch_job_def no_updates_def)
qed

lemma module_stage_refused_try:
  assumes "c < length (capsules w)"
    and "o_modules ol = Some ms" and "i < length ms"
    and "mai (module_input (capsules w ! c) ol (ms ! i) i) = Inr mc"
    and "\<not> module_accepted w (ms ! i) i mc"
  shows "\<exists>e. generateModuleContent_try mai c j g i ol w = (Inl e, w)"
proof (cases "module_args (ms ! i) i mc")
  case (Inl e)
  with assms(1-4) show ?thesis
    by (simp add: generateModuleContent_try_def throwA_def getCapsuleForGeneration_def Let_def)
next
  case (Inr p)
  obtain d as where p: "p = (d, as)" by (cases p)
  from assms(5) Inr p
  have "store_refuses w d as \<noteq> None \<or> \<not> (valid_moduleData d \<and> list_all valid_lessonArg as)"
    by (auto simp add: module_accepted_def)
  then have "\<exists>e. saveGeneratedModule c d as w = (Inl e, w)"
    by (auto simp add: saveGeneratedModule_def)
  with assms(1-4) Inr p show ?thesis
    by (auto simp add: generateModuleContent_try_def bindA_def getCapsuleForGeneration_def
        Let_def)
qed

lemma module_stage_refused:
  assumes "c < length (capsules w)" and "j < length (capsuleGenerationJobs w)"
    and "o_modules ol = Some ms" and "i < length ms"
    and "mai (module_input (capsules w ! c) ol (ms ! i) i) = Inr mc"
    and "\<not> module_accepted w (ms ! i) i mc"
    and "w' = snd (generateModuleContent mai c j g i ol w)"
  shows "capsuleModules w' = capsuleModules w" and "capsuleLessons w' = capsuleLessons w"
    and "retryCount (capsuleGenerationJobs w ! j) < 2 \<longrightarrow>
           retryCount (capsuleGenerationJobs w' ! j)
             = Suc (retryCount (capsuleGenerationJobs w ! j))
           \<and> capsules w' = capsules w
           \<and> scheduled w' = scheduled w @
               [(2 ^ Suc (retryCount (capsuleGenerationJobs w ! j)) * 1000,
                 GenerateModuleContent c j g i ol)]"
    and "\<not> retryCount (capsuleGenerationJobs w ! j) < 2 \<longrightarrow>
           status (capsules w' ! c) = failed \<and> scheduled w' = scheduled w"
proof -
  from assms(1,3,4,5,6) have "\<exists>e. generateModuleContent_try mai c j g i ol w = (Inl e, w)"
    by (rule module_stage_refused_try)
  then obtain e where
    "generateModuleContent_try mai c j g i ol w = (Inl e, w)" by blast
  then have w': "w' = snd (generateModuleContent_catch c j g i ol e w)"
    unfolding assms(7) by (simp add: generateModuleContent_def try_catch_def)
  show "capsuleModules w' = capsuleModules w" and "capsuleLessons w' = capsuleLessons w"
    and "retryCount (capsuleGenerationJobs w ! j) < 2 \<longrightarrow>
           retryCount (capsuleGenerationJobs w' ! j)
             = Suc (retryCount (capsuleGenerationJobs w ! j))
           \<and> capsules w' = capsules w
           \<and> scheduled w' = scheduled w @
               [(2 ^ Suc (retryCount (capsuleGenerationJobs w ! j)) * 1000,
                 GenerateModuleContent c j g i ol)]"
    and "\<not> retryCount (capsuleGenerationJobs w ! j) < 2 \<longrightarrow>
           status (capsules w' ! c) = failed \<and> scheduled w' = scheduled w"
    using assms(1,2) unfolding w'
    by (simp_all add: generateModuleContent_catch_def action_defs mutation_defs Let_def
          patch_job_def no_updates_def patch_capsule_def status_args_def given_def)
qed

text \<open>
  C2, amended. The output of the module-content generator is parsed as JSON and nothing
  more; the module stage builds the arguments of \<open>saveGeneratedModule\<close> from the parsed
  response. For every parsed response the outcome of the stage is decided by
  \<open>module_accepted\<close>: the arguments can be built, the runtime does not refuse them, and
  the validators pass, which look at the module's title, description, introduction,
  learning objectives and summary and at each lesson's title and description.

  (1) An accepted response is persisted: the stage returns normally, stores one module
  with its order and, for each lesson of the response, its content (\<open>lesson.content\<close>, or
  the lesson itself when that is falsy) as generated, leaves the capsule and the retry
  count alone, and schedules the next stage with no delay.
  (2) A response that is not accepted leaves the module and lesson tables as they are and
  goes to the retry path: below the third failure the retry count goes up by one and the
  same module is scheduled again after the backoff, at the third failure the capsule is
  marked failed and nothing is scheduled.
  (3) No condition is on the content of a lesson: a response with a non-empty title whose
  lessons have a non-empty title and a truthy content is accepted, whatever the contents,
  unless the runtime refuses the call. The question rules of the prompt are not checked
  anywhere on the way.
\<close>

theorem module_content_persisted_unvalidated:
  assumes "c < length (capsules w)" and "j < length (capsuleGenerationJobs w)"
    and "o_modules ol = Some ms" and "i < length ms"
    and "mai (module_input (capsules w ! c) ol (ms ! i) i) = Inr mc"
    and "w' = snd (generateModuleContent mai c j g i ol w)"
  shows "(module_accepted w (ms ! i) i mc \<longrightarrow>
            fst (generateModuleContent mai c j g i ol w) = Inr ()
          \<and> map l_content (capsuleLessons w')
              = map l_content (capsuleLessons w) @ map lesson_content (response_lessons mc)
          \<and> length (capsuleModules w') = Suc (length (capsuleModules w))
          \<and> m_order (last (capsuleModules w')) = i
          \<and> retryCount (capsuleGenerationJobs w' ! j) = retryCount (capsuleGenerationJobs w ! j)
          \<and> capsules w' = capsules w
          \<and> scheduled w' = scheduled w @
               [(0, if Suc i \<ge> length ms then FinalizeGeneration c j g
                    else GenerateModuleContent c j g (Suc i) ol)])
       \<and> (\<not> module_accepted w (ms ! i) i mc \<longrightarrow>
            capsuleModules w' = capsuleModules w \<and> capsuleLessons w' = capsuleLessons w
          \<and> (retryCount (capsuleGenerationJobs w ! j) < 2 \<longrightarrow>
                retryCount (capsuleGenerationJobs w' ! j)
                  = Suc (retryCount (capsuleGenerationJobs w ! j))
              \<and> capsules w' = capsules w
              \<and> scheduled w' = scheduled w @
                  [(2 ^ Suc (retryCount (capsuleGenerationJobs w ! j)) * 1000,
                    GenerateModuleContent c j g i ol)])
          \<and> (\<not> retryCount (capsuleGenerationJobs w ! j) < 2 \<longrightarrow>
                status (capsules w' ! c) = failed \<and> scheduled w' = scheduled w))
       \<and> (t \<noteq> [] \<and> list_all (\<lambda>l. fst l \<noteq> [] \<and> truthy (snd l)) ls \<longrightarrow>
            (\<exists>d as. module_args mo k (module_doc t ls) = Inr (d, as)
                \<and> map la_content as = map snd ls
                \<and> module_accepted w mo k (module_doc t ls) = (store_refuses w d as = None)))"
proof (intro conjI impI)
  assume a: "module_accepted w (ms ! i) i mc"
  note r = module_stage_accepted [OF assms(1-5) a assms(6)]
  from r(1) show "fst (generateModuleContent mai c j g i ol w) = Inr ()" .
  from r(2) show "map l_content (capsuleLessons w')
      = map l_content (capsuleLessons w) @ map lesson_content (response_lessons mc)" .
  from r(3) show "length (capsuleModules w') = Suc (length (capsuleModules w))" .
  from r(4) show "m_order (last (capsuleModules w')) = i" .
  from r(5) show "retryCount (capsuleGenerationJobs w' ! j)
      = retryCount (capsuleGenerationJobs w ! j)" .
  from r(6) show "capsules w' = capsules w" .
  from r(7) show "scheduled w' = scheduled w @
               [(0, if Suc i \<ge> length ms then FinalizeGeneration c j g
                    else GenerateModuleContent c j g (Suc i) ol)]" .
next
  assume a: "\<not> module_accepted w (ms ! i) i mc"
  note r = module_stage_refused [OF assms(1-5) a assms(6)]
  from r(1) show "capsuleModules w' = capsuleModules w" .
  from r(2) show "capsuleLessons w' = capsuleLessons w" .
  {
    assume l: "retryCount (capsuleGenerationJobs w ! j) < 2"
    from r(3) l show "retryCount (capsuleGenerationJobs w' ! j)
                  = Suc (retryCount (capsuleGenerationJobs w ! j))" by blast
    from r(3) l show "capsules w' = capsules w" by blast
    from r(3) l show "scheduled w' = scheduled w @
                  [(2 ^ Suc (retryCount (capsuleGenerationJobs w ! j)) * 1000,
                    GenerateModuleContent c j g i ol)]" by blast
  }
  {
    assume l: "\<not> retryCount (capsuleGenerationJobs w ! j) < 2"
    from r(4) l show "status (capsules w' ! c) = failed" by blast
    from r(4) l show "scheduled w' = scheduled w" by blast
  }
next
  assume a: "t \<noteq> [] \<and> list_all (\<lambda>l. fst l \<noteq> [] \<and> truthy (snd l)) ls"
  then have "t \<noteq> []" and "list_all (\<lambda>l. fst l \<noteq> [] \<and> truthy (snd l)) ls" by simp_all
  from module_args_doc [OF this, of mo k] obtain d as where
    "module_args mo k (module_doc t ls) = Inr (d, as)" "valid_moduleData d"
    "map la_content as = map snd ls" "list_all valid_lessonArg as" by blast
  then show "\<exists>d as. module_args mo k (module_doc t ls) = Inr (d, as)
                \<and> map la_content as = map snd ls
                \<and> module_accepted w mo k (module_doc t ls) = (store_refuses w d as = None)"
    by (simp add: module_accepted_def)
qed

lemma sample_module_accepted:
  "module_accepted module_stage_world (the (o_modules sample_outline) ! 0) 0
     sample_module_content"
  "\<not> module_accepted module_stage_world (the (o_modules sample_outline) ! 0) 0
       sample_module_bad_objectives"
  "\<not> module_accepted
       (module_stage_world\<lparr>capsuleGenerationJobs := [sample_job\<lparr>retryCount := 2\<rparr>]\<rparr>)
       (the (o_modules sample_outline) ! 0) 0 sample_module_bad_objectives"
  "map lesson_content (response_lessons sample_module_content) = [sample_lesson_content]"
  by code_simp+

theorem module_content_persisted_unvalidated_witness:
  "module_accepted module_stage_world (the (o_modules sample_outline) ! 0) 0
     sample_module_content
   \<and> map l_content
        (capsuleLessons
          (snd (generateModuleContent (answer_module sample_module_content)
                  0 0 ''gen_0_abc'' 0 sample_outline module_stage_world)))
       = [sample_lesson_content]
   \<and> scheduled
        (snd (generateModuleContent (answer_module sample_module_content)
                0 0 ''gen_0_abc'' 0 sample_outline module_stage_world))
       = [(0, GenerateModuleContent 0 0 ''gen_0_abc'' 1 sample_outline)]
   \<and> \<not> module_accepted module_stage_world (the (o_modules sample_outline) ! 0) 0
         sample_module_bad_objectives
   \<and> capsuleLessons
        (snd (generateModuleContent (answer_module sample_module_bad_objectives)
                0 0 ''gen_0_abc'' 0 sample_outline module_stage_world)) = []
   \<and> retryCount
        (capsuleGenerationJobs
          (snd (generateModuleContent (answer_module sample_module_bad_objectives)
                  0 0 ''gen_0_abc'' 0 sample_outline module_stage_world)) ! 0) = 1
   \<and> scheduled
        (snd (generateModuleContent (answer_module sample_module_bad_objectives)
                0 0 ''gen_0_abc'' 0 sample_outline module_stage_world))
       = [(2000, GenerateModuleContent 0 0 ''gen_0_abc'' 0 sample_outline)]
   \<and> status
        (capsules
          (snd (generateModuleContent (answer_module sample_module_bad_objectives)
                  0 0 ''gen_0_abc'' 0 sample_outline
                  (module_stage_world
                     \<lparr>capsuleGenerationJobs := [sample_job\<lparr>retryCount := 2\<rparr>]\<rparr>))) ! 0)
       = failed
   \<and> module_accepted module_stage_world (the (o_modules sample_outline) ! 0) 0
         (module_doc ''Stacks'' [(''Push and pop'', sample_lesson_content)])"
proof -
  let ?w = module_stage_world
  let ?v = "module_stage_world\<lparr>capsuleGenerationJobs := [sample_job\<lparr>retryCount := 2\<rparr>]\<rparr>"
  let ?ms = "the (o_modules sample_outline)"
  let ?ls = "[(''Push and pop'', sample_lesson_content)]"
  have w: "0 < length (capsules ?w)" "0 < length (capsuleGenerationJobs ?w)"
    "retryCount (capsuleGenerationJobs ?w ! 0) = 0" "scheduled ?w = []"
    "capsuleLessons ?w = []" "store_refuses ?w = (\<lambda>d ls. None)"
    by (simp_all add: module_stage_world_def sample_job_def)
  have v: "0 < length (capsules ?v)" "0 < length (capsuleGenerationJobs ?v)"
    "retryCount (capsuleGenerationJobs ?v ! 0) = 2"
    by (simp_all add: module_stage_world_def)
  have ol: "o_modules sample_outline = Some ?ms" "0 < length ?ms" "\<not> Suc 0 \<ge> length ?ms"
    by (simp_all add: sample_outline_def)
  have t: "''Stacks'' \<noteq> [] \<and> list_all (\<lambda>l. fst l \<noteq> [] \<and> truthy (snd l)) ?ls"
    by (simp add: sample_lesson_content_def)
  have a: "answer_module mc input = Inr mc" for mc input
    by (simp add: answer_module_def)
  note good = module_content_persisted_unvalidated
      [where mai = "answer_module sample_module_content" and mc = sample_module_content and g = "''gen_0_abc''"
         and t = "''Stacks''" and ls = ?ls and mo = "?ms ! 0" and k = 0,
       OF w(1,2) ol(1,2) a refl]
  note bad = module_content_persisted_unvalidated
      [where mai = "answer_module sample_module_bad_objectives" and mc = sample_module_bad_objectives and g = "''gen_0_abc''"
         and t = "''Stacks''" and ls = ?ls and mo = "?ms ! 0" and k = 0,
       OF w(1,2) ol(1,2) a refl]
  note last = module_content_persisted_unvalidated
      [where mai = "answer_module sample_module_bad_objectives" and mc = sample_module_bad_objectives and g = "''gen_0_abc''"
         and t = "''Stacks''" and ls = ?ls and mo = "?ms ! 0" and k = 0,
       OF v(1,2) ol(1,2) a refl]
  from good sample_module_accepted(1,4) w ol(3)
  have 1: "map l_content
        (capsuleLessons
          (snd (generateModuleContent (answer_module sample_module_content)
                  0 0 ''gen_0_abc'' 0 sample_outline module_stage_world)))
       = [sample_lesson_content]"
    and 2: "scheduled
        (snd (generateModuleContent (answer_module sample_module_content)
                0 0 ''gen_0_abc'' 0 sample_outline module_stage_world))
       = [(0, GenerateModuleContent 0 0 ''gen_0_abc'' 1 sample_outline)]"
    by simp_all
  from bad sample_module_accepted(2) w
  have 3: "capsuleLessons
        (snd (generateModuleContent (answer_module sample_module_bad_objectives)
                0 0 ''gen_0_abc'' 0 sample_outline module_stage_world)) = []"
    and 4: "retryCount
        (capsuleGenerationJobs
          (snd (generateModuleContent (answer_module sample_module_bad_objectives)
                  0 0 ''gen_0_abc'' 0 sample_outline module_stage_world)) ! 0) = 1"
    and 5: "scheduled
        (snd (generateModuleContent (answer_module sample_module_bad_objectives)
                0 0 ''gen_0_abc'' 0 sample_outline module_stage_world))
       = [(2000, GenerateModuleContent 0 0 ''gen_0_abc'' 0 sample_outline)]"
    by simp_all
  from last sample_module_accepted(3) v
  have 6: "status
        (capsules
          (snd (generateModuleContent (answer_module sample_module_bad_objectives)
                  0 0 ''gen_0_abc'' 0 sample_outline ?v)) ! 0) = failed"
    by simp
  from good t w(6)
  have 7: "module_accepted module_stage_world (?ms ! 0) 0 (module_doc ''Stacks'' ?ls)"
    by auto
  from sample_module_accepted(1,2) 1 2 3 4 5 6 7 show ?thesis
    by simp
qed

text \<open>
  C2, against the claim as stated: the generator answers with a lesson whose
  drag-and-drop question has two targets and one item, the second target accepting
  nothing. The question breaks the rules of the prompt; the answer is parsed and returned
  by \<open>generateModuleContentAI\<close> as it is, and the module stage stores the lesson content
  unchanged, counts no retry and schedules the next module.
\<close>

theorem invalid_dragDrop_persisted:
  "\<not> dragDrop_rules_hold sample_dragDrop
   \<and> generateModuleContentAI sample_ai_env
        (module_input (sample_capsule generating_content) sample_outline
           (the (o_modules sample_outline) ! 0) 0) = Inr sample_module_content
   \<and> map l_content
        (capsuleLessons
           (snd (generateModuleContent (generateModuleContentAI sample_ai_env) 0 0 ''gen_0_abc''
                   0 sample_outline module_stage_world))) = [sample_lesson_content]
   \<and> retryCount
        (capsuleGenerationJobs
           (snd (generateModuleContent (generateModuleContentAI sample_ai_env) 0 0 ''gen_0_abc''
                   0 sample_outline module_stage_world)) ! 0) = 0
   \<and> scheduled
        (snd (generateModuleContent (generateModuleContentAI sample_ai_env) 0 0 ''gen_0_abc''
                0 sample_outline module_stage_world))
       = [(0, GenerateModuleContent 0 0 ''gen_0_abc'' 1 sample_outline)]"
  by code_simp

end
